(* ===== verification/Prelude.thy ===== *)
theory Prelude
  imports Main
begin

text \<open>
  The JavaScript primitives the portfolio's code relies on, shared by every component
  theory: JavaScript strings and the \<open>\s\<close> character class, \<open>String.prototype.trim\<close>
  and \<open>toLowerCase\<close>, exceptions as the left side of a sum, parsed JSON values with
  their truthiness, property access and \<open>ToString\<close> conversion.

  A JavaScript string is a sequence of UTF-16 code units; the model restricts code
  units to the 256 values of HOL's \<open>char\<close> (Latin-1), on which \<open>\s\<close>, \<open>trim\<close> and
  \<open>toLowerCase\<close> are given exactly by the ECMAScript tables.
\<close>

named_theorems js_simps "evaluation rules of the modelled JavaScript primitives"

type_synonym jstr = string

section \<open>Strings\<close>

text \<open>
  \<open>\s\<close> in a regular expression and the characters \<open>trim\<close> removes are the same
  set, WhiteSpace and LineTerminator: below 256 these are TAB, LF, VT, FF, CR, SPACE
  and NO-BREAK SPACE (U+00A0).
\<close>

definition js_ws :: "char \<Rightarrow> bool" where
  "js_ws c = (let n = (of_char c :: nat) in (9 \<le> n \<and> n \<le> 13) \<or> n = 32 \<or> n = 160)"

definition js_trim :: "jstr \<Rightarrow> jstr" where
  "js_trim s = rev (dropWhile js_ws (rev (dropWhile js_ws s)))"

text \<open>
  \<open>toLowerCase\<close> on Latin-1: A--Z and U+00C0--U+00DE except U+00D7 map 32 code
  points up; every other code unit below 256 is its own lower case.
\<close>

definition js_lower_char :: "char \<Rightarrow> char" where
  "js_lower_char c =
     (let n = (of_char c :: nat)
      in if (65 \<le> n \<and> n \<le> 90) \<or> (192 \<le> n \<and> n \<le> 222 \<and> n \<noteq> 215)
         then char_of (n + 32) else c)"

definition js_lower :: "jstr \<Rightarrow> jstr" where
  "js_lower s = map js_lower_char s"

text \<open>\<open>Array.prototype.join(sep)\<close> on a list of already converted strings.\<close>

fun join_with :: "jstr \<Rightarrow> jstr list \<Rightarrow> jstr" where
  "join_with sep [] = []"
| "join_with sep [s] = s"
| "join_with sep (s # ss) = s @ sep @ join_with sep ss"

text \<open>
  \<open>String.prototype.split(c)\<close> for a one-character separator: the pieces between
  separators, empty pieces included; the empty string gives one empty piece.
\<close>

fun js_split :: "char \<Rightarrow> jstr \<Rightarrow> jstr list" where
  "js_split c [] = [[]]"
| "js_split c (x # xs) =
     (if x = c then [] # js_split c xs
      else (let r = js_split c xs in (x # hd r) # tl r))"

text \<open>Decimal rendering of an integer, as \<open>Number.prototype.toString()\<close> gives it.\<close>

fun dec_digits :: "nat \<Rightarrow> jstr" where
  "dec_digits n =
     (if n < 10 then [char_of (48 + n)]
      else dec_digits (n div 10) @ [char_of (48 + n mod 10)])"

definition js_int_str :: "int \<Rightarrow> jstr" where
  "js_int_str i = (if i < 0 then ''-'' @ dec_digits (nat (- i)) else dec_digits (nat i))"

text \<open>
  A few fixed literals of the code hold a character beyond U+00FF (the check mark
  U+2705 of the test route's messages). Such a literal is never inspected by the code;
  the model writes the character as its UTF-8 bytes, as it goes on the wire.
\<close>

definition u2705 :: jstr where
  "u2705 = [CHR 0xE2, CHR 0x9C, CHR 0x85]"

section \<open>Exceptions\<close>

text \<open>
  A thrown exception is the left value of a sum; \<open>ebind\<close> runs the rest of a block
  only when the statement before it returned normally.
\<close>

datatype exn = TypeError jstr | Error jstr

fun exn_message :: "exn \<Rightarrow> jstr" where
  "exn_message (TypeError m) = m"
| "exn_message (Error m) = m"

definition ebind :: "exn + 'a \<Rightarrow> ('a \<Rightarrow> exn + 'b) \<Rightarrow> exn + 'b" where
  "ebind r f = (case r of Inl e \<Rightarrow> Inl e | Inr a \<Rightarrow> f a)"

section \<open>Parsed JSON values\<close>

text \<open>
  A request body after \<open>JSON.parse\<close> (or the URL-encoded parser): the JSON values,
  and \<open>undefined\<close> for a body that was not parsed. Numbers are the integral ones;
  an object keeps its members in source order (\<open>JSON.parse\<close> keeps the last of two
  members with the same key).
\<close>

datatype jv =
    JUndef
  | JNull
  | JBool bool
  | JNum int
  | JStr jstr
  | JArr "jv list"
  | JObj "(jstr \<times> jv) list"

text \<open>\<open>!!v\<close>: the falsy values are undefined, null, false, 0 and the empty string.\<close>

fun js_truthy :: "jv \<Rightarrow> bool" where
  "js_truthy JUndef = False"
| "js_truthy JNull = False"
| "js_truthy (JBool b) = b"
| "js_truthy (JNum i) = (i \<noteq> 0)"
| "js_truthy (JStr s) = (s \<noteq> [])"
| "js_truthy (JArr xs) = True"
| "js_truthy (JObj kvs) = True"

text \<open>
  Reading a named property \<open>v.k\<close> of a parsed value: the object's own member; no
  prototype of a JSON value has the properties the code reads (\<open>name\<close>,
  \<open>email\<close>, \<open>subject\<close>, \<open>message\<close>), so every other value gives undefined.
\<close>

definition get_field :: "jv \<Rightarrow> jstr \<Rightarrow> jv" where
  "get_field v k =
     (case v of
        JObj kvs \<Rightarrow> (case map_of (rev kvs) k of None \<Rightarrow> JUndef | Some x \<Rightarrow> x)
      | _ \<Rightarrow> JUndef)"

text \<open>
  \<open>ToString\<close>, as a template literal or \<open>RegExp.prototype.test\<close> applies it. An
  array joins its elements with commas, writing undefined and null as empty; an
  object is \<open>[object Object]\<close>, unless it has an own member \<open>toString\<close>: a
  JSON member is never callable, so \<open>OrdinaryToPrimitive\<close> finds no callable
  \<open>toString\<close> and the inherited \<open>valueOf\<close> returns the object, and the
  conversion throws.
\<close>

definition to_primitive_error :: exn where
  "to_primitive_error = TypeError ''Cannot convert object to primitive value''"

fun js_to_string :: "jv \<Rightarrow> exn + jstr"
  and js_elem_strings :: "jv list \<Rightarrow> exn + jstr list" where
  "js_to_string JUndef = Inr ''undefined''"
| "js_to_string JNull = Inr ''null''"
| "js_to_string (JBool b) = Inr (if b then ''true'' else ''false'')"
| "js_to_string (JNum i) = Inr (js_int_str i)"
| "js_to_string (JStr s) = Inr s"
| "js_to_string (JArr xs) =
     (case js_elem_strings xs of Inl e \<Rightarrow> Inl e | Inr ss \<Rightarrow> Inr (join_with '','' ss))"
| "js_to_string (JObj kvs) =
     (if ''toString'' \<in> fst ` set kvs then Inl to_primitive_error else Inr ''[object Object]'')"
| "js_elem_strings [] = Inr []"
| "js_elem_strings (x # xs) =
     (case (if x = JUndef \<or> x = JNull then Inr [] else js_to_string x) of
        Inl e \<Rightarrow> Inl e
      | Inr s \<Rightarrow> (case js_elem_strings xs of Inl e \<Rightarrow> Inl e | Inr ss \<Rightarrow> Inr (s # ss)))"

text \<open>
  \<open>x.trim()\<close> for the value \<open>v\<close> of the expression \<open>x\<close>: only a string has
  a callable \<open>trim\<close>; on any other value the call throws V8's TypeError.
\<close>

definition js_call_trim :: "jstr \<Rightarrow> jv \<Rightarrow> exn + jstr" where
  "js_call_trim x v =
     (case v of
        JStr s \<Rightarrow> Inr (js_trim s)
      | JUndef \<Rightarrow> Inl (TypeError ''Cannot read properties of undefined (reading 'trim')'')
      | JNull \<Rightarrow> Inl (TypeError ''Cannot read properties of null (reading 'trim')'')
      | _ \<Rightarrow> Inl (TypeError (x @ ''.trim is not a function'')))"

section \<open>Shared lemmas\<close>

lemma js_call_trim_JStr [simp, js_simps]: "js_call_trim x (JStr s) = Inr (js_trim s)"
  by (simp add: js_call_trim_def)

lemma js_call_trim_Inr: "js_call_trim x v = Inr t \<Longrightarrow> \<exists>s. v = JStr s \<and> t = js_trim s"
  by (cases v) (auto simp: js_call_trim_def)

lemma ebind_Inl [simp, js_simps]: "ebind (Inl e) f = Inl e"
  by (simp add: ebind_def)

lemma ebind_Inr [simp, js_simps]: "ebind (Inr a) f = f a"
  by (simp add: ebind_def)

lemma ebind_eq_Inr:
  "ebind r f = Inr b \<longleftrightarrow> (\<exists>a. r = Inr a \<and> f a = Inr b)"
  by (cases r) (auto simp: ebind_def)

lemma get_field_JObj [simp, js_simps]:
  "get_field (JObj kvs) k = (case map_of (rev kvs) k of None \<Rightarrow> JUndef | Some x \<Rightarrow> x)"
  by (simp add: get_field_def)

lemma get_field_not_obj [simp, js_simps]:
  "(\<And>kvs. v \<noteq> JObj kvs) \<Longrightarrow> get_field v k = JUndef"
  by (cases v) (auto simp: get_field_def)

subsection \<open>Whitespace and trim\<close>

lemma js_ws_code_point:
  "js_ws c \<longleftrightarrow> (of_char c :: nat) \<in> {9, 10, 11, 12, 13, 32, 160}"
  by (auto simp: js_ws_def Let_def)

lemma js_ws_simps [simp, js_simps]:
  "\<not> js_ws (CHR ''@'')" "\<not> js_ws (CHR ''.'')" "js_ws (CHR '' '')"
  by (simp_all add: js_ws_def)

lemma dropWhile_all_iff: "(\<forall>x\<in>set (dropWhile P xs). P x) \<longleftrightarrow> (\<forall>x\<in>set xs. P x)"
  by (induction xs) auto

lemma js_trim_Nil_iff [simp]: "js_trim s = [] \<longleftrightarrow> (\<forall>c\<in>set s. js_ws c)"
  by (simp add: js_trim_def dropWhile_eq_Nil_conv dropWhile_all_iff)

lemma set_js_trim: "set (js_trim s) \<subseteq> set s"
proof -
  have "set (dropWhile js_ws s) \<subseteq> set s" by (rule set_dropWhileD [THEN subsetI])
  moreover have "set (dropWhile js_ws (rev xs)) \<subseteq> set xs" for xs :: jstr
    using set_dropWhileD by fastforce
  ultimately show ?thesis by (auto simp: js_trim_def)
qed

lemma length_js_trim: "length (js_trim s) \<le> length s"
proof -
  have "length (dropWhile js_ws (rev (dropWhile js_ws s))) \<le> length (dropWhile js_ws s)"
    using length_dropWhile_le [of js_ws "rev (dropWhile js_ws s)"] by simp
  also have "\<dots> \<le> length s" by (rule length_dropWhile_le)
  finally show ?thesis by (simp add: js_trim_def)
qed

lemma js_trim_no_ws [simp]: "\<forall>c\<in>set s. \<not> js_ws c \<Longrightarrow> js_trim s = s"
proof -
  assume h: "\<forall>c\<in>set s. \<not> js_ws c"
  then have "dropWhile js_ws s = s" by (cases s) auto
  moreover from h have "dropWhile js_ws (rev s) = rev s" by (cases "rev s") auto
  ultimately show "js_trim s = s" by (simp add: js_trim_def)
qed

subsection \<open>Lower case\<close>

lemma js_lower_char_code:
  "(of_char (js_lower_char c) :: nat) =
     (let n = of_char c in
      if (65 \<le> n \<and> n \<le> 90) \<or> (192 \<le> n \<and> n \<le> 222 \<and> n \<noteq> 215) then n + 32 else n)"
  by (simp add: js_lower_char_def Let_def)

lemma js_lower_char_ws [simp, js_simps]: "js_ws (js_lower_char c) = js_ws c"
  unfolding js_ws_code_point js_lower_char_code by (auto simp: Let_def)

lemma js_lower_char_eq_code:
  assumes "(of_char d :: nat) < 65"
  shows "js_lower_char c = d \<longleftrightarrow> c = d"
proof
  assume "js_lower_char c = d"
  then have "(of_char (js_lower_char c) :: nat) = of_char d" by simp
  with assms have "(of_char c :: nat) = of_char d"
    unfolding js_lower_char_code by (auto simp: Let_def split: if_splits)
  then show "c = d" by simp
next
  assume "c = d"
  with assms show "js_lower_char c = d"
    by (simp add: js_lower_char_def Let_def)
qed

lemma js_lower_char_at [simp, js_simps]: "js_lower_char c = CHR ''@'' \<longleftrightarrow> c = CHR ''@''"
  by (rule js_lower_char_eq_code) simp

lemma js_lower_char_dot [simp, js_simps]: "js_lower_char c = CHR ''.'' \<longleftrightarrow> c = CHR ''.''"
  by (rule js_lower_char_eq_code) simp

lemma js_split_nonempty [simp]: "js_split c s \<noteq> []"
  by (induction s) (auto simp: Let_def)

lemma js_split_pieces: "p \<in> set (js_split c s) \<Longrightarrow> c \<notin> set p"
proof (induction s arbitrary: p)
  case Nil
  then show ?case by simp
next
  case (Cons x xs)
  show ?case
  proof (cases "x = c")
    case True
    with Cons show ?thesis by auto
  next
    case False
    then have "js_split c (x # xs) = (x # hd (js_split c xs)) # tl (js_split c xs)"
      by (simp add: Let_def)
    moreover have "hd (js_split c xs) \<in> set (js_split c xs)" by simp
    moreover have "\<And>q. q \<in> set (tl (js_split c xs)) \<Longrightarrow> q \<in> set (js_split c xs)"
      by (metis js_split_nonempty list.collapse set_subset_Cons subsetD)
    ultimately show ?thesis using Cons False by auto
  qed
qed

lemma join_split: "join_with [c] (js_split c s) = s"
proof (induction s)
  case Nil
  then show ?case by simp
next
  case (Cons x xs)
  obtain y ys where r: "js_split c xs = y # ys" by (cases "js_split c xs") auto
  show ?case
  proof (cases "x = c")
    case True
    with Cons r show ?thesis by (cases ys) auto
  next
    case False
    with Cons r show ?thesis by (cases ys) (auto simp: Let_def)
  qed
qed

lemma js_lower_Nil [simp]: "js_lower s = [] \<longleftrightarrow> s = []"
  by (simp add: js_lower_def)

lemma js_split_no_sep: "c \<notin> set p \<Longrightarrow> js_split c p = [p]"
  by (induction p) (auto simp: Let_def)

lemma js_split_append_sep: "c \<notin> set p \<Longrightarrow> js_split c (p @ c # rest) = p # js_split c rest"
  by (induction p) (auto simp: Let_def)

lemma split_join:
  "ps \<noteq> [] \<Longrightarrow> \<forall>p\<in>set ps. c \<notin> set p \<Longrightarrow> js_split c (join_with [c] ps) = ps"
proof (induction ps)
  case Nil
  then show ?case by simp
next
  case (Cons p ps)
  show ?case
  proof (cases ps)
    case Nil
    with Cons.prems show ?thesis by (simp add: js_split_no_sep)
  next
    case (Cons q qs)
    with Cons.prems Cons.IH show ?thesis by (simp add: js_split_append_sep)
  qed
qed

lemma dropWhile_idem: "dropWhile P (dropWhile P xs) = dropWhile P xs"
  by (induction xs) auto

lemma last_dropWhile: "dropWhile P xs \<noteq> [] \<Longrightarrow> last (dropWhile P xs) = last xs"
  by (induction xs) auto

lemma js_trim_idem: "js_trim (js_trim s) = js_trim s"
proof -
  define A where "A = dropWhile js_ws s"
  define B where "B = dropWhile js_ws (rev A)"
  have t: "js_trim s = rev B" by (simp add: js_trim_def A_def B_def)
  show ?thesis
  proof (cases "B = []")
    case True
    with t have h: "js_trim s = []" by (simp del: js_trim_Nil_iff)
    show ?thesis unfolding h by (simp add: js_trim_def)
  next
    case False
    then have "A \<noteq> []" by (auto simp: B_def)
    then have hdA: "\<not> js_ws (hd A)" unfolding A_def by (rule hd_dropWhile)
    from False have "last B = last (rev A)" unfolding B_def by (rule last_dropWhile)
    with \<open>A \<noteq> []\<close> have "hd (rev B) = hd A" by (simp add: hd_rev last_rev)
    with hdA False have d1: "dropWhile js_ws (rev B) = rev B"
      by (cases "rev B") auto
    have d2: "dropWhile js_ws B = B" by (simp add: B_def dropWhile_idem)
    have "js_trim (rev B) = rev B" by (simp only: js_trim_def d1 rev_rev_ident d2)
    then show ?thesis by (simp only: t)
  qed
qed

end
