(* ===== verification/EmailRegex.thy ===== *)
theory EmailRegex
  imports Prelude
begin

text \<open>
  The e-mail shape check shared by the serverless handler (\<open>api/contact.js\<close>,
  \<open>validatePayload\<close>), the Express route (\<open>server/routes/email.js\<close>,
  \<open>sendContactEmail\<close>) and the browser (\<open>src/utils/helpers.js\<close>,
  \<open>validateEmail\<close>): the regular expression \<open>/^[^\s@]+@[^\s@]+\.[^\s@]+$/\<close>.
  It is modelled as what it is, a pattern of anchored pieces (an atom matched once or
  with \<open>+\<close>), and \<open>RegExp.prototype.test\<close> as a backtracking matcher that tries
  the longest repetition first, as the JavaScript engine does. The lemmas give the
  language of the pattern as a decomposition of the string, an executable direct
  check equal to it, and its indifference to \<open>toLowerCase\<close>.
\<close>

section \<open>Patterns and the matcher\<close>

text \<open>
  An atom is a literal character or a negated class \<open>[^...]\<close>, whose flag says
  whether \<open>\s\<close> is among the excluded characters.
\<close>

datatype rx_atom = RLit char | RNotIn bool "char list"

datatype rx_piece = RxOne rx_atom | RxPlus rx_atom

fun atom_ok :: "rx_atom \<Rightarrow> char \<Rightarrow> bool" where
  "atom_ok (RLit c) d = (d = c)"
| "atom_ok (RNotIn ws cs) d = (\<not> (ws \<and> js_ws d) \<and> d \<notin> set cs)"

text \<open>
  The pattern is anchored at both ends (\<open>^\<close> and \<open>$\<close> without the \<open>m\<close> flag),
  so \<open>test\<close> succeeds exactly when the pieces match the whole string. \<open>x+\<close>
  consumes one character and then either continues the repetition or hands the rest
  to the following pieces.
\<close>

fun rx_match :: "rx_piece list \<Rightarrow> jstr \<Rightarrow> bool" where
  "rx_match [] s = (s = [])"
| "rx_match (RxOne a # ps) [] = False"
| "rx_match (RxOne a # ps) (c # s) = (atom_ok a c \<and> rx_match ps s)"
| "rx_match (RxPlus a # ps) [] = False"
| "rx_match (RxPlus a # ps) (c # s) =
     (atom_ok a c \<and> (rx_match (RxPlus a # ps) s \<or> rx_match ps s))"

section \<open>The e-mail pattern\<close>

text \<open>\<open>[^\s@]\<close>\<close>

definition not_ws_at :: rx_atom where
  "not_ws_at = RNotIn True ''@''"

text \<open>\<open>/^[^\s@]+@[^\s@]+\.[^\s@]+$/\<close>\<close>

definition email_regex :: "rx_piece list" where
  "email_regex =
     [RxPlus not_ws_at, RxOne (RLit CHR ''@''), RxPlus not_ws_at,
      RxOne (RLit CHR ''.''), RxPlus not_ws_at]"

text \<open>\<open>emailRegex.test(s)\<close> on a string.\<close>

definition email_regex_test :: "jstr \<Rightarrow> bool" where
  "email_regex_test s = rx_match email_regex s"

text \<open>
  \<open>validateEmail\<close> of \<open>src/utils/helpers.js\<close>: the same pattern on
  \<open>String(email).toLowerCase()\<close>; the browser passes the form's string.
\<close>

definition validateEmail :: "jstr \<Rightarrow> bool" where
  "validateEmail email = email_regex_test (js_lower email)"

section \<open>Reference characterisations\<close>

text \<open>A character the class \<open>[^\s@]\<close> admits.\<close>

definition email_char :: "char \<Rightarrow> bool" where
  "email_char c \<longleftrightarrow> \<not> js_ws c \<and> c \<noteq> CHR ''@''"

text \<open>
  The language of the pattern, stated as a decomposition: a non-empty local part, an
  \<open>@\<close>, a non-empty part, a dot, a non-empty last part, none of the three parts
  holding whitespace or \<open>@\<close> (the middle part may hold further dots).
\<close>

definition email_shape :: "jstr \<Rightarrow> bool" where
  "email_shape s \<longleftrightarrow>
     (\<exists>l d1 d2. s = l @ CHR ''@'' # d1 @ CHR ''.'' # d2 \<and>
        l \<noteq> [] \<and> d1 \<noteq> [] \<and> d2 \<noteq> [] \<and> (\<forall>c\<in>set (l @ d1 @ d2). email_char c))"

text \<open>
  The same check written directly: no whitespace, a non-empty part before the first
  \<open>@\<close>, no second \<open>@\<close>, and a dot after the \<open>@\<close> that is neither the first nor
  the last character of the domain.
\<close>

definition email_check :: "jstr \<Rightarrow> bool" where
  "email_check s =
     ((\<forall>c\<in>set s. \<not> js_ws c) \<and> takeWhile (\<lambda>c. c \<noteq> CHR ''@'') s \<noteq> [] \<and>
      (case dropWhile (\<lambda>c. c \<noteq> CHR ''@'') s of
         [] \<Rightarrow> False
       | _ # d \<Rightarrow> CHR ''@'' \<notin> set d \<and> CHR ''.'' \<in> set (butlast (tl d))))"

section \<open>Lemmas on the matcher\<close>

lemma rx_match_one_iff:
  "rx_match (RxOne a # ps) s \<longleftrightarrow> (\<exists>c v. s = c # v \<and> atom_ok a c \<and> rx_match ps v)"
  by (cases s) auto

lemma rx_match_plus_iff:
  "rx_match (RxPlus a # ps) s \<longleftrightarrow>
     (\<exists>u v. s = u @ v \<and> u \<noteq> [] \<and> (\<forall>c\<in>set u. atom_ok a c) \<and> rx_match ps v)"
proof (induction s)
  case Nil
  then show ?case by simp
next
  case (Cons c s)
  show ?case
  proof
    assume "rx_match (RxPlus a # ps) (c # s)"
    then have c: "atom_ok a c" and more: "rx_match (RxPlus a # ps) s \<or> rx_match ps s"
      by simp_all
    from more show "\<exists>u v. c # s = u @ v \<and> u \<noteq> [] \<and> (\<forall>c\<in>set u. atom_ok a c) \<and> rx_match ps v"
    proof
      assume "rx_match (RxPlus a # ps) s"
      with Cons.IH obtain u v where "s = u @ v" "\<forall>c\<in>set u. atom_ok a c" "rx_match ps v"
        by blast
      with c show ?thesis by (intro exI [of _ "c # u"] exI [of _ v]) simp
    next
      assume "rx_match ps s"
      with c show ?thesis by (intro exI [of _ "[c]"] exI [of _ s]) simp
    qed
  next
    assume "\<exists>u v. c # s = u @ v \<and> u \<noteq> [] \<and> (\<forall>c\<in>set u. atom_ok a c) \<and> rx_match ps v"
    then obtain u v where uv: "c # s = u @ v" "u \<noteq> []" "\<forall>c\<in>set u. atom_ok a c"
      "rx_match ps v" by blast
    then obtain u' where u: "u = c # u'" and s: "s = u' @ v"
      by (cases u) auto
    show "rx_match (RxPlus a # ps) (c # s)"
    proof (cases "u' = []")
      case True
      with uv u s show ?thesis by simp
    next
      case False
      with uv u s Cons.IH show ?thesis by auto
    qed
  qed
qed

lemmas rx_match_piece_iffs = rx_match_one_iff rx_match_plus_iff

text \<open>Mapping the input through a function every atom cannot tell from the identity.\<close>

lemma rx_match_map:
  assumes "\<And>a c. a \<in> set (map (\<lambda>p. case p of RxOne a \<Rightarrow> a | RxPlus a \<Rightarrow> a) ps) \<Longrightarrow>
             atom_ok a (f c) = atom_ok a c"
  shows "rx_match ps (map f s) = rx_match ps s"
  using assms by (induction ps s rule: rx_match.induct) auto

section \<open>The language of the e-mail pattern\<close>

lemma atom_ok_not_ws_at [simp]: "atom_ok not_ws_at c = email_char c"
  by (simp add: not_ws_at_def email_char_def)

lemma email_regex_shape: "email_regex_test s \<longleftrightarrow> email_shape s"
  by (auto simp: email_regex_test_def email_regex_def email_shape_def rx_match_piece_iffs)
    (fastforce+)

section \<open>The direct check\<close>

lemma in_set_butlast_tl:
  "x \<in> set (butlast (tl d)) \<longleftrightarrow> (\<exists>d1 d2. d = d1 @ x # d2 \<and> d1 \<noteq> [] \<and> d2 \<noteq> [])"
proof
  assume "x \<in> set (butlast (tl d))"
  then obtain p q where pq: "butlast (tl d) = p @ x # q"
    by (auto simp: in_set_conv_decomp)
  then have tl: "tl d \<noteq> []" by auto
  then have d: "d = hd d # tl d" by (cases d) auto
  have "tl d = butlast (tl d) @ [last (tl d)]" using tl by simp
  with pq have "tl d = p @ x # (q @ [last (tl d)])" by simp
  with d have "d = (hd d # p) @ x # (q @ [last (tl d)])" by simp
  then show "\<exists>d1 d2. d = d1 @ x # d2 \<and> d1 \<noteq> [] \<and> d2 \<noteq> []" by blast
next
  assume "\<exists>d1 d2. d = d1 @ x # d2 \<and> d1 \<noteq> [] \<and> d2 \<noteq> []"
  then obtain a d1 d2 where "d = (a # d1) @ x # d2" "d2 \<noteq> []"
    by (metis neq_Nil_conv)
  then show "x \<in> set (butlast (tl d))" by (simp add: butlast_append)
qed

lemma email_shape_check: "email_shape s \<Longrightarrow> email_check s"
proof -
  assume "email_shape s"
  then obtain l d1 d2 where s: "s = l @ CHR ''@'' # d1 @ CHR ''.'' # d2"
    and ne: "l \<noteq> []" "d1 \<noteq> []" "d2 \<noteq> []"
    and ok: "\<forall>c\<in>set (l @ d1 @ d2). email_char c"
    unfolding email_shape_def by blast
  from ok have l_at: "\<forall>c\<in>set l. c \<noteq> CHR ''@''" by (auto simp: email_char_def)
  have tw: "takeWhile (\<lambda>c. c \<noteq> CHR ''@'') s = l"
    using l_at by (simp add: s takeWhile_append2)
  have dw: "dropWhile (\<lambda>c. c \<noteq> CHR ''@'') s = CHR ''@'' # d1 @ CHR ''.'' # d2"
    using l_at by (simp add: s dropWhile_append2)
  have dot: "CHR ''.'' \<in> set (butlast (tl (d1 @ CHR ''.'' # d2)))"
    unfolding in_set_butlast_tl using ne by blast
  from ok have "\<forall>c\<in>set s. \<not> js_ws c" by (auto simp: s email_char_def)
  with ok ne tw dw dot show "email_check s" by (auto simp: email_check_def email_char_def)
qed

lemma email_check_shape: "email_check s \<Longrightarrow> email_shape s"
proof -
  assume chk: "email_check s"
  define l where "l = takeWhile (\<lambda>c. c \<noteq> CHR ''@'') s"
  from chk obtain x d where dw0: "dropWhile (\<lambda>c. c \<noteq> CHR ''@'') s = x # d"
    and d_at: "CHR ''@'' \<notin> set d" and dot: "CHR ''.'' \<in> set (butlast (tl d))"
    and ws: "\<forall>c\<in>set s. \<not> js_ws c" and ne: "l \<noteq> []"
    unfolding email_check_def l_def by (auto split: list.splits)
  from dw0 have "x = CHR ''@''"
    using hd_dropWhile [of "\<lambda>c. c \<noteq> CHR ''@''" s] by simp
  with dw0 have dw: "dropWhile (\<lambda>c. c \<noteq> CHR ''@'') s = CHR ''@'' # d" by simp
  from dot obtain d1 d2 where d: "d = d1 @ CHR ''.'' # d2" "d1 \<noteq> []" "d2 \<noteq> []"
    by (auto simp: in_set_butlast_tl)
  have s: "s = l @ CHR ''@'' # d1 @ CHR ''.'' # d2"
    using takeWhile_dropWhile_id [of "\<lambda>c. c \<noteq> CHR ''@''" s] by (simp add: l_def dw d)
  have "\<forall>c\<in>set l. c \<noteq> CHR ''@''" unfolding l_def by (auto dest: set_takeWhileD)
  with ws d_at d s have "\<forall>c\<in>set (l @ d1 @ d2). email_char c"
    by (auto simp: email_char_def)
  with s ne d show "email_shape s" unfolding email_shape_def by blast
qed

lemma email_regex_check: "email_regex_test s \<longleftrightarrow> email_check s"
  using email_shape_check email_check_shape by (auto simp: email_regex_shape)

section \<open>The browser's check\<close>

lemma email_char_lower [simp]: "email_char (js_lower_char c) = email_char c"
  by (simp add: email_char_def)

lemma email_regex_test_nonempty: "email_regex_test s \<Longrightarrow> s \<noteq> []"
  by (auto simp: email_regex_test_def email_regex_def)

lemma demo_form_facts:
  "email_regex_test ''ada@example.com''" "10 \<le> length (js_trim ''Loved your site!'')"
  by (simp_all add: email_regex_test_def email_regex_def not_ws_at_def js_ws_def js_trim_def)

lemma email_regex_test_lower: "email_regex_test (js_lower s) = email_regex_test s"
  unfolding email_regex_test_def js_lower_def
  by (rule rx_match_map) (auto simp: email_regex_def)

text \<open>
  C10: lower-casing first changes nothing: \<open>validateEmail\<close> in the browser accepts
  exactly the strings the server's \<open>emailRegex.test\<close> accepts.
\<close>

theorem validateEmail_eq_server: "validateEmail s = email_regex_test s"
  unfolding validateEmail_def by (rule email_regex_test_lower)

section \<open>What an accepted address looks like\<close>

text \<open>C8: the pattern accepts exactly the strings of the decomposition \<open>email_shape\<close>.\<close>

theorem email_regex_test_iff_shape: "email_regex_test s \<longleftrightarrow> email_shape s"
  by (rule email_regex_shape)

text \<open>The regular expression and the direct check agree on every string.\<close>

theorem email_regex_test_iff_check: "email_regex_test s \<longleftrightarrow> email_check s"
  by (rule email_regex_check)

text \<open>
  An accepted string holds exactly one \<open>@\<close> and no whitespace, so the
  visitor's address cannot carry a second recipient or a header break.
\<close>

theorem email_regex_test_one_at:
  "email_regex_test s \<Longrightarrow> count_list s CHR ''@'' = 1 \<and> (\<forall>c\<in>set s. \<not> js_ws c)"
proof -
  assume "email_regex_test s"
  then obtain l d1 d2 where s: "s = l @ CHR ''@'' # d1 @ CHR ''.'' # d2"
    and ok: "\<forall>c\<in>set (l @ d1 @ d2). email_char c"
    unfolding email_regex_shape email_shape_def by blast
  from ok have "count_list l CHR ''@'' = 0" "count_list d1 CHR ''@'' = 0"
    "count_list d2 CHR ''@'' = 0"
    by (auto simp: count_list_0_iff email_char_def)
  with ok s show ?thesis by (auto simp: email_char_def)
qed

theorem email_regex_test_one_at_witness:
  "email_regex_test ''ada@example.com'' \<and> count_list ''ada@example.com'' CHR ''@'' = 1"
proof -
  have t: "email_regex_test ''ada@example.com''"
    by (simp add: email_regex_test_def email_regex_def not_ws_at_def js_ws_def)
  show ?thesis using email_regex_test_one_at [OF t] t by simp
qed

end
