(* ===== verification/Http.thy ===== *)
theory Http
  imports Prelude
begin

text \<open>
  What the request handlers of both back ends see and produce: the process
  environment (\<open>process.env\<close>), an incoming request, and the response a handler
  writes with \<open>res.status(..).json(..)\<close>. The response body is the JSON value
  passed to \<open>json\<close>; \<open>JSON.stringify\<close> leaves out a member whose value is
  undefined, so an optional member is an \<open>option\<close> here.
\<close>

section \<open>Environment\<close>

type_synonym env = "jstr \<Rightarrow> jstr option"

text \<open>\<open>!process.env[k]\<close> is false exactly for an unset or empty variable.\<close>

definition env_set :: "env \<Rightarrow> jstr \<Rightarrow> bool" where
  "env_set e k = (case e k of None \<Rightarrow> False | Some v \<Rightarrow> v \<noteq> [])"

text \<open>\<open>${process.env.K}\<close> in a template literal: an unset variable prints as \<open>undefined\<close>.\<close>

definition env_str :: "env \<Rightarrow> jstr \<Rightarrow> jstr" where
  "env_str e k = (case e k of None \<Rightarrow> ''undefined'' | Some v \<Rightarrow> v)"

text \<open>\<open>process.env.K\<close> as a value.\<close>

definition env_val :: "env \<Rightarrow> jstr \<Rightarrow> jv" where
  "env_val e k = (case e k of None \<Rightarrow> JUndef | Some v \<Rightarrow> JStr v)"

section \<open>Requests and responses\<close>

record request =
  rq_method :: jstr
  rq_path :: jstr
  rq_origin :: "jstr option"
  rq_body :: jv

record response =
  rs_status :: nat
  rs_allow :: "jstr list option"
  rs_body :: jv

definition json_response :: "nat \<Rightarrow> jv \<Rightarrow> response" where
  "json_response st b = \<lparr>rs_status = st, rs_allow = None, rs_body = b\<rparr>"

text \<open>The envelope \<open>{ success, message, error }\<close> every contact route answers with.\<close>

definition envelope :: "bool \<Rightarrow> jstr \<Rightarrow> jstr option \<Rightarrow> jv" where
  "envelope ok msg err =
     JObj ([(''success'', JBool ok), (''message'', JStr msg)] @
           (case err of None \<Rightarrow> [] | Some m \<Rightarrow> [(''error'', JStr m)]))"

text \<open>A body whose four fields are strings, as the contact form posts it.\<close>

definition form_body :: "jstr \<Rightarrow> jstr \<Rightarrow> jstr \<Rightarrow> jstr \<Rightarrow> jv" where
  "form_body n em sb msg =
     JObj [(''name'', JStr n), (''email'', JStr em), (''subject'', JStr sb), (''message'', JStr msg)]"

text \<open>A configured environment for the witnesses: every variable set.\<close>

definition demo_env :: env where
  "demo_env k = Some ''cfg''"

lemma envelope_fields [simp]:
  "get_field (envelope ok msg err) ''success'' = JBool ok"
  "get_field (envelope ok msg err) ''message'' = JStr msg"
  "get_field (envelope ok msg err) ''error'' = (case err of None \<Rightarrow> JUndef | Some m \<Rightarrow> JStr m)"
  by (simp_all add: envelope_def split: option.split)

lemma json_response_sel [simp]:
  "rs_status (json_response st b) = st" "rs_allow (json_response st b) = None"
  "rs_body (json_response st b) = b"
  by (simp_all add: json_response_def)

lemma form_body_fields [simp]:
  "get_field (form_body n em sb msg) ''name'' = JStr n"
  "get_field (form_body n em sb msg) ''email'' = JStr em"
  "get_field (form_body n em sb msg) ''subject'' = JStr sb"
  "get_field (form_body n em sb msg) ''message'' = JStr msg"
  "js_truthy (form_body n em sb msg)"
  by (simp_all add: form_body_def)

end
