(* ===== verification/MailSender.thy ===== *)
theory MailSender
  imports Prelude "HOL-Library.Sublist"
begin

text \<open>
  The Mail Sender: the configured nodemailer transporter both back ends call with
  \<open>await transporter.sendMail(options)\<close>. It is an external collaborator, so the
  model states its interface only. A message is the options object, generic in its
  content (the subject, text and HTML templates a caller fills in). What a
  \<open>sendMail\<close> call does is decided by the environment, a \<open>transport\<close>: given how
  many calls the process has made before and the message, the promise resolves
  (\<open>None\<close>) or rejects with an \<open>Error\<close> of some message.

  The world records every call in order (\<open>w_attempts\<close>) and the messages accepted
  for delivery (\<open>w_delivered\<close>). Handlers run in a small exception-and-state monad
  \<open>io\<close>: \<open>await\<close> of a rejected promise throws, and \<open>try\<close>/\<open>catch\<close> is
  \<open>io_catch\<close>.
\<close>

record 'c mail =
  m_from :: jstr
  m_to :: jv
  m_reply_to :: "jv option"
  m_content :: 'c

record 'c world =
  w_attempts :: "'c mail list"
  w_delivered :: "'c mail list"

type_synonym 'c transport = "nat \<Rightarrow> 'c mail \<Rightarrow> jstr option"

type_synonym ('c, 'a) io = "'c world \<Rightarrow> (exn + 'a) \<times> 'c world"

section \<open>The monad\<close>

definition io_return :: "'a \<Rightarrow> ('c, 'a) io" where
  "io_return a w = (Inr a, w)"

definition io_lift :: "exn + 'a \<Rightarrow> ('c, 'a) io" where
  "io_lift r w = (r, w)"

definition io_bind :: "('c, 'a) io \<Rightarrow> ('a \<Rightarrow> ('c, 'b) io) \<Rightarrow> ('c, 'b) io" where
  "io_bind m f w = (case m w of (Inl e, w') \<Rightarrow> (Inl e, w') | (Inr a, w') \<Rightarrow> f a w')"

definition io_catch :: "('c, 'a) io \<Rightarrow> (exn \<Rightarrow> ('c, 'a) io) \<Rightarrow> ('c, 'a) io" where
  "io_catch m h w = (case m w of (Inl e, w') \<Rightarrow> h e w' | (Inr a, w') \<Rightarrow> (Inr a, w'))"

section \<open>sendMail\<close>

definition send_mail :: "'c transport \<Rightarrow> 'c mail \<Rightarrow> ('c, unit) io" where
  "send_mail tr m w =
     (let w' = w\<lparr>w_attempts := w_attempts w @ [m]\<rparr>
      in case tr (length (w_attempts w)) m of
           None \<Rightarrow> (Inr (), w'\<lparr>w_delivered := w_delivered w @ [m]\<rparr>)
         | Some err \<Rightarrow> (Inl (Error err), w'))"

text \<open>
  Well-formed world: what was delivered is a subsequence of what was attempted.
\<close>

definition world_ok :: "'c world \<Rightarrow> bool" where
  "world_ok w \<longleftrightarrow> subseq (w_delivered w) (w_attempts w)"

definition init_world :: "'c world" where
  "init_world = \<lparr>w_attempts = [], w_delivered = []\<rparr>"

text \<open>A transport on which every call succeeds, and one that fails at call \<open>k\<close>.\<close>

definition tr_ok :: "'c transport" where
  "tr_ok n m = None"

definition tr_fail_at :: "nat \<Rightarrow> jstr \<Rightarrow> 'c transport" where
  "tr_fail_at k err n m = (if n = k then Some err else None)"

section \<open>Lemmas\<close>

named_theorems io_simps "unfolding rules of the io monad"

lemma io_return_apply [simp, io_simps]: "io_return a w = (Inr a, w)"
  by (simp add: io_return_def)

lemma io_lift_apply [simp, io_simps]: "io_lift r w = (r, w)"
  by (simp add: io_lift_def)

lemma io_bind_apply [io_simps]:
  "io_bind m f w = (case m w of (Inl e, w') \<Rightarrow> (Inl e, w') | (Inr a, w') \<Rightarrow> f a w')"
  by (simp add: io_bind_def)

lemma io_catch_apply [io_simps]:
  "io_catch m h w = (case m w of (Inl e, w') \<Rightarrow> h e w' | (Inr a, w') \<Rightarrow> (Inr a, w'))"
  by (simp add: io_catch_def)

lemma io_bind_return [simp]: "io_bind (io_return a) f = f a"
  by (rule ext) (simp add: io_bind_def)

lemma io_bind_lift_Inl [simp]: "io_bind (io_lift (Inl e)) f = io_lift (Inl e)"
  by (rule ext) (simp add: io_bind_def)

lemma io_bind_lift_Inr [simp]: "io_bind (io_lift (Inr a)) f = f a"
  by (rule ext) (simp add: io_bind_def)

lemma send_mail_ok [simp]:
  "tr (length (w_attempts w)) m = None \<Longrightarrow>
   send_mail tr m w =
     (Inr (), w\<lparr>w_attempts := w_attempts w @ [m], w_delivered := w_delivered w @ [m]\<rparr>)"
  by (simp add: send_mail_def)

lemma send_mail_fail [simp]:
  "tr (length (w_attempts w)) m = Some err \<Longrightarrow>
   send_mail tr m w = (Inl (Error err), w\<lparr>w_attempts := w_attempts w @ [m]\<rparr>)"
  by (simp add: send_mail_def)

lemma send_mail_cases:
  obtains (ok) "tr (length (w_attempts w)) m = None"
    "send_mail tr m w =
       (Inr (), w\<lparr>w_attempts := w_attempts w @ [m], w_delivered := w_delivered w @ [m]\<rparr>)"
  | (fail) err where "tr (length (w_attempts w)) m = Some err"
    "send_mail tr m w = (Inl (Error err), w\<lparr>w_attempts := w_attempts w @ [m]\<rparr>)"
  by (cases "tr (length (w_attempts w)) m") auto

text \<open>Every call of \<open>sendMail\<close> keeps the world well formed.\<close>

lemma send_mail_world_ok:
  "world_ok w \<Longrightarrow> send_mail tr m w = (r, w') \<Longrightarrow> world_ok w'"
  by (cases rule: send_mail_cases [of tr w m]) (auto simp: world_ok_def)

lemma tr_ok_apply [simp]: "tr_ok n m = None"
  by (simp add: tr_ok_def)

lemma tr_fail_at_apply [simp]: "tr_fail_at k err n m = (if n = k then Some err else None)"
  by (simp add: tr_fail_at_def)

lemma world_ok_init [simp]: "world_ok init_world"
  by (simp add: world_ok_def init_world_def)

end
