(* ===== verification/ContactApi.thy ===== *)
theory ContactApi
  imports EmailRegex Http MailSender
begin

text \<open>
  The Contact-Form Gateway as deployed on Vercel: \<open>api/contact.js\<close>. One request
  runs \<open>handler\<close>: a non-POST request is refused with 405; otherwise, inside one
  \<open>try\<close>, \<open>validatePayload\<close> checks the body (400 with the first violated rule),
  \<open>createTransporter\<close> checks the SMTP environment, the admin and visitor options
  objects are built (their template literals convert the fields with \<open>ToString\<close>),
  and the two \<open>sendMail\<close> calls run in sequence; any exception becomes a 500.

  The message bodies are represented by the template they instantiate and the values
  interpolated into it (\<open>api_content\<close>); the fixed wording of the templates is not
  spelled out. \<open>new Date().toLocaleString()\<close> is the parameter \<open>now\<close>.
\<close>

section \<open>Configuration\<close>

definition isProd :: "env \<Rightarrow> bool" where
  "isProd e \<longleftrightarrow> e ''NODE_ENV'' = Some ''production''"

definition requiredEnv :: "jstr list" where
  "requiredEnv =
     [''SMTP_HOST'', ''SMTP_PORT'', ''SMTP_USER'', ''SMTP_PASS'', ''SMTP_FROM_EMAIL'',
      ''SMTP_FROM_NAME'', ''CONTACT_RECIPIENT_EMAIL'']"

definition validateEnv :: "env \<Rightarrow> exn + unit" where
  "validateEnv e =
     (let missing = filter (\<lambda>k. \<not> env_set e k) requiredEnv
      in if missing \<noteq> [] then Inl (Error (''Missing SMTP env vars: '' @ join_with '', '' missing))
         else Inr ())"

text \<open>
  \<open>createTransporter\<close> validates the environment and then builds the transporter;
  the transporter's behaviour is the \<open>transport\<close> the handler is given.
\<close>

definition createTransporter :: "env \<Rightarrow> exn + unit" where
  "createTransporter e = validateEnv e"

section \<open>Validation\<close>

text \<open>
  \<open>validatePayload(body)\<close>: \<open>Inr None\<close> is \<open>return null\<close>, \<open>Inr (Some m)\<close> a
  rejection with message \<open>m\<close>, \<open>Inl\<close> an exception (\<open>ToString\<close> of an object
  with an own \<open>toString\<close>, or \<open>trim\<close> on a message that is not a string).
\<close>

definition validatePayload :: "jv \<Rightarrow> exn + jstr option" where
  "validatePayload body =
     (let b = (if js_truthy body then body else JObj []);
          name = get_field b ''name''; email = get_field b ''email'';
          subject = get_field b ''subject''; message = get_field b ''message''
      in if \<not> js_truthy name \<or> \<not> js_truthy email \<or> \<not> js_truthy subject \<or> \<not> js_truthy message
         then Inr (Some ''All fields are required'')
         else ebind (js_to_string email) (\<lambda>es.
           if \<not> email_regex_test es then Inr (Some ''Invalid email format'')
           else ebind (js_call_trim ''message'' message) (\<lambda>m.
             if length m < 10 then Inr (Some ''Message must be at least 10 characters long'')
             else Inr None)))"

section \<open>The two messages\<close>

datatype api_content =
    ApiAdminMsg jstr jstr jstr jstr jstr \<comment> \<open>name, email, subject, message, sent on\<close>
  | ApiVisitorMsg jstr jstr jstr \<comment> \<open>name, message, \<open>SMTP_FROM_NAME\<close>\<close>

definition from_header :: "env \<Rightarrow> jstr" where
  "from_header e = env_str e ''SMTP_FROM_NAME'' @ '' <'' @ env_str e ''SMTP_FROM_EMAIL'' @ ''>''"

text \<open>
  \<open>adminMailOptions\<close>: to the owner, \<open>replyTo\<close> the visitor. The template literals
  convert \<open>subject\<close> first (the subject line), then \<open>name\<close>, \<open>email\<close> and
  \<open>message\<close> (the text).
\<close>

definition adminMailOptions :: "env \<Rightarrow> jstr \<Rightarrow> jv \<Rightarrow> jv \<Rightarrow> jv \<Rightarrow> jv \<Rightarrow> exn + api_content mail" where
  "adminMailOptions e now name email subject message =
     ebind (js_to_string subject) (\<lambda>ss. ebind (js_to_string name) (\<lambda>ns.
     ebind (js_to_string email) (\<lambda>es. ebind (js_to_string message) (\<lambda>ms.
       Inr \<lparr>m_from = from_header e, m_to = env_val e ''CONTACT_RECIPIENT_EMAIL'',
            m_reply_to = Some email, m_content = ApiAdminMsg ns es ss ms now\<rparr>))))"

definition visitorMailOptions :: "env \<Rightarrow> jv \<Rightarrow> jv \<Rightarrow> jv \<Rightarrow> exn + api_content mail" where
  "visitorMailOptions e name email message =
     ebind (js_to_string name) (\<lambda>ns. ebind (js_to_string message) (\<lambda>ms.
       Inr \<lparr>m_from = from_header e, m_to = email, m_reply_to = None,
            m_content = ApiVisitorMsg ns ms (env_str e ''SMTP_FROM_NAME'')\<rparr>))"

section \<open>The handler\<close>

definition msg_sent :: jstr where
  "msg_sent = ''Email sent successfully! I will get back to you soon.''"

definition msg_failed :: jstr where
  "msg_failed = ''Failed to send email. Please try again later.''"

definition method_not_allowed :: response where
  "method_not_allowed =
     \<lparr>rs_status = 405, rs_allow = Some [''POST''],
      rs_body = envelope False ''Method Not Allowed'' None\<rparr>"

text \<open>The body of the \<open>try\<close> block, from \<open>validatePayload\<close> to the 200 response.\<close>

definition contact_try :: "env \<Rightarrow> jstr \<Rightarrow> api_content transport \<Rightarrow> jv \<Rightarrow> (api_content, response) io" where
  "contact_try e now tr body =
     io_bind (io_lift (validatePayload body)) (\<lambda>verr.
       case verr of
         Some msg \<Rightarrow> io_return (json_response 400 (envelope False msg None))
       | None \<Rightarrow>
           (let name = get_field body ''name''; email = get_field body ''email'';
                subject = get_field body ''subject''; message = get_field body ''message''
            in io_bind (io_lift (createTransporter e)) (\<lambda>_.
               io_bind (io_lift (adminMailOptions e now name email subject message)) (\<lambda>am.
               io_bind (io_lift (visitorMailOptions e name email message)) (\<lambda>vm.
               io_bind (send_mail tr am) (\<lambda>_.
               io_bind (send_mail tr vm) (\<lambda>_.
                 io_return (json_response 200 (envelope True msg_sent None)))))))))"

definition contact_catch :: "env \<Rightarrow> exn \<Rightarrow> (api_content, response) io" where
  "contact_catch e err =
     io_return (json_response 500
       (envelope False msg_failed (if isProd e then None else Some (exn_message err))))"

definition handler :: "env \<Rightarrow> jstr \<Rightarrow> api_content transport \<Rightarrow> request \<Rightarrow> (api_content, response) io" where
  "handler e now tr req =
     (if rq_method req \<noteq> ''POST'' then io_return method_not_allowed
      else io_catch (contact_try e now tr (rq_body req)) (contact_catch e))"

section \<open>Submissions of four strings\<close>

text \<open>The two messages a valid string body yields.\<close>

definition api_admin_mail :: "env \<Rightarrow> jstr \<Rightarrow> jstr \<Rightarrow> jstr \<Rightarrow> jstr \<Rightarrow> jstr \<Rightarrow> api_content mail" where
  "api_admin_mail e now n em sb msg =
     \<lparr>m_from = from_header e, m_to = env_val e ''CONTACT_RECIPIENT_EMAIL'',
      m_reply_to = Some (JStr em), m_content = ApiAdminMsg n em sb msg now\<rparr>"

definition api_visitor_mail :: "env \<Rightarrow> jstr \<Rightarrow> jstr \<Rightarrow> jstr \<Rightarrow> api_content mail" where
  "api_visitor_mail e n em msg =
     \<lparr>m_from = from_header e, m_to = JStr em, m_reply_to = None,
      m_content = ApiVisitorMsg n msg (env_str e ''SMTP_FROM_NAME'')\<rparr>"

text \<open>A request for the witnesses.\<close>

definition demo_req :: "jstr \<Rightarrow> jv \<Rightarrow> request" where
  "demo_req m b = \<lparr>rq_method = m, rq_path = ''/api/contact'', rq_origin = None, rq_body = b\<rparr>"

section \<open>Lemmas on the steps\<close>

lemma createTransporter_ok:
  "\<forall>k\<in>set requiredEnv. env_set e k \<Longrightarrow> createTransporter e = Inr ()"
  by (simp add: createTransporter_def validateEnv_def filter_empty_conv)

lemma contact_try_reject:
  "validatePayload body = Inr (Some m) \<Longrightarrow>
   contact_try e now tr body w = (Inr (json_response 400 (envelope False m None)), w)"
  by (simp add: contact_try_def)

lemma contact_try_valid:
  assumes "validatePayload body = Inr None" "createTransporter e = Inr ()"
    "adminMailOptions e now (get_field body ''name'') (get_field body ''email'')
       (get_field body ''subject'') (get_field body ''message'') = Inr am"
    "visitorMailOptions e (get_field body ''name'') (get_field body ''email'')
       (get_field body ''message'') = Inr vm"
  shows "contact_try e now tr body =
    io_bind (send_mail tr am) (\<lambda>_. io_bind (send_mail tr vm) (\<lambda>_.
      io_return (json_response 200 (envelope True msg_sent None))))"
  using assms by (simp add: contact_try_def Let_def)

text \<open>C7: \<open>validatePayload\<close> on a body of four strings, every branch.\<close>

theorem validatePayload_strings:
  "validatePayload (form_body n em sb msg) =
     (if n = [] \<or> em = [] \<or> sb = [] \<or> msg = [] then Inr (Some ''All fields are required'')
      else if \<not> email_regex_test em then Inr (Some ''Invalid email format'')
      else if length (js_trim msg) < 10
      then Inr (Some ''Message must be at least 10 characters long'')
      else Inr None)"
  by (simp add: validatePayload_def)

lemma validatePayload_form_ok:
  "n \<noteq> [] \<Longrightarrow> sb \<noteq> [] \<Longrightarrow> email_regex_test em \<Longrightarrow> 10 \<le> length (js_trim msg) \<Longrightarrow>
   validatePayload (form_body n em sb msg) = Inr None"
  by (auto simp: validatePayload_def dest: email_regex_test_nonempty)

lemma handler_valid_form:
  assumes "rq_method req = ''POST''" "rq_body req = form_body n em sb msg"
    "n \<noteq> []" "sb \<noteq> []" "email_regex_test em" "10 \<le> length (js_trim msg)"
    "\<forall>k\<in>set requiredEnv. env_set e k"
  shows "handler e now tr req =
    io_catch (io_bind (send_mail tr (api_admin_mail e now n em sb msg)) (\<lambda>_.
              io_bind (send_mail tr (api_visitor_mail e n em msg)) (\<lambda>_.
                io_return (json_response 200 (envelope True msg_sent None)))))
      (contact_catch e)"
proof -
  have "contact_try e now tr (form_body n em sb msg) =
    io_bind (send_mail tr (api_admin_mail e now n em sb msg)) (\<lambda>_.
      io_bind (send_mail tr (api_visitor_mail e n em msg)) (\<lambda>_.
        io_return (json_response 200 (envelope True msg_sent None))))"
    using assms
    by (intro contact_try_valid validatePayload_form_ok createTransporter_ok)
      (simp_all add: adminMailOptions_def visitorMailOptions_def api_admin_mail_def
        api_visitor_mail_def)
  with assms show ?thesis by (simp add: handler_def)
qed

lemma handler_catches:
  "rq_method req = ''POST'' \<Longrightarrow> contact_try e now tr (rq_body req) w = (Inl x, w') \<Longrightarrow>
   handler e now tr req w =
     (Inr (json_response 500 (envelope False msg_failed (if isProd e then None else Some (exn_message x)))), w')"
  by (simp add: handler_def io_simps contact_catch_def)

section \<open>The handler's behaviour\<close>

text \<open>
  C1: a POST of a valid submission, with the SMTP environment set and a Mail Sender
  that always succeeds, is answered 200 with the confirmation, after exactly two
  \<open>sendMail\<close> calls: the admin notification first, then the visitor's
  acknowledgement.
\<close>

theorem handler_success:
  assumes "rq_method req = ''POST''" "rq_body req = form_body n em sb msg"
    "n \<noteq> []" "sb \<noteq> []" "email_regex_test em" "10 \<le> length (js_trim msg)"
    "\<forall>k\<in>set requiredEnv. env_set e k" "\<forall>i m. tr i m = None"
  shows "handler e now tr req w =
    (Inr (json_response 200 (envelope True msg_sent None)),
     w\<lparr>w_attempts := w_attempts w @ [api_admin_mail e now n em sb msg, api_visitor_mail e n em msg],
       w_delivered := w_delivered w @ [api_admin_mail e now n em sb msg, api_visitor_mail e n em msg]\<rparr>)"
  using handler_valid_form [OF assms(1-7)] assms(8) by (simp add: io_simps)

text \<open>
  C2: a request whose method is not POST is answered 405 with \<open>Allow: POST\<close>,
  whatever its body, and nothing is sent.
\<close>

theorem handler_not_post:
  "rq_method req \<noteq> ''POST'' \<Longrightarrow> handler e now tr req w = (Inr method_not_allowed, w)"
  by (simp add: handler_def)

text \<open>
  C3: a POST whose body \<open>validatePayload\<close> rejects is answered 400 with the violated
  rule's message, and nothing is sent.
\<close>

theorem handler_rejects_invalid:
  "rq_method req = ''POST'' \<Longrightarrow> validatePayload (rq_body req) = Inr (Some m) \<Longrightarrow>
   handler e now tr req w = (Inr (json_response 400 (envelope False m None)), w)"
  by (simp add: handler_def io_simps contact_try_reject)

text \<open>
  C4: when the first \<open>sendMail\<close> (the admin notification) fails, the answer is
  500 with the generic message (and the error's text outside production), and the
  visitor's acknowledgement is never attempted.
\<close>

theorem handler_first_send_fails:
  assumes "rq_method req = ''POST''" "rq_body req = form_body n em sb msg"
    "n \<noteq> []" "sb \<noteq> []" "email_regex_test em" "10 \<le> length (js_trim msg)"
    "\<forall>k\<in>set requiredEnv. env_set e k"
    "tr (length (w_attempts w)) (api_admin_mail e now n em sb msg) = Some err"
  shows "handler e now tr req w =
    (Inr (json_response 500 (envelope False msg_failed (if isProd e then None else Some err))),
     w\<lparr>w_attempts := w_attempts w @ [api_admin_mail e now n em sb msg]\<rparr>)"
  using handler_valid_form [OF assms(1-7)] assms(8)
  by (simp add: io_simps contact_catch_def)

text \<open>
  C5: when the admin notification is delivered and the acknowledgement fails, the
  answer is still 500 and the delivered notification stays delivered: no compensating
  step is taken.
\<close>

theorem handler_second_send_fails:
  assumes "rq_method req = ''POST''" "rq_body req = form_body n em sb msg"
    "n \<noteq> []" "sb \<noteq> []" "email_regex_test em" "10 \<le> length (js_trim msg)"
    "\<forall>k\<in>set requiredEnv. env_set e k"
    "tr (length (w_attempts w)) (api_admin_mail e now n em sb msg) = None"
    "tr (Suc (length (w_attempts w))) (api_visitor_mail e n em msg) = Some err"
  shows "handler e now tr req w =
    (Inr (json_response 500 (envelope False msg_failed (if isProd e then None else Some err))),
     w\<lparr>w_attempts := w_attempts w @ [api_admin_mail e now n em sb msg, api_visitor_mail e n em msg],
       w_delivered := w_delivered w @ [api_admin_mail e now n em sb msg]\<rparr>)"
  using handler_valid_form [OF assms(1-7)] assms(8,9)
  by (simp add: io_simps contact_catch_def)

lemma contact_try_effects:
  assumes "contact_try e now tr body w = (r, w')"
  shows "\<exists>xs ys. w_attempts w' = w_attempts w @ xs \<and> w_delivered w' = w_delivered w @ ys \<and>
     prefix ys xs \<and> length xs \<le> 2 \<and>
     (\<forall>resp. r = Inr resp \<longrightarrow> rs_status resp = 200 \<longrightarrow> ys = xs \<and> length xs = 2)"
  using assms
  by (auto simp: contact_try_def Let_def io_simps send_mail_def
      split: sum.splits option.splits prod.splits if_splits)

text \<open>
  C6: every request is answered (the handler never throws), with at most two
  \<open>sendMail\<close> calls; what is delivered is a prefix of what is attempted, and a 200
  answer means both messages were delivered.
\<close>

theorem handler_effects:
  assumes "handler e now tr req w = (r, w')"
  shows "\<exists>resp. r = Inr resp \<and>
    (\<exists>xs ys. w_attempts w' = w_attempts w @ xs \<and> w_delivered w' = w_delivered w @ ys \<and>
       prefix ys xs \<and> length xs \<le> 2 \<and> (rs_status resp = 200 \<longrightarrow> ys = xs \<and> length xs = 2))"
proof (cases "rq_method req = ''POST''")
  case False
  with assms have "r = Inr method_not_allowed" "w' = w" by (simp_all add: handler_def)
  then show ?thesis by (simp add: method_not_allowed_def)
next
  case True
  obtain r0 w0 where t: "contact_try e now tr (rq_body req) w = (r0, w0)" by fastforce
  from contact_try_effects [OF t] obtain xs ys where
    eff: "w_attempts w0 = w_attempts w @ xs" "w_delivered w0 = w_delivered w @ ys"
      "prefix ys xs" "length xs \<le> 2"
      "\<forall>resp. r0 = Inr resp \<longrightarrow> rs_status resp = 200 \<longrightarrow> ys = xs \<and> length xs = 2"
    by blast
  show ?thesis
  proof (cases r0)
    case (Inl x)
    with True t assms eff show ?thesis
      by (auto simp: handler_def io_simps contact_catch_def)
  next
    case (Inr resp)
    with True t assms eff show ?thesis by (auto simp: handler_def io_simps)
  qed
qed

text \<open>
  C17: a message that is a number rather than a string passes the truthiness test and
  makes \<open>message.trim()\<close> throw; the catch block answers 500, not the 400 of a
  validation error, and nothing is sent.
\<close>

theorem handler_non_string_message:
  assumes "rq_method req = ''POST''"
    "rq_body req = JObj [(''name'', JStr n), (''email'', JStr em), (''subject'', JStr sb), (''message'', JNum i)]"
    "n \<noteq> []" "sb \<noteq> []" "email_regex_test em" "i \<noteq> 0"
  shows "handler e now tr req w =
    (Inr (json_response 500 (envelope False msg_failed
       (if isProd e then None else Some ''message.trim is not a function''))), w)"
proof -
  have "validatePayload (rq_body req) = Inl (TypeError ''message.trim is not a function'')"
    using assms(2-6) email_regex_test_nonempty [OF assms(5)]
    by (simp add: validatePayload_def js_call_trim_def)
  then have "contact_try e now tr (rq_body req) w = (Inl (TypeError ''message.trim is not a function''), w)"
    by (simp add: contact_try_def io_simps)
  from handler_catches [OF assms(1) this] show ?thesis by simp
qed

text \<open>
  C18: with a required SMTP variable unset or empty, every valid submission is
  answered 500 naming the missing variables, and nothing is sent: the configuration
  is checked per request, after validation.
\<close>

theorem handler_missing_env:
  assumes "rq_method req = ''POST''" "rq_body req = form_body n em sb msg"
    "n \<noteq> []" "sb \<noteq> []" "email_regex_test em" "10 \<le> length (js_trim msg)"
    "\<exists>k\<in>set requiredEnv. \<not> env_set e k"
  shows "handler e now tr req w =
    (Inr (json_response 500 (envelope False msg_failed (if isProd e then None
       else Some (''Missing SMTP env vars: '' @ join_with '', '' (filter (\<lambda>k. \<not> env_set e k) requiredEnv))))), w)"
proof -
  have m: "filter (\<lambda>k. \<not> env_set e k) requiredEnv \<noteq> []"
    using assms(7) by (auto simp: filter_empty_conv)
  have "contact_try e now tr (rq_body req) w =
     (Inl (Error (''Missing SMTP env vars: '' @ join_with '', '' (filter (\<lambda>k. \<not> env_set e k) requiredEnv))), w)"
    using validatePayload_form_ok [OF assms(3-6)] m assms(2)
    by (simp add: contact_try_def io_simps createTransporter_def validateEnv_def Let_def)
  from handler_catches [OF assms(1) this] show ?thesis by simp
qed

text \<open>
  C19: in production (\<open>NODE_ENV=production\<close>) no answer carries an \<open>error\<close>
  member.
\<close>

theorem handler_prod_hides_error:
  assumes "isProd e" "handler e now tr req w = (r, w')"
  shows "\<exists>resp. r = Inr resp \<and> get_field (rs_body resp) ''error'' = JUndef"
proof (cases "rq_method req = ''POST''")
  case False
  with assms show ?thesis by (auto simp: handler_def method_not_allowed_def)
next
  case True
  obtain r0 w0 where t: "contact_try e now tr (rq_body req) w = (r0, w0)" by fastforce
  have try_ok: "\<forall>resp. r0 = Inr resp \<longrightarrow> get_field (rs_body resp) ''error'' = JUndef"
    using t by (auto simp: contact_try_def Let_def io_simps send_mail_def
      split: sum.splits option.splits prod.splits if_splits)
  show ?thesis
  proof (cases r0)
    case (Inl x)
    with True t assms show ?thesis by (auto simp: handler_def io_simps contact_catch_def)
  next
    case (Inr resp)
    with True t assms try_ok show ?thesis by (auto simp: handler_def io_simps)
  qed
qed

section \<open>Witnesses\<close>

lemmas demo_eval = email_regex_test_def email_regex_def not_ws_at_def js_ws_def js_trim_def
  requiredEnv_def env_set_def isProd_def

lemma demo_facts:
  "email_regex_test ''ada@example.com''" "10 \<le> length (js_trim ''Loved your site!'')"
  "\<forall>k\<in>set requiredEnv. env_set demo_env k" "\<not> isProd demo_env"
  using demo_form_facts by (simp_all add: demo_eval demo_env_def)

theorem handler_success_witness:
  "handler demo_env ''now'' tr_ok
     (demo_req ''POST'' (form_body ''Ada'' ''ada@example.com'' ''Hi'' ''Loved your site!'')) init_world =
   (Inr (json_response 200 (envelope True msg_sent None)),
    \<lparr>w_attempts = [api_admin_mail demo_env ''now'' ''Ada'' ''ada@example.com'' ''Hi'' ''Loved your site!'',
                   api_visitor_mail demo_env ''Ada'' ''ada@example.com'' ''Loved your site!''],
     w_delivered = [api_admin_mail demo_env ''now'' ''Ada'' ''ada@example.com'' ''Hi'' ''Loved your site!'',
                   api_visitor_mail demo_env ''Ada'' ''ada@example.com'' ''Loved your site!'']\<rparr>)"
  using handler_success [of "demo_req ''POST'' (form_body ''Ada'' ''ada@example.com'' ''Hi'' ''Loved your site!'')"
      "''Ada''" "''ada@example.com''" "''Hi''" "''Loved your site!''" demo_env tr_ok "''now''" init_world]
    demo_facts
  by (simp add: demo_req_def init_world_def)

theorem handler_not_post_witness:
  "handler demo_env ''now'' tr_ok (demo_req ''GET'' JUndef) init_world = (Inr method_not_allowed, init_world)"
  using handler_not_post [of "demo_req ''GET'' JUndef"] by (simp add: demo_req_def)

theorem handler_rejects_invalid_witness:
  "handler demo_env ''now'' tr_ok
     (demo_req ''POST'' (form_body ''Bob'' ''not-an-email'' ''Hi'' ''Loved your site!'')) init_world =
   (Inr (json_response 400 (envelope False ''Invalid email format'' None)), init_world)"
proof -
  have "validatePayload (form_body ''Bob'' ''not-an-email'' ''Hi'' ''Loved your site!'') =
        Inr (Some ''Invalid email format'')"
    by (simp add: validatePayload_def form_body_def demo_eval)
  then show ?thesis
    using handler_rejects_invalid [of "demo_req ''POST'' (form_body ''Bob'' ''not-an-email'' ''Hi'' ''Loved your site!'')"]
    by (simp add: demo_req_def)
qed

theorem handler_first_send_fails_witness:
  "handler demo_env ''now'' (tr_fail_at 0 ''auth'')
     (demo_req ''POST'' (form_body ''Ada'' ''ada@example.com'' ''Hi'' ''Loved your site!'')) init_world =
   (Inr (json_response 500 (envelope False msg_failed (Some ''auth''))),
    \<lparr>w_attempts = [api_admin_mail demo_env ''now'' ''Ada'' ''ada@example.com'' ''Hi'' ''Loved your site!''],
     w_delivered = []\<rparr>)"
  using handler_first_send_fails [of "demo_req ''POST'' (form_body ''Ada'' ''ada@example.com'' ''Hi'' ''Loved your site!'')"
      "''Ada''" "''ada@example.com''" "''Hi''" "''Loved your site!''" demo_env "tr_fail_at 0 ''auth''"
      init_world "''now''" "''auth''"]
    demo_facts
  by (simp add: demo_req_def init_world_def)

theorem handler_second_send_fails_witness:
  "handler demo_env ''now'' (tr_fail_at 1 ''rejected'')
     (demo_req ''POST'' (form_body ''Ada'' ''ada@example.com'' ''Hi'' ''Loved your site!'')) init_world =
   (Inr (json_response 500 (envelope False msg_failed (Some ''rejected''))),
    \<lparr>w_attempts = [api_admin_mail demo_env ''now'' ''Ada'' ''ada@example.com'' ''Hi'' ''Loved your site!'',
                   api_visitor_mail demo_env ''Ada'' ''ada@example.com'' ''Loved your site!''],
     w_delivered = [api_admin_mail demo_env ''now'' ''Ada'' ''ada@example.com'' ''Hi'' ''Loved your site!'']\<rparr>)"
  using handler_second_send_fails [of "demo_req ''POST'' (form_body ''Ada'' ''ada@example.com'' ''Hi'' ''Loved your site!'')"
      "''Ada''" "''ada@example.com''" "''Hi''" "''Loved your site!''" demo_env "tr_fail_at 1 ''rejected''"
      init_world "''now''" "''rejected''"]
    demo_facts
  by (simp add: demo_req_def init_world_def)

theorem handler_effects_witness:
  "\<exists>resp w'. handler demo_env ''now'' (tr_fail_at 1 ''rejected'')
     (demo_req ''POST'' (form_body ''Ada'' ''ada@example.com'' ''Hi'' ''Loved your site!'')) init_world =
     (Inr resp, w') \<and> length (w_attempts w') \<le> 2"
proof -
  obtain r w' where h: "handler demo_env ''now'' (tr_fail_at 1 ''rejected'')
     (demo_req ''POST'' (form_body ''Ada'' ''ada@example.com'' ''Hi'' ''Loved your site!'')) init_world = (r, w')"
    by fastforce
  from handler_effects [OF h] h show ?thesis by (auto simp: init_world_def)
qed

theorem handler_non_string_message_witness:
  "handler demo_env ''now'' tr_ok
     (demo_req ''POST'' (JObj [(''name'', JStr ''Ada''), (''email'', JStr ''ada@example.com''),
        (''subject'', JStr ''Hi''), (''message'', JNum 12345678901)])) init_world =
   (Inr (json_response 500 (envelope False msg_failed (Some ''message.trim is not a function''))),
    init_world)"
  using handler_non_string_message [of "demo_req ''POST'' (JObj [(''name'', JStr ''Ada''),
      (''email'', JStr ''ada@example.com''), (''subject'', JStr ''Hi''), (''message'', JNum 12345678901)])"
      "''Ada''" "''ada@example.com''" "''Hi''" 12345678901 demo_env "''now''" tr_ok init_world]
    demo_facts
  by (simp add: demo_req_def)

theorem handler_missing_env_witness:
  "handler (\<lambda>k. None) ''now'' tr_ok
     (demo_req ''POST'' (form_body ''Ada'' ''ada@example.com'' ''Hi'' ''Loved your site!'')) init_world =
   (Inr (json_response 500 (envelope False msg_failed (Some
      ''Missing SMTP env vars: SMTP_HOST, SMTP_PORT, SMTP_USER, SMTP_PASS, SMTP_FROM_EMAIL, SMTP_FROM_NAME, CONTACT_RECIPIENT_EMAIL''))),
    init_world)"
proof -
  have "\<exists>k\<in>set requiredEnv. \<not> env_set (\<lambda>k. None) k" by (simp add: demo_eval) blast
  then show ?thesis
    using handler_missing_env [of "demo_req ''POST'' (form_body ''Ada'' ''ada@example.com'' ''Hi'' ''Loved your site!'')"
      "''Ada''" "''ada@example.com''" "''Hi''" "''Loved your site!''" "\<lambda>k. None" "''now''" tr_ok init_world]
      demo_facts
    by (simp add: demo_req_def demo_eval)
qed

theorem handler_prod_hides_error_witness:
  "\<exists>resp. fst (handler (\<lambda>k. if k = ''NODE_ENV'' then Some ''production'' else None) ''now'' tr_ok
     (demo_req ''POST'' (form_body ''Ada'' ''ada@example.com'' ''Hi'' ''Loved your site!'')) init_world) = Inr resp \<and>
     get_field (rs_body resp) ''error'' = JUndef"
proof -
  obtain r w' where h: "handler (\<lambda>k. if k = ''NODE_ENV'' then Some ''production'' else None) ''now'' tr_ok
     (demo_req ''POST'' (form_body ''Ada'' ''ada@example.com'' ''Hi'' ''Loved your site!'')) init_world = (r, w')"
    by fastforce
  have "isProd (\<lambda>k. if k = ''NODE_ENV'' then Some ''production'' else None)" by (simp add: isProd_def)
  from handler_prod_hides_error [OF this h] h show ?thesis by simp
qed

end
