(* ===== verification/ContactForm.thy ===== *)
theory ContactForm
  imports ContactApi
begin

text \<open>
  The browser side of the contact path: the \<open>Contact\<close> component of
  \<open>src/src/components/Contact.jsx\<close>. Its state is the four \<open>useState\<close> hooks
  (\<open>formData\<close>, \<open>errors\<close>, \<open>isSubmitting\<close>, \<open>submitStatus\<close>). The handlers are
  \<open>handleChange\<close>, \<open>validateForm\<close> and \<open>handleSubmit\<close>; the latter suspends at
  \<open>await fetch(..)\<close>, so it is split at that point into \<open>submit_start\<close> (up to
  the request) and \<open>submit_finish\<close> (from the response to \<open>finally\<close>), and the
  user may type in between. The component is a state machine over these events
  (\<open>form_reach\<close>); \<open>form_view\<close> is what the JSX shows of a state.
\<close>

section \<open>State\<close>

datatype field = FName | FEmail | FSubject | FMessage

definition all_fields :: "field list" where
  "all_fields = [FName, FEmail, FSubject, FMessage]"

record form_data =
  fd_name :: jstr
  fd_email :: jstr
  fd_subject :: jstr
  fd_message :: jstr

definition empty_form :: form_data where
  "empty_form = \<lparr>fd_name = [], fd_email = [], fd_subject = [], fd_message = []\<rparr>"

text \<open>\<open>{ ...prev, [name]: value }\<close>\<close>

fun fd_set :: "form_data \<Rightarrow> field \<Rightarrow> jstr \<Rightarrow> form_data" where
  "fd_set fd FName v = fd\<lparr>fd_name := v\<rparr>"
| "fd_set fd FEmail v = fd\<lparr>fd_email := v\<rparr>"
| "fd_set fd FSubject v = fd\<lparr>fd_subject := v\<rparr>"
| "fd_set fd FMessage v = fd\<lparr>fd_message := v\<rparr>"

datatype status_kind = StatusSuccess | StatusError

text \<open>
  \<open>errors\<close> is an object from field names to messages; clearing a field's error
  stores the empty string. \<open>submitStatus\<close> is null or \<open>{type, message}\<close>, the
  message being whatever the response carried.
\<close>

record form_state =
  formData :: form_data
  errors :: "field \<rightharpoonup> jstr"
  isSubmitting :: bool
  submitStatus :: "(status_kind \<times> jv) option"

definition init_form :: form_state where
  "init_form = \<lparr>formData = empty_form, errors = Map.empty, isSubmitting = False, submitStatus = None\<rparr>"

text \<open>\<open>errors[name]\<close> is truthy.\<close>

definition err_shown :: "(field \<rightharpoonup> jstr) \<Rightarrow> field \<Rightarrow> bool" where
  "err_shown es f = (case es f of None \<Rightarrow> False | Some m \<Rightarrow> m \<noteq> [])"

section \<open>Handlers\<close>

definition handleChange :: "field \<Rightarrow> jstr \<Rightarrow> form_state \<Rightarrow> form_state" where
  "handleChange f v st =
     st\<lparr>formData := fd_set (formData st) f v,
        errors := (if err_shown (errors st) f then (errors st)(f \<mapsto> []) else errors st)\<rparr>"

text \<open>The object \<open>newErrors\<close> that \<open>validateForm\<close> builds.\<close>

definition form_errors :: "form_data \<Rightarrow> field \<rightharpoonup> jstr" where
  "form_errors fd f =
     (case f of
        FName \<Rightarrow> if js_trim (fd_name fd) = [] then Some ''Name is required'' else None
      | FEmail \<Rightarrow>
          if js_trim (fd_email fd) = [] then Some ''Email is required''
          else if \<not> validateEmail (fd_email fd) then Some ''Please enter a valid email''
          else None
      | FSubject \<Rightarrow> if js_trim (fd_subject fd) = [] then Some ''Subject is required'' else None
      | FMessage \<Rightarrow>
          if js_trim (fd_message fd) = [] then Some ''Message is required''
          else if length (js_trim (fd_message fd)) < 10
          then Some ''Message must be at least 10 characters''
          else None)"

text \<open>\<open>setErrors(newErrors); return Object.keys(newErrors).length === 0\<close>\<close>

definition validateForm :: "form_state \<Rightarrow> form_state \<times> bool" where
  "validateForm st =
     (let ne = form_errors (formData st)
      in (st\<lparr>errors := ne\<rparr>, list_all (\<lambda>f. ne f = None) all_fields))"

text \<open>\<open>JSON.stringify(formData)\<close> as the server parses it.\<close>

definition form_json :: "form_data \<Rightarrow> jv" where
  "form_json fd = form_body (fd_name fd) (fd_email fd) (fd_subject fd) (fd_message fd)"

text \<open>
  \<open>handleSubmit\<close> up to \<open>await fetch\<close>: on a failed validation it returns after
  setting the errors; otherwise it marks the form as submitting, clears the status
  and posts the form.
\<close>

definition submit_start :: "form_state \<Rightarrow> form_state \<times> jv option" where
  "submit_start st =
     (case validateForm st of
        (st', False) \<Rightarrow> (st', None)
      | (st', True) \<Rightarrow>
          (st'\<lparr>isSubmitting := True, submitStatus := None\<rparr>, Some (form_json (formData st'))))"

text \<open>
  What the awaited calls give back: \<open>fetch\<close> rejects (network error), or
  \<open>response.json()\<close> rejects (a body that is not JSON), or the parsed body.
\<close>

datatype fetch_result = FetchRejected | JsonRejected | JsonBody jv

text \<open>\<open>result.message || default\<close>\<close>

definition or_default :: "jv \<Rightarrow> jstr \<Rightarrow> jv" where
  "or_default v d = (if js_truthy v then v else JStr d)"

text \<open>
  What follows \<open>await response.json()\<close>. Reading \<open>result.success\<close> throws when the
  body is JSON \<open>null\<close>; that \<open>TypeError\<close>, like a rejected \<open>fetch\<close> or
  \<open>json()\<close>, lands in the \<open>catch\<close> block and its network-error message.
\<close>

definition submit_finish :: "fetch_result \<Rightarrow> form_state \<Rightarrow> form_state" where
  "submit_finish r st =
     (let network_error = st\<lparr>submitStatus := Some (StatusError,
                  JStr ''Network error. Please check your connection and try again.'')\<rparr>;
          st' =
        (case r of
           JsonBody res \<Rightarrow>
             if res = JNull then network_error
             else if js_truthy (get_field res ''success'')
             then st\<lparr>submitStatus := Some (StatusSuccess,
                       or_default (get_field res ''message'')
                         ''Email sent successfully! I will get back to you soon.''),
                     formData := empty_form\<rparr>
             else st\<lparr>submitStatus := Some (StatusError,
                       or_default (get_field res ''message'')
                         ''Failed to send email. Please try again.'')\<rparr>
         | _ \<Rightarrow> network_error)
      in st'\<lparr>isSubmitting := False\<rparr>)"

section \<open>The component as a state machine\<close>

text \<open>
  Typing may happen at any time; a submission starts only when the submit button is
  enabled (\<open>disabled={isSubmitting}\<close>, which also blocks implicit submission), and a
  response arrives only for a request in flight.
\<close>

inductive form_reach :: "form_state \<Rightarrow> bool" where
  init: "form_reach init_form"
| change: "form_reach st \<Longrightarrow> form_reach (handleChange f v st)"
| submit: "form_reach st \<Longrightarrow> \<not> isSubmitting st \<Longrightarrow> form_reach (fst (submit_start st))"
| finish: "form_reach st \<Longrightarrow> isSubmitting st \<Longrightarrow> form_reach (submit_finish r st)"

section \<open>What the form shows\<close>

text \<open>
  The JSX of the form: per field the error line (and red border) when
  \<open>errors[field]\<close> is truthy; the button, disabled and labelled \<open>Sending...\<close> while
  submitting; the status box with its mark when \<open>submitStatus\<close> is set.
\<close>

record form_view =
  shown_errors :: "field \<Rightarrow> jstr option"
  button_disabled :: bool
  button_label :: jstr
  status_box :: "(status_kind \<times> jv) option"

definition form_view :: "form_state \<Rightarrow> form_view" where
  "form_view st =
     \<lparr>shown_errors = (\<lambda>f. if err_shown (errors st) f then errors st f else None),
      button_disabled = isSubmitting st,
      button_label = (if isSubmitting st then ''Sending...'' else ''Send Message''),
      status_box = submitStatus st\<rparr>"

text \<open>The messages \<open>validateForm\<close> can store for a field.\<close>

fun field_messages :: "field \<Rightarrow> jstr list" where
  "field_messages FName = [''Name is required'']"
| "field_messages FEmail = [''Email is required'', ''Please enter a valid email'']"
| "field_messages FSubject = [''Subject is required'']"
| "field_messages FMessage =
     [''Message is required'', ''Message must be at least 10 characters'']"

text \<open>
  The component's invariant: while a request is in flight no status is shown, and
  an error entry is either cleared or one of its field's validation messages.
\<close>

definition form_inv :: "form_state \<Rightarrow> bool" where
  "form_inv st \<longleftrightarrow>
     (isSubmitting st \<longrightarrow> submitStatus st = None) \<and>
     (\<forall>f m. errors st f = Some m \<longrightarrow> m \<in> set ([] # field_messages f))"

text \<open>A visitor who typed a valid submission into the empty form.\<close>

definition demo_typed :: form_state where
  "demo_typed =
     handleChange FMessage ''Loved your site!'' (handleChange FSubject ''Hi''
       (handleChange FEmail ''ada@example.com'' (handleChange FName ''Ada'' init_form)))"

section \<open>Lemmas\<close>

lemma form_errors_messages: "form_errors fd f = Some m \<Longrightarrow> m \<in> set (field_messages f)"
  by (cases f) (auto simp: form_errors_def split: if_splits)

lemma list_all_fields: "list_all P all_fields \<longleftrightarrow> (\<forall>f. P f)"
proof
  assume "list_all P all_fields"
  then show "\<forall>f. P f" by (auto simp: all_fields_def intro: field.induct)
qed (simp add: list_all_iff)

lemma trim_nonempty: "js_trim s \<noteq> [] \<Longrightarrow> s \<noteq> []"
  by (auto simp: js_trim_def)

text \<open>What a form that passes \<open>validateForm\<close> satisfies, field by field.\<close>

lemma form_errors_none:
  assumes "\<forall>f. form_errors fd f = None"
  shows "fd_name fd \<noteq> []" "fd_subject fd \<noteq> []" "email_regex_test (fd_email fd)"
    "10 \<le> length (js_trim (fd_message fd))"
proof -
  from assms have n: "form_errors fd FName = None" and e: "form_errors fd FEmail = None"
    and sb: "form_errors fd FSubject = None" and m: "form_errors fd FMessage = None"
    by simp_all
  from n show "fd_name fd \<noteq> []" by (auto simp: form_errors_def dest: trim_nonempty split: if_splits)
  from sb show "fd_subject fd \<noteq> []"
    by (auto simp: form_errors_def dest: trim_nonempty split: if_splits)
  from e have "validateEmail (fd_email fd)" by (auto simp: form_errors_def split: if_splits)
  then show "email_regex_test (fd_email fd)" by (simp add: validateEmail_def email_regex_test_lower)
  from m show "10 \<le> length (js_trim (fd_message fd))"
    by (auto simp: form_errors_def split: if_splits)
qed

lemma submit_start_cases:
  obtains (invalid) "submit_start st = (st\<lparr>errors := form_errors (formData st)\<rparr>, None)"
    "\<not> (\<forall>f. form_errors (formData st) f = None)"
  | (valid) "submit_start st =
      (st\<lparr>errors := form_errors (formData st), isSubmitting := True, submitStatus := None\<rparr>,
       Some (form_json (formData st)))" "\<forall>f. form_errors (formData st) f = None"
  by (cases "\<forall>f. form_errors (formData st) f = None")
    (auto simp: submit_start_def validateForm_def Let_def list_all_fields)

lemma submit_start_Some:
  assumes "submit_start st = (st', Some body)"
  shows "body = form_json (formData st)" "\<forall>f. form_errors (formData st) f = None"
    "st' = st\<lparr>errors := form_errors (formData st), isSubmitting := True, submitStatus := None\<rparr>"
  using assms by (cases rule: submit_start_cases [of st]; simp)+

lemma form_inv_init: "form_inv init_form"
  by (simp add: form_inv_def init_form_def)

lemma form_inv_change: "form_inv st \<Longrightarrow> form_inv (handleChange f v st)"
  by (auto simp: form_inv_def handleChange_def)

lemma form_inv_submit: "form_inv st \<Longrightarrow> form_inv (fst (submit_start st))"
  by (cases rule: submit_start_cases [of st]) (auto simp: form_inv_def dest: form_errors_messages)

lemma form_inv_finish: "form_inv st \<Longrightarrow> form_inv (submit_finish r st)"
  by (auto simp: form_inv_def submit_finish_def Let_def split: fetch_result.splits)

lemma form_reach_inv: "form_reach st \<Longrightarrow> form_inv st"
  by (induction rule: form_reach.induct)
    (auto intro: form_inv_init form_inv_change form_inv_submit form_inv_finish)

section \<open>Properties of the form\<close>

text \<open>
  C12: every body the browser posts passes the server's \<open>validatePayload\<close>: the
  client's checks refine the server's.
\<close>

theorem submit_start_body_valid:
  "submit_start st = (st', Some body) \<Longrightarrow> validatePayload body = Inr None"
proof -
  assume start: "submit_start st = (st', Some body)"
  then have ok: "\<forall>f. form_errors (formData st) f = None" and b: "body = form_json (formData st)"
    by (simp_all add: submit_start_Some)
  show ?thesis
    using validatePayload_form_ok [OF form_errors_none [OF ok]] by (simp add: b form_json_def)
qed

text \<open>
  C13: in every reachable state, while a request is in flight the submit button is
  disabled and labelled \<open>Sending...\<close>, and no status box is shown.
\<close>

theorem form_view_submitting:
  "form_reach st \<Longrightarrow> isSubmitting st \<Longrightarrow>
   button_disabled (form_view st) \<and> button_label (form_view st) = ''Sending...'' \<and>
   status_box (form_view st) = None"
  using form_reach_inv by (auto simp: form_view_def form_inv_def)

text \<open>
  In every reachable state, an error line under a field shows one of that
  field's validation messages.
\<close>

theorem form_view_errors:
  "form_reach st \<Longrightarrow> shown_errors (form_view st) f = Some m \<Longrightarrow> m \<in> set (field_messages f)"
  using form_reach_inv
  by (fastforce simp: form_view_def form_inv_def err_shown_def split: if_splits option.splits)

text \<open>Typing in a field hides that field's error line and leaves the others as they were.\<close>

theorem handleChange_view:
  "shown_errors (form_view (handleChange f v st)) f = None \<and>
   (\<forall>g. g \<noteq> f \<longrightarrow> shown_errors (form_view (handleChange f v st)) g = shown_errors (form_view st) g)"
  by (auto simp: form_view_def handleChange_def err_shown_def)

text \<open>
  C16: a response with \<open>success: true\<close> shows its message as a success and empties
  the form, also when the visitor typed while the request was in flight; any failure
  keeps what was typed.
\<close>

theorem submit_finish_outcome:
  "formData (submit_finish r st) =
     (case r of JsonBody res \<Rightarrow> if js_truthy (get_field res ''success'') then empty_form else formData st
      | _ \<Rightarrow> formData st) \<and>
   \<not> isSubmitting (submit_finish r st)"
  by (simp add: submit_finish_def Let_def split: fetch_result.split)

section \<open>Witnesses\<close>

lemma demo_typed_reach: "form_reach demo_typed"
  unfolding demo_typed_def by (intro form_reach.change form_reach.init)

lemma demo_typed_data:
  "formData demo_typed = \<lparr>fd_name = ''Ada'', fd_email = ''ada@example.com'', fd_subject = ''Hi'',
     fd_message = ''Loved your site!''\<rparr>" "\<not> isSubmitting demo_typed"
  by (simp_all add: demo_typed_def handleChange_def init_form_def empty_form_def err_shown_def)

lemma demo_typed_valid: "\<forall>f. form_errors (formData demo_typed) f = None"
proof
  fix f show "form_errors (formData demo_typed) f = None"
    by (cases f) (simp_all add: demo_typed_data form_errors_def js_trim_def js_ws_def
      validateEmail_def js_lower_def js_lower_char_def email_regex_test_def email_regex_def not_ws_at_def)
qed

theorem submit_start_body_valid_witness:
  "submit_start demo_typed = (fst (submit_start demo_typed), Some (form_json (formData demo_typed))) \<and>
   validatePayload (form_json (formData demo_typed)) = Inr None"
proof -
  have s: "submit_start demo_typed = (fst (submit_start demo_typed), Some (form_json (formData demo_typed)))"
    by (cases rule: submit_start_cases [of demo_typed]) (use demo_typed_valid in auto)
  show ?thesis using submit_start_body_valid [OF s] s by simp
qed

theorem form_view_submitting_witness:
  "form_reach (fst (submit_start demo_typed)) \<and> isSubmitting (fst (submit_start demo_typed)) \<and>
   button_label (form_view (fst (submit_start demo_typed))) = ''Sending...''"
proof -
  have r: "form_reach (fst (submit_start demo_typed))"
    using demo_typed_reach demo_typed_data(2) by (rule form_reach.submit)
  have i: "isSubmitting (fst (submit_start demo_typed))"
    by (cases rule: submit_start_cases [of demo_typed]) (use demo_typed_valid in auto)
  show ?thesis using form_view_submitting [OF r i] r i by simp
qed

theorem form_view_errors_witness:
  "form_reach (fst (submit_start (handleChange FEmail ''ada'' demo_typed))) \<and>
   shown_errors (form_view (fst (submit_start (handleChange FEmail ''ada'' demo_typed)))) FEmail =
     Some ''Please enter a valid email'' \<and>
   ''Please enter a valid email'' \<in> set (field_messages FEmail)"
proof -
  let ?st = "handleChange FEmail ''ada'' demo_typed"
  have r0: "form_reach ?st" by (rule form_reach.change [OF demo_typed_reach])
  have ns: "\<not> isSubmitting ?st" using demo_typed_data(2) by (simp add: handleChange_def)
  have r: "form_reach (fst (submit_start ?st))" using r0 ns by (rule form_reach.submit)
  have fe: "form_errors (formData ?st) FEmail = Some ''Please enter a valid email''"
    by (simp add: handleChange_def demo_typed_data form_errors_def js_trim_def js_ws_def
      validateEmail_def js_lower_def js_lower_char_def email_regex_test_def email_regex_def not_ws_at_def)
  then have "\<not> (\<forall>f. form_errors (formData ?st) f = None)" by auto
  then have "fst (submit_start ?st) = ?st\<lparr>errors := form_errors (formData ?st)\<rparr>"
    by (cases rule: submit_start_cases [of ?st]) auto
  with fe have sh: "shown_errors (form_view (fst (submit_start ?st))) FEmail = Some ''Please enter a valid email''"
    by (simp add: form_view_def err_shown_def)
  show ?thesis using form_view_errors [OF r sh] r sh by simp
qed

theorem handleChange_view_witness:
  "shown_errors (form_view (handleChange FName ''A'' init_form)) FName = None \<and>
   shown_errors (form_view (handleChange FName ''A'' init_form)) FEmail = shown_errors (form_view init_form) FEmail"
  using handleChange_view [of FName "''A''" init_form] by simp

end
