(* ===== verification/EmailRoute.thy ===== *)
theory EmailRoute
  imports EmailRegex Http MailSender
begin

text \<open>
  The Express deployment's route module \<open>src/server/routes/email.js\<close>: the handlers
  \<open>sendContactEmail\<close> (mounted at \<open>POST /api/contact\<close>) and \<open>sendTestEmail\<close>
  (\<open>POST /api/email/test\<close>). Unlike the Vercel function, the transporter is built
  once when the module loads, with defaults for a missing host and port and no check
  of the environment; the contact handler validates inline and reports the error's text
  only when \<open>NODE_ENV\<close> is \<open>development\<close>; the test handler always reports it.
  Message contents are again represented by their template and interpolated values.
\<close>

section \<open>The transporter\<close>

text \<open>
  \<open>parseInt(s)\<close> in base 10: leading whitespace, an optional sign, then the longest run
  of decimal digits; \<open>None\<close> is \<open>NaN\<close> (no digit, or \<open>s\<close> undefined).
\<close>

definition js_digit :: "char \<Rightarrow> bool" where
  "js_digit c = (let n = (of_char c :: nat) in 48 \<le> n \<and> n \<le> 57)"

definition js_hex_digit :: "char \<Rightarrow> bool" where
  "js_hex_digit c = (let n = (of_char c :: nat) in js_digit c \<or> (65 \<le> n \<and> n \<le> 70) \<or> (97 \<le> n \<and> n \<le> 102))"

definition digit_val :: "char \<Rightarrow> nat" where
  "digit_val c = (let n = (of_char c :: nat) in if js_digit c then n - 48 else if 97 \<le> n then n - 87 else n - 55)"

definition digits_val :: "int \<Rightarrow> jstr \<Rightarrow> int" where
  "digits_val radix ds = foldl (\<lambda>n d. radix * n + int (digit_val d)) 0 ds"

text \<open>
  \<open>parseInt(s)\<close> without a radix: leading whitespace, an optional sign, then a
  \<open>0x\<close> or \<open>0X\<close> prefix selects base 16; the longest run of digits of the base is
  read, and none at all is \<open>NaN\<close> (\<open>None\<close>, as is an unset variable).
\<close>

definition js_parseInt :: "jstr option \<Rightarrow> int option" where
  "js_parseInt v =
     (case v of None \<Rightarrow> None
      | Some s \<Rightarrow>
          (let s' = dropWhile js_ws s;
               (sgn, r) = (case s' of CHR ''-'' # r \<Rightarrow> (-1, r) | CHR ''+'' # r \<Rightarrow> (1, r) | _ \<Rightarrow> (1, s'))
           in if take 2 r = ''0x'' \<or> take 2 r = ''0X'' then
                (let ds = takeWhile js_hex_digit (drop 2 r)
                 in if ds = [] then None else Some (sgn * digits_val 16 ds))
              else
                (let ds = takeWhile js_digit r
                 in if ds = [] then None else Some (sgn * digits_val 10 ds))))"

record smtp_config =
  smtp_host :: jstr
  smtp_port :: int
  smtp_secure :: bool

text \<open>
  The options of \<open>nodemailer.createTransport\<close> at module load:
  \<open>process.env.SMTP_HOST || 'smtp.gmail.com'\<close>,
  \<open>parseInt(process.env.SMTP_PORT) || 587\<close> (\<open>NaN\<close> and \<open>0\<close> are falsy), and
  \<open>secure\<close> when the raw variable is the string \<open>'465'\<close>.
\<close>

definition srv_transport_config :: "env \<Rightarrow> smtp_config" where
  "srv_transport_config e =
     \<lparr>smtp_host = (if env_set e ''SMTP_HOST'' then the (e ''SMTP_HOST'') else ''smtp.gmail.com''),
      smtp_port = (case js_parseInt (e ''SMTP_PORT'') of Some p \<Rightarrow> if p = 0 then 587 else p | None \<Rightarrow> 587),
      smtp_secure = (e ''SMTP_PORT'' = Some ''465'')\<rparr>"

section \<open>Messages\<close>

datatype srv_content =
    SrvAdminMsg jstr jstr jstr jstr jstr \<comment> \<open>name, email, subject, message, sent on\<close>
  | SrvVisitorMsg jstr jstr jstr \<comment> \<open>name, message, \<open>SMTP_FROM_NAME\<close>\<close>
  | SrvTestMsg jstr \<comment> \<open>sent at\<close>

definition srv_from :: "env \<Rightarrow> jstr" where
  "srv_from e = env_str e ''SMTP_FROM_NAME'' @ '' <'' @ env_str e ''SMTP_FROM_EMAIL'' @ ''>''"

text \<open>
  \<open>adminMailOptions\<close>: the subject line converts \<open>subject\<close>, then the HTML
  converts \<open>name\<close>, \<open>email\<close> and \<open>message\<close>.
\<close>

definition srv_admin_mail :: "env \<Rightarrow> jstr \<Rightarrow> jv \<Rightarrow> jv \<Rightarrow> jv \<Rightarrow> jv \<Rightarrow> exn + srv_content mail" where
  "srv_admin_mail e now name email subject message =
     ebind (js_to_string subject) (\<lambda>ss. ebind (js_to_string name) (\<lambda>ns.
     ebind (js_to_string email) (\<lambda>es. ebind (js_to_string message) (\<lambda>ms.
       Inr \<lparr>m_from = srv_from e, m_to = env_val e ''CONTACT_RECIPIENT_EMAIL'',
            m_reply_to = Some email, m_content = SrvAdminMsg ns es ss ms now\<rparr>))))"

definition srv_visitor_mail :: "env \<Rightarrow> jv \<Rightarrow> jv \<Rightarrow> jv \<Rightarrow> exn + srv_content mail" where
  "srv_visitor_mail e name email message =
     ebind (js_to_string name) (\<lambda>ns. ebind (js_to_string message) (\<lambda>ms.
       Inr \<lparr>m_from = srv_from e, m_to = email, m_reply_to = None,
            m_content = SrvVisitorMsg ns ms (env_str e ''SMTP_FROM_NAME'')\<rparr>))"

definition srv_test_mail :: "env \<Rightarrow> jstr \<Rightarrow> srv_content mail" where
  "srv_test_mail e now =
     \<lparr>m_from = srv_from e, m_to = env_val e ''CONTACT_RECIPIENT_EMAIL'', m_reply_to = None,
      m_content = SrvTestMsg now\<rparr>"

text \<open>The two messages of a valid string submission.\<close>

definition srv_admin :: "env \<Rightarrow> jstr \<Rightarrow> jstr \<Rightarrow> jstr \<Rightarrow> jstr \<Rightarrow> jstr \<Rightarrow> srv_content mail" where
  "srv_admin e now n em sb msg =
     \<lparr>m_from = srv_from e, m_to = env_val e ''CONTACT_RECIPIENT_EMAIL'',
      m_reply_to = Some (JStr em), m_content = SrvAdminMsg n em sb msg now\<rparr>"

definition srv_visitor :: "env \<Rightarrow> jstr \<Rightarrow> jstr \<Rightarrow> jstr \<Rightarrow> srv_content mail" where
  "srv_visitor e n em msg =
     \<lparr>m_from = srv_from e, m_to = JStr em, m_reply_to = None,
      m_content = SrvVisitorMsg n msg (env_str e ''SMTP_FROM_NAME'')\<rparr>"

section \<open>sendContactEmail\<close>

text \<open>\<open>const { name, email, subject, message } = req.body\<close>\<close>

definition destructure_body :: "jv \<Rightarrow> exn + jv \<times> jv \<times> jv \<times> jv" where
  "destructure_body b =
     (case b of
        JUndef \<Rightarrow> Inl (TypeError ''Cannot destructure property 'name' of 'req.body' as it is undefined.'')
      | JNull \<Rightarrow> Inl (TypeError ''Cannot destructure property 'name' of 'req.body' as it is null.'')
      | _ \<Rightarrow> Inr (get_field b ''name'', get_field b ''email'', get_field b ''subject'',
                 get_field b ''message''))"

text \<open>The three inline checks, each an early \<open>return res.status(400)\<close>.\<close>

definition route_validate :: "jv \<Rightarrow> jv \<Rightarrow> jv \<Rightarrow> jv \<Rightarrow> exn + jstr option" where
  "route_validate name email subject message =
     (if \<not> js_truthy name \<or> \<not> js_truthy email \<or> \<not> js_truthy subject \<or> \<not> js_truthy message
      then Inr (Some ''All fields are required'')
      else ebind (js_to_string email) (\<lambda>es.
        if \<not> email_regex_test es then Inr (Some ''Invalid email format'')
        else ebind (js_call_trim ''message'' message) (\<lambda>m.
          if length m < 10 then Inr (Some ''Message must be at least 10 characters long'')
          else Inr None)))"

definition srv_msg_sent :: jstr where
  "srv_msg_sent = ''Email sent successfully! I will get back to you soon.''"

definition srv_msg_failed :: jstr where
  "srv_msg_failed = ''Failed to send email. Please try again later.''"

text \<open>\<open>process.env.NODE_ENV === 'development'\<close>\<close>

definition is_dev :: "env \<Rightarrow> bool" where
  "is_dev e \<longleftrightarrow> e ''NODE_ENV'' = Some ''development''"

definition send_contact_try :: "env \<Rightarrow> jstr \<Rightarrow> srv_content transport \<Rightarrow> jv \<Rightarrow> (srv_content, response) io" where
  "send_contact_try e now tr body =
     io_bind (io_lift (destructure_body body)) (\<lambda>(name, email, subject, message).
     io_bind (io_lift (route_validate name email subject message)) (\<lambda>verr.
       case verr of
         Some msg \<Rightarrow> io_return (json_response 400 (envelope False msg None))
       | None \<Rightarrow>
           io_bind (io_lift (srv_admin_mail e now name email subject message)) (\<lambda>am.
           io_bind (io_lift (srv_visitor_mail e name email message)) (\<lambda>vm.
           io_bind (send_mail tr am) (\<lambda>_.
           io_bind (send_mail tr vm) (\<lambda>_.
             io_return (json_response 200 (envelope True srv_msg_sent None))))))))"

definition send_contact_catch :: "env \<Rightarrow> exn \<Rightarrow> (srv_content, response) io" where
  "send_contact_catch e err =
     io_return (json_response 500
       (envelope False srv_msg_failed (if is_dev e then Some (exn_message err) else None)))"

definition sendContactEmail :: "env \<Rightarrow> jstr \<Rightarrow> srv_content transport \<Rightarrow> jv \<Rightarrow> (srv_content, response) io" where
  "sendContactEmail e now tr body = io_catch (send_contact_try e now tr body) (send_contact_catch e)"

section \<open>sendTestEmail\<close>

definition test_msg_sent :: jstr where
  "test_msg_sent = u2705 @ '' Test email sent successfully! Check your inbox.''"

definition sendTestEmail :: "env \<Rightarrow> jstr \<Rightarrow> srv_content transport \<Rightarrow> (srv_content, response) io" where
  "sendTestEmail e now tr =
     io_catch
       (io_bind (send_mail tr (srv_test_mail e now)) (\<lambda>_.
          io_return (json_response 200 (envelope True test_msg_sent None))))
       (\<lambda>err. io_return (json_response 500
          (envelope False ''Failed to send test email'' (Some (exn_message err)))))"

section \<open>Properties\<close>

lemma sendContactEmail_valid_form:
  assumes "n \<noteq> []" "sb \<noteq> []" "email_regex_test em" "10 \<le> length (js_trim msg)"
  shows "sendContactEmail e now tr (form_body n em sb msg) =
    io_catch (io_bind (send_mail tr (srv_admin e now n em sb msg)) (\<lambda>_.
              io_bind (send_mail tr (srv_visitor e n em msg)) (\<lambda>_.
                io_return (json_response 200 (envelope True srv_msg_sent None)))))
      (send_contact_catch e)"
proof -
  have "msg \<noteq> []" using assms(4) by (auto simp: js_trim_def)
  with assms email_regex_test_nonempty [OF assms(3)] show ?thesis
  by (simp add: sendContactEmail_def send_contact_try_def destructure_body_def form_body_def
      route_validate_def srv_admin_mail_def srv_visitor_mail_def srv_admin_def srv_visitor_def)
qed

lemma send_contact_try_effects:
  assumes "send_contact_try e now tr body w = (r, w')"
  shows "\<exists>xs ys. w_attempts w' = w_attempts w @ xs \<and> w_delivered w' = w_delivered w @ ys \<and>
     prefix ys xs \<and> length xs \<le> 2 \<and>
     (\<forall>resp. r = Inr resp \<longrightarrow> rs_status resp = 200 \<longrightarrow> ys = xs \<and> length xs = 2)"
  using assms
  by (auto simp: send_contact_try_def Let_def io_simps send_mail_def
      split: sum.splits option.splits prod.splits if_splits)

text \<open>
  C22: on a body of four strings that passes the inline checks, \<open>sendContactEmail\<close>
  sends the owner's notification, then the visitor's acknowledgement, and answers
  200 when both are delivered; when either send fails it answers 500 at once (the
  second send is not attempted after the first fails, and a delivered notification
  stays delivered), with the transport's error only when \<open>NODE_ENV\<close> is
  \<open>development\<close>.
\<close>

theorem sendContactEmail_outcomes:
  assumes "n \<noteq> []" "sb \<noteq> []" "email_regex_test em" "10 \<le> length (js_trim msg)"
  shows "sendContactEmail e now tr (form_body n em sb msg) w =
    (case tr (length (w_attempts w)) (srv_admin e now n em sb msg) of
       Some err \<Rightarrow>
         (Inr (json_response 500 (envelope False srv_msg_failed (if is_dev e then Some err else None))),
          w\<lparr>w_attempts := w_attempts w @ [srv_admin e now n em sb msg]\<rparr>)
     | None \<Rightarrow>
       (case tr (Suc (length (w_attempts w))) (srv_visitor e n em msg) of
          Some err \<Rightarrow>
            (Inr (json_response 500 (envelope False srv_msg_failed (if is_dev e then Some err else None))),
             w\<lparr>w_attempts := w_attempts w @ [srv_admin e now n em sb msg, srv_visitor e n em msg],
               w_delivered := w_delivered w @ [srv_admin e now n em sb msg]\<rparr>)
        | None \<Rightarrow>
            (Inr (json_response 200 (envelope True srv_msg_sent None)),
             w\<lparr>w_attempts := w_attempts w @ [srv_admin e now n em sb msg, srv_visitor e n em msg],
               w_delivered := w_delivered w @ [srv_admin e now n em sb msg, srv_visitor e n em msg]\<rparr>)))"
  using sendContactEmail_valid_form [OF assms]
  by (auto simp: io_simps send_mail_def send_contact_catch_def split: option.split)

lemma sendContactEmail_effects:
  assumes "sendContactEmail e now tr body w = (r, w')"
  shows "\<exists>resp. r = Inr resp \<and>
    (\<exists>xs ys. w_attempts w' = w_attempts w @ xs \<and> w_delivered w' = w_delivered w @ ys \<and>
       prefix ys xs \<and> length xs \<le> 2 \<and> (rs_status resp = 200 \<longrightarrow> ys = xs \<and> length xs = 2))"
proof -
  obtain r0 w0 where t: "send_contact_try e now tr body w = (r0, w0)" by fastforce
  from send_contact_try_effects [OF t] obtain xs ys where
    eff: "w_attempts w0 = w_attempts w @ xs" "w_delivered w0 = w_delivered w @ ys"
      "prefix ys xs" "length xs \<le> 2"
      "\<forall>resp. r0 = Inr resp \<longrightarrow> rs_status resp = 200 \<longrightarrow> ys = xs \<and> length xs = 2"
    by blast
  show ?thesis
  proof (cases r0)
    case (Inl x)
    with t assms eff show ?thesis
      by (auto simp: sendContactEmail_def io_simps send_contact_catch_def)
  next
    case (Inr resp)
    with t assms eff show ?thesis by (auto simp: sendContactEmail_def io_simps)
  qed
qed

lemma sendTestEmail_effects:
  assumes "sendTestEmail e now tr w = (r, w')"
  shows "\<exists>resp. r = Inr resp \<and>
    (\<exists>xs ys. w_attempts w' = w_attempts w @ xs \<and> w_delivered w' = w_delivered w @ ys \<and>
       prefix ys xs \<and> length xs \<le> 1)"
  using assms by (auto simp: sendTestEmail_def Let_def io_simps send_mail_def split: option.splits)

text \<open>
  C24: when the test mail fails, \<open>sendTestEmail\<close> answers 500 with the transport's
  error text in the body whatever \<open>NODE_ENV\<close> is (the contact route hides it
  outside development).
\<close>

theorem sendTestEmail_failure:
  "tr (length (w_attempts w)) (srv_test_mail e now) = Some err \<Longrightarrow>
   sendTestEmail e now tr w =
     (Inr (json_response 500 (envelope False ''Failed to send test email'' (Some err))),
      w\<lparr>w_attempts := w_attempts w @ [srv_test_mail e now]\<rparr>)"
  by (simp add: sendTestEmail_def io_simps)

lemma srv_transport_default: "srv_transport_config (\<lambda>_. None) = \<lparr>smtp_host = ''smtp.gmail.com'', smtp_port = 587, smtp_secure = False\<rparr>"
  by (simp add: srv_transport_config_def js_parseInt_def env_set_def)

text \<open>
  \<open>secure\<close> compares the raw string while the port is parsed: \<open>SMTP_PORT=' 465'\<close>
  (or \<open>'465 '\<close>) selects port 465 without implicit TLS.
\<close>

lemma srv_transport_port_465_insecure:
  "srv_transport_config (\<lambda>k. if k = ''SMTP_PORT'' then Some '' 465'' else None) =
   \<lparr>smtp_host = ''smtp.gmail.com'', smtp_port = 465, smtp_secure = False\<rparr>"
  by (simp add: srv_transport_config_def js_parseInt_def env_set_def js_ws_def js_digit_def
      digit_val_def digits_val_def)

text \<open>A hexadecimal port is read as such: \<open>SMTP_PORT='0x1D1'\<close> is port 465, again without TLS.\<close>

lemma srv_transport_hex_port:
  "srv_transport_config (\<lambda>k. if k = ''SMTP_PORT'' then Some ''0x1D1'' else None) =
   \<lparr>smtp_host = ''smtp.gmail.com'', smtp_port = 465, smtp_secure = False\<rparr>"
  by (simp add: srv_transport_config_def js_parseInt_def env_set_def js_ws_def js_digit_def
      js_hex_digit_def digit_val_def digits_val_def)

lemma srv_transport_secure_port: "smtp_secure (srv_transport_config e) \<Longrightarrow> smtp_port (srv_transport_config e) = 465"
  by (simp add: srv_transport_config_def js_parseInt_def js_ws_def js_digit_def digit_val_def digits_val_def)

section \<open>Witnesses\<close>

theorem sendContactEmail_outcomes_witness:
  "sendContactEmail demo_env ''now'' (tr_fail_at 1 ''rejected'')
     (form_body ''Ada'' ''ada@example.com'' ''Hi'' ''Loved your site!'') init_world =
   (Inr (json_response 500 (envelope False srv_msg_failed None)),
    \<lparr>w_attempts = [srv_admin demo_env ''now'' ''Ada'' ''ada@example.com'' ''Hi'' ''Loved your site!'',
                   srv_visitor demo_env ''Ada'' ''ada@example.com'' ''Loved your site!''],
     w_delivered = [srv_admin demo_env ''now'' ''Ada'' ''ada@example.com'' ''Hi'' ''Loved your site!'']\<rparr>)"
  using sendContactEmail_outcomes [of "''Ada''" "''Hi''" "''ada@example.com''" "''Loved your site!''"
      demo_env "''now''" "tr_fail_at 1 ''rejected''" init_world] demo_form_facts
  by (simp add: init_world_def is_dev_def demo_env_def)

theorem sendTestEmail_failure_witness:
  "sendTestEmail demo_env ''now'' (tr_fail_at 0 ''Invalid login'') init_world =
     (Inr (json_response 500 (envelope False ''Failed to send test email'' (Some ''Invalid login''))),
      \<lparr>w_attempts = [srv_test_mail demo_env ''now''], w_delivered = []\<rparr>)"
  using sendTestEmail_failure [of "tr_fail_at 0 ''Invalid login''" init_world demo_env "''now''" "''Invalid login''"]
  by (simp add: init_world_def)

end
