(* ===== verification/ExpressApp.thy ===== *)
theory ExpressApp
  imports EmailRoute "HOL-Library.Sublist"
begin

text \<open>
  The Express application of \<open>src/server/index.js\<close>. A request passes the middleware
  stack in order: the body parsers (\<open>express.json\<close>, \<open>express.urlencoded\<close>),
  whose failures go to the error handler with their status; the \<open>cors\<close> middleware,
  whose origin callback refuses an origin outside the allow-list with an \<open>Error\<close>
  (again to the error handler) and which answers every \<open>OPTIONS\<close> preflight with 204;
  the routes (\<open>POST /api/contact\<close>, \<open>POST /api/email/test\<close>,
  \<open>GET /api/health\<close>, \<open>GET /\<close>); the 404 fallback; the global error handler.
  Express matches route paths case-insensitively and with an optional trailing slash,
  and a \<open>GET\<close> route also serves \<open>HEAD\<close>.
\<close>

section \<open>Allowed origins\<close>

definition defaultOrigins :: "jstr list" where
  "defaultOrigins =
     filter (\<lambda>s. s \<noteq> [])
       [''http://localhost:5173'', ''http://localhost:3000'', ''https://localhost:3000'',
        ''https://localhost:5173'', ''https://vishalsodmise.vercel.app'']"

text \<open>\<open>a || b\<close> on an environment variable: the variable when set and non-empty.\<close>

definition env_or :: "env \<Rightarrow> jstr \<Rightarrow> jstr \<Rightarrow> jstr" where
  "env_or e k d = (if env_set e k then env_str e k else d)"

definition vercelDomain :: "env \<Rightarrow> jstr option" where
  "vercelDomain e = (if env_set e ''VERCEL_URL'' then Some (''https://'' @ env_str e ''VERCEL_URL'') else None)"

definition envOrigins :: "env \<Rightarrow> jstr list" where
  "envOrigins e =
     filter (\<lambda>s. s \<noteq> [])
       (map js_trim
         (js_split CHR '','' (env_or e ''CORS_ORIGINS'' (env_or e ''CLIENT_URL''
           (case vercelDomain e of Some d \<Rightarrow> d | None \<Rightarrow> [])))))"

text \<open>\<open>/\.vercel\.app$/.test(origin)\<close>: the origin ends with \<open>.vercel.app\<close>.\<close>

definition vercel_preview :: "jstr \<Rightarrow> bool" where
  "vercel_preview orig \<longleftrightarrow> suffix ''.vercel.app'' orig"

text \<open>
  The origin callback: \<open>True\<close> is \<open>callback(null, true)\<close>. \<open>if (!origin)\<close> lets
  through both a request without an \<open>Origin\<close> header and one whose header is empty.
\<close>

definition cors_origin_ok :: "env \<Rightarrow> jstr option \<Rightarrow> bool" where
  "cors_origin_ok e origin =
     (case origin of
        None \<Rightarrow> True
      | Some orig \<Rightarrow> orig = [] \<or> orig \<in> set (defaultOrigins @ envOrigins e) \<or> vercel_preview orig)"

section \<open>Routing\<close>

text \<open>
  A route path as Express 4 compiles it (\<open>strict\<close> and \<open>caseSensitive\<close> off): the
  request path, compared without case, equals the route's path up to a trailing slash.
\<close>

definition path_matches :: "jstr \<Rightarrow> jstr \<Rightarrow> bool" where
  "path_matches pat p =
     (if pat \<noteq> [] \<and> last pat = CHR ''/''
      then js_lower p = pat \<or> js_lower p = butlast pat
      else js_lower p = pat \<or> js_lower p = pat @ ''/'')"

definition method_matches :: "jstr \<Rightarrow> jstr \<Rightarrow> bool" where
  "method_matches route_m m \<longleftrightarrow> m = route_m \<or> (route_m = ''GET'' \<and> m = ''HEAD'')"

record express_request = request +
  rq_parse_error :: "(nat \<times> jstr) option" \<comment> \<open>a body-parser failure: status, message\<close>

definition health_body :: "jstr \<Rightarrow> jv" where
  "health_body ts =
     JObj [(''status'', JStr ''ok''), (''message'', JStr ''Server is running''), (''timestamp'', JStr ts)]"

definition root_body :: jv where
  "root_body =
     JObj [(''name'', JStr ''Portfolio Email Service''), (''version'', JStr ''1.0.0''),
           (''endpoints'', JObj [(''contact'', JStr ''POST /api/contact''),
                                 (''health'', JStr ''GET /api/health''),
                                 (''test'', JStr ''POST /api/email/test'')])]"

definition not_found :: "jstr \<Rightarrow> response" where
  "not_found p =
     json_response 404
       (JObj [(''success'', JBool False), (''message'', JStr ''Endpoint not found''), (''path'', JStr p)])"

text \<open>The global error handler: \<open>err.status || 500\<close>, the message only in development.\<close>

definition error_response :: "env \<Rightarrow> nat \<Rightarrow> jstr \<Rightarrow> response" where
  "error_response e st msg =
     json_response (if st = 0 then 500 else st)
       (JObj [(''success'', JBool False),
              (''message'', JStr (if is_dev e then msg else ''Internal server error''))])"

definition preflight_response :: response where
  "preflight_response = \<lparr>rs_status = 204, rs_allow = None, rs_body = JUndef\<rparr>"

definition route :: "env \<Rightarrow> jstr \<Rightarrow> jstr \<Rightarrow> srv_content transport \<Rightarrow> 'x express_request_scheme \<Rightarrow>
    (srv_content, response) io" where
  "route e ts now tr req =
     (let m = rq_method req; p = rq_path req
      in if method_matches ''POST'' m \<and> path_matches ''/api/contact'' p
         then sendContactEmail e now tr (rq_body req)
         else if method_matches ''POST'' m \<and> path_matches ''/api/email/test'' p
         then sendTestEmail e now tr
         else if method_matches ''GET'' m \<and> path_matches ''/api/health'' p
         then io_return (json_response 200 (health_body ts))
         else if method_matches ''GET'' m \<and> path_matches ''/'' p
         then io_return (json_response 200 root_body)
         else io_return (not_found p))"

text \<open>
  One request through the stack. \<open>ts\<close> is \<open>new Date().toISOString()\<close> and
  \<open>now\<close> is \<open>new Date().toLocaleString()\<close> at the time of the request.
\<close>

definition app_handle :: "env \<Rightarrow> jstr \<Rightarrow> jstr \<Rightarrow> srv_content transport \<Rightarrow> 'x express_request_scheme \<Rightarrow>
    (srv_content, response) io" where
  "app_handle e ts now tr req =
     (case rq_parse_error req of
        Some (st, msg) \<Rightarrow> io_return (error_response e st msg)
      | None \<Rightarrow>
          if \<not> cors_origin_ok e (rq_origin req)
          then io_return (error_response e 0 ''Not allowed by CORS'')
          else if rq_method req = ''OPTIONS'' then io_return preflight_response
          else route e ts now tr req)"

text \<open>A request for the witnesses, with no body-parser failure.\<close>

definition demo_xreq :: "jstr \<Rightarrow> jstr \<Rightarrow> jstr option \<Rightarrow> jv \<Rightarrow> express_request" where
  "demo_xreq m p orig b =
     \<lparr>rq_method = m, rq_path = p, rq_origin = orig, rq_body = b, rq_parse_error = None\<rparr>"

section \<open>Properties\<close>

lemma route_effects:
  assumes "route e ts now tr req w = (r, w')"
  shows "\<exists>resp. r = Inr resp \<and>
    (\<exists>xs ys. w_attempts w' = w_attempts w @ xs \<and> w_delivered w' = w_delivered w @ ys \<and>
       prefix ys xs \<and> length xs \<le> 2)"
proof -
  consider (c) "method_matches ''POST'' (rq_method req) \<and> path_matches ''/api/contact'' (rq_path req)"
    | (t) "\<not> (method_matches ''POST'' (rq_method req) \<and> path_matches ''/api/contact'' (rq_path req))"
          "method_matches ''POST'' (rq_method req) \<and> path_matches ''/api/email/test'' (rq_path req)"
    | (o) "\<not> (method_matches ''POST'' (rq_method req) \<and> path_matches ''/api/contact'' (rq_path req))"
          "\<not> (method_matches ''POST'' (rq_method req) \<and> path_matches ''/api/email/test'' (rq_path req))"
    by blast
  then show ?thesis
  proof cases
    case c
    with assms have "sendContactEmail e now tr (rq_body req) w = (r, w')" by (simp add: route_def)
    from sendContactEmail_effects [OF this] show ?thesis by blast
  next
    case t
    with assms have "sendTestEmail e now tr w = (r, w')" by (simp add: route_def)
    from sendTestEmail_effects [OF this] show ?thesis by fastforce
  next
    case o
    with assms have "w' = w" "\<exists>resp. r = Inr resp"
      by (auto simp: route_def Let_def io_simps split: if_splits)
    then show ?thesis by (metis append_Nil2 list.size(3) prefix_order.refl zero_le)
  qed
qed

lemma envOrigins_wf:
  "orig \<in> set (envOrigins e) \<Longrightarrow> orig \<noteq> [] \<and> js_trim orig = orig \<and> CHR '','' \<notin> set orig"
  by (auto simp: envOrigins_def js_trim_idem dest: js_split_pieces subsetD [OF set_js_trim])

text \<open>
  C23: every request through the Express stack is answered (nothing escapes the
  handlers), with at most two \<open>sendMail\<close> calls, and what is delivered is a prefix
  of what was attempted.
\<close>

theorem app_effects:
  assumes "app_handle e ts now tr req w = (r, w')"
  shows "\<exists>resp. r = Inr resp \<and>
    (\<exists>xs ys. w_attempts w' = w_attempts w @ xs \<and> w_delivered w' = w_delivered w @ ys \<and>
       prefix ys xs \<and> length xs \<le> 2)"
proof (cases "rq_parse_error req = None \<and> cors_origin_ok e (rq_origin req) \<and> rq_method req \<noteq> ''OPTIONS''")
  case True
  with assms have "route e ts now tr req w = (r, w')" by (simp add: app_handle_def)
  then show ?thesis by (rule route_effects)
next
  case False
  with assms have "w' = w" "\<exists>resp. r = Inr resp"
    by (auto simp: app_handle_def io_simps split: option.splits if_splits)
  then show ?thesis by (metis append_Nil2 list.size(3) prefix_order.refl zero_le)
qed

text \<open>
  C25: a request whose \<open>Origin\<close> the callback refuses never reaches a route: the
  error handler answers it (500, "Not allowed by CORS" in development, otherwise
  "Internal server error") and nothing is sent.
\<close>

theorem app_rejects_origin:
  "rq_parse_error req = None \<Longrightarrow> \<not> cors_origin_ok e (rq_origin req) \<Longrightarrow>
   app_handle e ts now tr req w = (Inr (error_response e 0 ''Not allowed by CORS''), w)"
  by (simp add: app_handle_def)

text \<open>
  C26: \<open>GET /api/contact\<close> (any case, optional trailing slash) falls through to the
  404 handler, not a 405 as the Vercel function answers; nothing is sent.
\<close>

theorem app_get_contact_not_found:
  "rq_parse_error req = None \<Longrightarrow> cors_origin_ok e (rq_origin req) \<Longrightarrow> rq_method req = ''GET'' \<Longrightarrow>
   path_matches ''/api/contact'' (rq_path req) \<Longrightarrow>
   app_handle e ts now tr req w = (Inr (not_found (rq_path req)), w)"
  by (auto simp: app_handle_def route_def method_matches_def path_matches_def)

text \<open>
  An allowed \<open>GET\<close> or \<open>HEAD\<close> of \<open>/api/health\<close> is answered 200 with the
  status body and the request time, and touches no mail.
\<close>

theorem app_health:
  "rq_parse_error req = None \<Longrightarrow> cors_origin_ok e (rq_origin req) \<Longrightarrow>
   rq_method req \<in> {''GET'', ''HEAD''} \<Longrightarrow> path_matches ''/api/health'' (rq_path req) \<Longrightarrow>
   app_handle e ts now tr req w = (Inr (json_response 200 (health_body ts)), w)"
  by (auto simp: app_handle_def route_def method_matches_def path_matches_def)

text \<open>
  C28: the allow-list read back from \<open>CORS_ORIGINS\<close>: when the variable holds the
  comma-joined list \<open>os\<close> (of pieces without commas, the joined string non-empty),
  \<open>envOrigins\<close> is \<open>os\<close> with every piece trimmed and the pieces left empty dropped,
  in order; in particular a list of trimmed non-empty origins comes back unchanged.
\<close>

theorem envOrigins_roundtrip:
  assumes "\<forall>orig\<in>set os. CHR '','' \<notin> set orig" "join_with '','' os \<noteq> []"
    "e ''CORS_ORIGINS'' = Some (join_with '','' os)"
  shows "envOrigins e = filter (\<lambda>s. s \<noteq> []) (map js_trim os)"
proof -
  have "os \<noteq> []" using assms(2) by auto
  have src: "env_or e ''CORS_ORIGINS'' d = join_with '','' os" for d
    using assms(2,3) by (simp add: env_or_def env_set_def env_str_def)
  have "js_split CHR '','' (join_with '','' os) = os"
    using split_join [of os "CHR '',''"] \<open>os \<noteq> []\<close> assms(1) by simp
  then show ?thesis by (simp add: envOrigins_def src)
qed

text \<open>
  C29: with none of \<open>CORS_ORIGINS\<close>, \<open>CLIENT_URL\<close>, \<open>VERCEL_URL\<close> set, an
  \<open>Origin\<close> header is accepted exactly when it is empty, one of the five defaults, or
  ends with \<open>.vercel.app\<close>, so any Vercel-hosted site is allowed, with credentials.
\<close>

theorem cors_default_origins:
  "\<not> env_set e ''CORS_ORIGINS'' \<Longrightarrow> \<not> env_set e ''CLIENT_URL'' \<Longrightarrow> \<not> env_set e ''VERCEL_URL'' \<Longrightarrow>
   cors_origin_ok e (Some orig) \<longleftrightarrow> orig = [] \<or> orig \<in> set defaultOrigins \<or> suffix ''.vercel.app'' orig"
  by (simp add: cors_origin_ok_def envOrigins_def env_or_def vercelDomain_def vercel_preview_def js_trim_def)

section \<open>Witnesses\<close>

lemmas cors_eval = cors_origin_ok_def envOrigins_def env_or_def env_set_def env_str_def
  vercelDomain_def defaultOrigins_def vercel_preview_def suffix_def js_trim_def js_ws_def

lemmas path_eval = path_matches_def method_matches_def js_lower_def js_lower_char_def

theorem app_effects_witness:
  "\<exists>resp w'. app_handle demo_env ''2026-01-01T00:00:00.000Z'' ''now'' tr_ok
     (demo_xreq ''POST'' ''/api/contact'' None (form_body ''Ada'' ''ada@example.com'' ''Hi'' ''Loved your site!''))
     init_world = (Inr resp, w') \<and> length (w_attempts w') \<le> 2"
proof -
  obtain r w' where h: "app_handle demo_env ''2026-01-01T00:00:00.000Z'' ''now'' tr_ok
     (demo_xreq ''POST'' ''/api/contact'' None (form_body ''Ada'' ''ada@example.com'' ''Hi'' ''Loved your site!''))
     init_world = (r, w')"
    by fastforce
  from app_effects [OF h] h show ?thesis by (auto simp: init_world_def)
qed

theorem app_rejects_origin_witness:
  "app_handle demo_env ''t'' ''now'' tr_ok (demo_xreq ''POST'' ''/api/contact'' (Some ''https://example.com'') JUndef)
     init_world = (Inr (error_response demo_env 0 ''Not allowed by CORS''), init_world)"
proof -
  have "\<not> cors_origin_ok demo_env (Some ''https://example.com'')"
    by (simp add: cors_eval demo_env_def)
  then show ?thesis
    using app_rejects_origin [of "demo_xreq ''POST'' ''/api/contact'' (Some ''https://example.com'') JUndef"
        demo_env "''t''" "''now''" tr_ok init_world]
    by (simp add: demo_xreq_def)
qed

theorem app_get_contact_not_found_witness:
  "app_handle demo_env ''t'' ''now'' tr_ok (demo_xreq ''GET'' ''/API/Contact/'' None JUndef) init_world =
     (Inr (not_found ''/API/Contact/''), init_world)"
proof -
  have "path_matches ''/api/contact'' ''/API/Contact/''" unfolding path_eval by code_simp
  then show ?thesis
    using app_get_contact_not_found [of "demo_xreq ''GET'' ''/API/Contact/'' None JUndef"
        demo_env "''t''" "''now''" tr_ok init_world]
    by (simp add: demo_xreq_def cors_origin_ok_def)
qed

theorem app_health_witness:
  "app_handle demo_env ''2026-01-01T00:00:00.000Z'' ''now'' tr_ok (demo_xreq ''HEAD'' ''/api/health'' None JUndef)
     init_world = (Inr (json_response 200 (health_body ''2026-01-01T00:00:00.000Z'')), init_world)"
proof -
  have "path_matches ''/api/health'' ''/api/health''" by (simp add: path_eval)
  then show ?thesis
    using app_health [of "demo_xreq ''HEAD'' ''/api/health'' None JUndef" demo_env
        "''2026-01-01T00:00:00.000Z''" "''now''" tr_ok init_world]
    by (simp add: demo_xreq_def cors_origin_ok_def)
qed

theorem envOrigins_roundtrip_witness:
  "envOrigins (\<lambda>k. if k = ''CORS_ORIGINS'' then Some '' https://a.dev,,https://b.dev '' else None) =
     [''https://a.dev'', ''https://b.dev'']"
proof -
  have "join_with '','' ['' https://a.dev'', [], ''https://b.dev ''] = '' https://a.dev,,https://b.dev ''" by simp
  moreover have "\<forall>orig\<in>set ['' https://a.dev'', [], ''https://b.dev '']. CHR '','' \<notin> set orig" by simp
  ultimately have "envOrigins (\<lambda>k. if k = ''CORS_ORIGINS'' then Some '' https://a.dev,,https://b.dev '' else None) =
      filter (\<lambda>s. s \<noteq> []) (map js_trim ['' https://a.dev'', [], ''https://b.dev ''])"
    using envOrigins_roundtrip [of "['' https://a.dev'', [], ''https://b.dev '']"
        "\<lambda>k. if k = ''CORS_ORIGINS'' then Some '' https://a.dev,,https://b.dev '' else None"]
    by simp
  then show ?thesis by (simp add: js_trim_def js_ws_def)
qed

theorem cors_default_origins_witness:
  "cors_origin_ok (\<lambda>k. None) (Some []) \<and> cors_origin_ok (\<lambda>k. None) (Some ''https://evil.vercel.app'')"
  using cors_default_origins [of "\<lambda>k. None" "[]"] cors_default_origins [of "\<lambda>k. None" "''https://evil.vercel.app''"]
  by (simp add: env_set_def suffix_def)

end
