(* ===== verification/Helpers.thy ===== *)
theory Helpers
  imports Prelude Complex_Main
begin

text \<open>
  The timing and numeric utilities of \<open>src/src/utils/helpers.js\<close>. Time is the event
  loop's clock in milliseconds. \<open>debounce\<close> and \<open>throttle\<close> are closures over one
  mutable variable (\<open>timeout\<close>, \<open>inThrottle\<close>) and a \<open>setTimeout\<close>; they are modelled
  as that variable, the pending timer's due time, and a function processing one call,
  folded over a list of timestamped calls. A timer due at the time of a call is taken
  to have fired before the call. JavaScript numbers are reals here (rounding is not
  modelled); \<open>NaN\<close> and the infinities of a division by zero are the constructors of
  \<open>jnum\<close>.
\<close>

section \<open>debounce\<close>

text \<open>
  The state of \<open>executedFunction\<close>'s closure: the pending \<open>later\<close> timer, if any, with
  its due time and the arguments it will pass to \<open>func\<close>. A call clears it
  (\<open>clearTimeout\<close>) and arms a new one \<open>wait\<close> ms ahead; an output is a call of
  \<open>func\<close>, with the time it happens.
\<close>

type_synonym 'a debounce_state = "(nat \<times> 'a) option"

definition debounce_call :: "nat \<Rightarrow> 'a debounce_state \<Rightarrow> nat \<times> 'a \<Rightarrow> (nat \<times> 'a) list \<times> 'a debounce_state" where
  "debounce_call wait st c =
     (let fired = (case st of Some (d, x) \<Rightarrow> if d \<le> fst c then [(d, x)] else [] | None \<Rightarrow> [])
      in (fired, Some (fst c + wait, snd c)))"

text \<open>A sequence of calls, then time running on until the last timer has fired.\<close>

fun debounce_run :: "nat \<Rightarrow> 'a debounce_state \<Rightarrow> (nat \<times> 'a) list \<Rightarrow> (nat \<times> 'a) list" where
  "debounce_run wait st [] = (case st of Some p \<Rightarrow> [p] | None \<Rightarrow> [])"
| "debounce_run wait st (c # cs) =
     (let (out, st') = debounce_call wait st c in out @ debounce_run wait st' cs)"

text \<open>
  The reference behaviour: a call reaches \<open>func\<close>, \<open>wait\<close> ms later, exactly when no
  further call comes before then.
\<close>

fun debounce_ref :: "nat \<Rightarrow> (nat \<times> 'a) list \<Rightarrow> (nat \<times> 'a) list" where
  "debounce_ref wait [] = []"
| "debounce_ref wait [(t, a)] = [(t + wait, a)]"
| "debounce_ref wait ((t, a) # (t', b) # cs) =
     (if t + wait \<le> t' then [(t + wait, a)] else []) @ debounce_ref wait ((t', b) # cs)"

section \<open>throttle\<close>

text \<open>
  The closure's \<open>inThrottle\<close> flag, as the due time of the timer that clears it:
  \<open>None\<close> is \<open>inThrottle\<close> unset, or set with its reset due.
\<close>

type_synonym throttle_state = "nat option"

definition throttle_call :: "nat \<Rightarrow> throttle_state \<Rightarrow> nat \<Rightarrow> bool \<times> throttle_state" where
  "throttle_call limit st t =
     (let inThrottle = (case st of Some d \<Rightarrow> t < d | None \<Rightarrow> False)
      in if \<not> inThrottle then (True, Some (t + limit)) else (False, st))"

fun throttle_run :: "nat \<Rightarrow> throttle_state \<Rightarrow> (nat \<times> 'a) list \<Rightarrow> (nat \<times> 'a) list" where
  "throttle_run limit st [] = []"
| "throttle_run limit st ((t, a) # cs) =
     (let (inv, st') = throttle_call limit st t
      in (if inv then [(t, a)] else []) @ throttle_run limit st' cs)"

section \<open>Numbers\<close>

definition clamp :: "real \<Rightarrow> real \<Rightarrow> real \<Rightarrow> real" where
  "clamp value lo hi = min (max value lo) hi"

definition lerp :: "real \<Rightarrow> real \<Rightarrow> real \<Rightarrow> real" where
  "lerp start stop factor = start + (stop - start) * factor"

text \<open>A JavaScript number as a division can produce it.\<close>

datatype jnum = Num real | NaN | PosInf | NegInf

definition js_div :: "real \<Rightarrow> real \<Rightarrow> jnum" where
  "js_div x y =
     (if y \<noteq> 0 then Num (x / y) else if x = 0 then NaN else if x > 0 then PosInf else NegInf)"

text \<open>\<open>a || b\<close> on numbers: \<open>b\<close> when \<open>a\<close> is 0.\<close>

definition num_or :: "real \<Rightarrow> real \<Rightarrow> real" where
  "num_or a b = (if a \<noteq> 0 then a else b)"

definition getScrollProgress :: "real \<Rightarrow> real \<Rightarrow> real \<Rightarrow> real \<Rightarrow> jnum" where
  "getScrollProgress bodyScrollTop docScrollTop scrollHeight clientHeight =
     js_div (num_or bodyScrollTop docScrollTop) (scrollHeight - clientHeight)"

record rect =
  r_top :: real
  r_left :: real
  r_bottom :: real
  r_right :: real

definition isInViewport :: "rect \<Rightarrow> real \<Rightarrow> real \<Rightarrow> real \<Rightarrow> real \<Rightarrow> bool" where
  "isInViewport r innerHeight clientHeight innerWidth clientWidth \<longleftrightarrow>
     r_top r \<ge> 0 \<and> r_left r \<ge> 0 \<and> r_bottom r \<le> num_or innerHeight clientHeight \<and>
     r_right r \<le> num_or innerWidth clientWidth"

section \<open>randomColor\<close>

text \<open>\<open>Number.prototype.toString(16)\<close> on a non-negative integer: lower-case digits, no padding.\<close>

definition hex_digit :: "nat \<Rightarrow> char" where
  "hex_digit d = (if d < 10 then char_of (48 + d) else char_of (87 + d))"

fun to_hex :: "nat \<Rightarrow> jstr" where
  "to_hex n = (if n < 16 then [hex_digit n] else to_hex (n div 16) @ [hex_digit (n mod 16)])"

definition randomColor :: "real \<Rightarrow> jstr" where
  "randomColor r = CHR ''#'' # to_hex (nat \<lfloor>r * 16777215\<rfloor>)"

text \<open>Reading hexadecimal digits back, for the round trip.\<close>

definition hex_val :: "char \<Rightarrow> nat" where
  "hex_val c = (let n = of_char c in if n < 58 then n - 48 else n - 87)"

fun parse_hex :: "jstr \<Rightarrow> nat" where
  "parse_hex [] = 0"
| "parse_hex (c # cs) = hex_val c * 16 ^ length cs + parse_hex cs"

declare to_hex.simps [simp del]

section \<open>Lemmas\<close>

subsection \<open>debounce\<close>

lemma debounce_run_pending:
  "debounce_run wait (Some (t + wait, a)) cs = debounce_ref wait ((t, a) # cs)"
proof (induction cs arbitrary: t a)
  case Nil
  then show ?case by simp
next
  case (Cons c cs)
  obtain t' b where c: "c = (t', b)" by fastforce
  show ?case using Cons.IH [of t' b] by (simp add: c debounce_call_def)
qed

lemma debounce_ref_length: "length (debounce_ref wait cs) \<le> length cs"
  by (induction wait cs rule: debounce_ref.induct) auto

lemma debounce_ref_nonempty [simp]: "debounce_ref wait (c # cs) \<noteq> []"
  by (induction wait "c # cs" arbitrary: c cs rule: debounce_ref.induct) auto

lemma debounce_ref_last:
  "cs \<noteq> [] \<Longrightarrow> last (debounce_ref wait cs) = (fst (last cs) + wait, snd (last cs))"
  by (induction wait cs rule: debounce_ref.induct) auto

subsection \<open>throttle\<close>

lemma throttle_run_after:
  "\<forall>x\<in>set (throttle_run limit (Some d) cs). d \<le> fst x"
proof (induction cs arbitrary: d)
  case Nil
  then show ?case by simp
next
  case (Cons c cs)
  obtain t a where c: "c = (t, a)" by fastforce
  show ?case
  proof (cases "t < d")
    case True
    with Cons.IH [of d] show ?thesis by (simp add: c throttle_call_def)
  next
    case False
    with Cons.IH [of "t + limit"] show ?thesis by (auto simp: c throttle_call_def)
  qed
qed

lemma throttle_run_spaced:
  "sorted_wrt (\<lambda>x y. fst x + limit \<le> fst y) (throttle_run limit st cs)"
proof (induction cs arbitrary: st)
  case Nil
  then show ?case by simp
next
  case (Cons c cs)
  obtain t a where c: "c = (t, a)" by fastforce
  obtain inv st' where call: "throttle_call limit st t = (inv, st')" by fastforce
  have "inv \<Longrightarrow> st' = Some (t + limit)" using call
    by (auto simp: throttle_call_def Let_def split: if_splits)
  with throttle_run_after [of limit "t + limit" cs] Cons.IH [of st'] show ?case
    by (auto simp: c call)
qed

subsection \<open>Hexadecimal\<close>

lemma hex_val_digit [simp]: "d < 16 \<Longrightarrow> hex_val (hex_digit d) = d"
  by (simp add: hex_val_def hex_digit_def Let_def)

lemma parse_hex_snoc: "parse_hex (cs @ [c]) = parse_hex cs * 16 + hex_val c"
  by (induction cs) (simp_all add: algebra_simps)

lemma to_hex_nonempty [simp]: "to_hex n \<noteq> []"
  by (subst to_hex.simps) simp

lemma length_to_hex_le: "n < 16 ^ k \<Longrightarrow> 0 < k \<Longrightarrow> length (to_hex n) \<le> k"
proof (induction n arbitrary: k rule: to_hex.induct)
  case (1 n)
  show ?case
  proof (cases "n < 16")
    case True
    with "1.prems" show ?thesis by (subst to_hex.simps) simp
  next
    case False
    obtain k' where k0: "k = Suc k'" using "1.prems"(2) by (cases k) auto
    have "0 < k'"
    proof (rule ccontr)
      assume "\<not> 0 < k'"
      with k0 "1.prems"(1) False show False by simp
    qed
    with k0 have k: "k = Suc k'" "0 < k'" by simp_all
    have "n div 16 < 16 ^ k'" using "1.prems"(1) k by (simp add: less_mult_imp_div_less mult.commute)
    with "1.IH" [OF False this k(2)] False k show ?thesis by (subst to_hex.simps) simp
  qed
qed

lemma length_to_hex_gt: "16 ^ k \<le> n \<Longrightarrow> k < length (to_hex n)"
proof (induction n arbitrary: k rule: to_hex.induct)
  case (1 n)
  show ?case
  proof (cases k)
    case 0
    then show ?thesis by simp
  next
    case (Suc k')
    with "1.prems" have ge: "\<not> n < 16" by (auto dest: le_less_trans simp: power_Suc)
    have "16 ^ k' \<le> n div 16" using "1.prems" Suc by (simp add: less_eq_div_iff_mult_less_eq mult.commute)
    with "1.IH" [OF ge this] ge Suc show ?thesis by (subst to_hex.simps) simp
  qed
qed

lemma randomColor_length_aux:
  assumes "0 \<le> r" "r < 1"
  shows "length (randomColor r) = Suc (length (to_hex (nat \<lfloor>r * 16777215\<rfloor>)))"
    and "nat \<lfloor>r * 16777215\<rfloor> < 16 ^ 6"
    and "16 ^ 5 \<le> nat \<lfloor>r * 16777215\<rfloor> \<longleftrightarrow> 1048576 \<le> r * 16777215"
proof -
  show "length (randomColor r) = Suc (length (to_hex (nat \<lfloor>r * 16777215\<rfloor>)))"
    by (simp add: randomColor_def)
  have "r * 16777215 < 16777216" using assms by simp
  then have f: "\<lfloor>r * 16777215\<rfloor> < 16777216" by (simp add: floor_less_iff)
  have f0: "0 \<le> \<lfloor>r * 16777215\<rfloor>" using assms by simp
  show "nat \<lfloor>r * 16777215\<rfloor> < 16 ^ 6" using f f0 by (simp add: nat_less_iff)
  have "(1048576::int) \<le> \<lfloor>r * 16777215\<rfloor> \<longleftrightarrow> 1048576 \<le> r * 16777215"
    by (simp add: le_floor_iff)
  then show "16 ^ 5 \<le> nat \<lfloor>r * 16777215\<rfloor> \<longleftrightarrow> 1048576 \<le> r * 16777215"
    using f0 by (simp add: le_nat_iff)
qed

subsection \<open>clamp, lerp and the scroll progress\<close>

lemma clamp_bounds:
  "lo \<le> hi \<Longrightarrow> lo \<le> clamp v lo hi \<and> clamp v lo hi \<le> hi \<and> (lo \<le> v \<and> v \<le> hi \<longrightarrow> clamp v lo hi = v)"
  by (auto simp: clamp_def)

lemma clamp_inverted: "hi < lo \<Longrightarrow> clamp v lo hi = hi"
  by (simp add: clamp_def)

lemma lerp_ends: "lerp s e 0 = s" "lerp s e 1 = e"
  by (simp_all add: lerp_def)

lemma getScrollProgress_range:
  assumes "0 < sh - ch" "0 \<le> num_or b d" "num_or b d \<le> sh - ch"
  shows "\<exists>p. getScrollProgress b d sh ch = Num p \<and> 0 \<le> p \<and> p \<le> 1"
  using assms by (auto simp: getScrollProgress_def js_div_def)

lemma getScrollProgress_unscrollable:
  "sh = ch \<Longrightarrow> getScrollProgress b d sh ch \<in> {NaN, PosInf, NegInf}"
  by (simp add: getScrollProgress_def js_div_def)

text \<open>
  C31: \<open>debounce\<close> is the debounce its name promises: the calls of \<open>func\<close> produced by
  the closure's timer juggling are exactly those of the reference, in which a call
  reaches \<open>func\<close>, \<open>wait\<close> ms later and with its own arguments, when no further call
  comes within \<open>wait\<close> ms.
\<close>

theorem debounce_eq_ref: "debounce_run wait None cs = debounce_ref wait cs"
proof (cases cs)
  case Nil
  then show ?thesis by simp
next
  case (Cons c cs')
  obtain t a where c: "c = (t, a)" by fastforce
  show ?thesis using debounce_run_pending [of wait t a cs'] by (simp add: Cons c debounce_call_def)
qed


text \<open>
  \<open>toString(16)\<close> as used by \<open>randomColor\<close> round-trips: reading its hexadecimal
  digits back gives the number.
\<close>

theorem parse_hex_to_hex: "parse_hex (to_hex n) = n"
proof (induction n rule: to_hex.induct)
  case (1 n)
  show ?case
  proof (cases "n < 16")
    case True
    then show ?thesis by (subst to_hex.simps) simp
  next
    case False
    with "1.IH" show ?thesis by (subst to_hex.simps) (simp add: parse_hex_snoc)
  qed
qed

text \<open>
  C14: \<open>randomColor\<close> returns \<open>#\<close> and one to six hexadecimal digits, and six exactly
  when \<open>Math.random() * 16777215\<close> reaches \<open>0x100000\<close>; below that (one draw in
  sixteen) the string is too short to be a six-digit CSS colour, since
  \<open>toString(16)\<close> does not pad.
\<close>

theorem randomColor_length:
  assumes "0 \<le> r" "r < 1"
  shows "2 \<le> length (randomColor r) \<and> length (randomColor r) \<le> 7 \<and>
    (length (randomColor r) = 7 \<longleftrightarrow> 1048576 \<le> r * 16777215)"
proof -
  note h = randomColor_length_aux [OF assms]
  have le: "length (to_hex (nat \<lfloor>r * 16777215\<rfloor>)) \<le> 6"
    using length_to_hex_le [OF h(2)] by simp
  have "length (to_hex (nat \<lfloor>r * 16777215\<rfloor>)) = 6 \<longleftrightarrow> 16 ^ 5 \<le> nat \<lfloor>r * 16777215\<rfloor>"
  proof
    assume six: "length (to_hex (nat \<lfloor>r * 16777215\<rfloor>)) = 6"
    show "16 ^ 5 \<le> nat \<lfloor>r * 16777215\<rfloor>"
    proof (rule ccontr)
      assume "\<not> 16 ^ 5 \<le> nat \<lfloor>r * 16777215\<rfloor>"
      with length_to_hex_le [of "nat \<lfloor>r * 16777215\<rfloor>" 5] six show False by simp
    qed
  next
    assume "16 ^ 5 \<le> nat \<lfloor>r * 16777215\<rfloor>"
    from length_to_hex_gt [OF this] le show "length (to_hex (nat \<lfloor>r * 16777215\<rfloor>)) = 6" by simp
  qed
  with h(1,3) le show ?thesis
    by (simp add: Suc_le_eq)
qed

section \<open>Witnesses\<close>


theorem randomColor_length_witness:
  "2 \<le> length (randomColor (1 / 32)) \<and> length (randomColor (1 / 32)) < 7"
  using randomColor_length [of "1 / 32"] by simp

end
