(* ===== verification/Hero.thy ===== *)
theory Hero
  imports Prelude Complex_Main "HOL-Library.Sublist"
begin

text \<open>
  The typewriter and the cursor trail of \<open>src/src/components/Hero.jsx\<close>.

  The typewriter is the state \<open>text\<close>, \<open>isDeleting\<close>, \<open>loopNum\<close>, \<open>typingSpeed\<close>
  and an effect depending on them that arms a \<open>setTimeout(handleTyping, typingSpeed)\<close>
  and clears it on cleanup. It is modelled as a discrete-event system: the state holds
  the clock and the queue of pending timers, ordered by due time (timers due at the
  same time fire in the order they were set); one step fires the earliest timer.
  All state updates of one callback are batched into one render, so the effect re-runs
  (clearing the pending tick and arming a new one) exactly when one of its
  dependencies changed. \<open>setTimeout(() => setIsDeleting(true), 2000)\<close> is a second
  kind of timer, which no cleanup clears.
\<close>

section \<open>Typewriter\<close>

datatype tw_timer = TypeTick | PauseDone

record tw_state =
  tw_text :: jstr        \<comment> \<open>\<open>text\<close>\<close>
  isDeleting :: bool
  loopNum :: nat
  typingSpeed :: nat
  tw_now :: nat          \<comment> \<open>the clock, in ms\<close>
  tw_timers :: "(nat \<times> tw_timer) list"

text \<open>\<open>setTimeout\<close>: queued after every timer due no later.\<close>

definition timer_add :: "nat \<times> tw_timer \<Rightarrow> (nat \<times> tw_timer) list \<Rightarrow> (nat \<times> tw_timer) list" where
  "timer_add t ts = takeWhile (\<lambda>u. fst u \<le> fst t) ts @ t # dropWhile (\<lambda>u. fst u \<le> fst t) ts"

text \<open>
  The typing effect after a render from \<open>old\<close> to \<open>new\<close>: when a dependency changed,
  the cleanup clears the pending tick and the effect arms a new one.
\<close>

definition tw_deps :: "tw_state \<Rightarrow> jstr \<times> bool \<times> nat \<times> nat" where
  "tw_deps st = (tw_text st, isDeleting st, loopNum st, typingSpeed st)"

definition tw_effect :: "tw_state \<Rightarrow> tw_state \<Rightarrow> tw_state" where
  "tw_effect old new =
     (if tw_deps new = tw_deps old then new
      else new\<lparr>tw_timers := timer_add (tw_now new + typingSpeed new, TypeTick)
                              (filter (\<lambda>u. snd u \<noteq> TypeTick) (tw_timers new))\<rparr>)"

text \<open>
  \<open>handleTyping\<close>. With no titles, \<open>loopNum % 0\<close> is \<open>NaN\<close>, \<open>titles[NaN]\<close> is
  undefined and \<open>fullText.substring\<close> throws. \<open>substring(0, -1)\<close> is empty, as
  \<open>take\<close> of the truncated difference is.
\<close>

definition handleTyping :: "jstr list \<Rightarrow> tw_state \<Rightarrow> exn + tw_state" where
  "handleTyping titles st =
     (if titles = [] then Inl (TypeError ''Cannot read properties of undefined (reading 'substring')'')
      else
        let full = titles ! (loopNum st mod length titles);
            txt = tw_text st; del = isDeleting st;
            done_typing = (\<not> del \<and> txt = full);
            done_deleting = (del \<and> txt = []);
            st1 = st\<lparr>tw_text := (if del then take (length txt - 1) full else take (length txt + 1) full),
                     typingSpeed := (if del then 50 else 150),
                     isDeleting := (if done_deleting then False else del),
                     loopNum := (if done_deleting then Suc (loopNum st) else loopNum st),
                     tw_timers := (if done_typing then timer_add (tw_now st + 2000, PauseDone) (tw_timers st)
                                   else tw_timers st)\<rparr>
        in Inr (tw_effect st st1))"

definition pauseDone :: "tw_state \<Rightarrow> tw_state" where
  "pauseDone st = tw_effect st (st\<lparr>isDeleting := True\<rparr>)"

text \<open>One step: the earliest pending timer fires. With no timer pending nothing happens.\<close>

definition tw_fire :: "jstr list \<Rightarrow> tw_state \<Rightarrow> exn + tw_state" where
  "tw_fire titles st =
     (case tw_timers st of
        [] \<Rightarrow> Inr st
      | (d, k) # rest \<Rightarrow>
          (let st0 = st\<lparr>tw_now := d, tw_timers := rest\<rparr>
           in case k of TypeTick \<Rightarrow> handleTyping titles st0 | PauseDone \<Rightarrow> Inr (pauseDone st0)))"

fun tw_run :: "nat \<Rightarrow> jstr list \<Rightarrow> tw_state \<Rightarrow> exn + tw_state" where
  "tw_run 0 titles st = Inr st"
| "tw_run (Suc j) titles st = ebind (tw_fire titles st) (tw_run j titles)"

text \<open>The mount: the initial \<open>useState\<close> values and the first tick armed at 150 ms.\<close>

definition tw_init :: tw_state where
  "tw_init = \<lparr>tw_text = [], isDeleting = False, loopNum = 0, typingSpeed = 150, tw_now = 0,
              tw_timers = [(150, TypeTick)]\<rparr>"

inductive tw_reach :: "jstr list \<Rightarrow> tw_state \<Rightarrow> bool" for titles where
  init: "tw_reach titles tw_init"
| fire: "tw_reach titles st \<Longrightarrow> tw_fire titles st = Inr st' \<Longrightarrow> tw_reach titles st'"

text \<open>The headline shows \<open>text || 'Full Stack Developer'\<close>.\<close>

definition hero_title :: "tw_state \<Rightarrow> jstr" where
  "hero_title st = (if tw_text st = [] then ''Full Stack Developer'' else tw_text st)"

section \<open>Cursor trail\<close>

record trail_point =
  tp_x :: real
  tp_y :: real
  tp_id :: nat

record trail_state =
  cursorTrail :: "trail_point list"
  trailIdCounter :: nat

definition cursorTrailMaxLength :: nat where
  "cursorTrailMaxLength = 20"

text \<open>\<open>handleMouseMove\<close>'s trail update: a new point with a fresh id in front, then \<open>slice(0, 20)\<close>.\<close>

definition trail_move :: "real \<Rightarrow> real \<Rightarrow> trail_state \<Rightarrow> trail_state" where
  "trail_move x y st =
     (let n = Suc (trailIdCounter st)
      in \<lparr>cursorTrail = take cursorTrailMaxLength (\<lparr>tp_x = x, tp_y = y, tp_id = n\<rparr> # cursorTrail st),
          trailIdCounter = n\<rparr>)"

text \<open>The \<open>normalizedMouseRef\<close> coordinates.\<close>

definition normalized_mouse :: "real \<Rightarrow> real \<Rightarrow> real \<Rightarrow> real \<Rightarrow> real \<times> real" where
  "normalized_mouse cx cy innerWidth innerHeight = (cx / innerWidth * 2 - 1, - (cy / innerHeight) * 2 + 1)"

text \<open>The scale of the trail's \<open>index\<close>-th dot: \<open>(cursorTrail.length - index) / cursorTrail.length\<close>.\<close>

definition trail_scale :: "nat \<Rightarrow> nat \<Rightarrow> real" where
  "trail_scale len index = (real len - real index) / real len"

text \<open>
  The typewriter's invariant: the text is a prefix of the current title, and exactly
  one timer is pending, either the next tick (with the typing speed restored once the
  title is complete) or the pause after a completed title.
\<close>

definition tw_inv :: "jstr list \<Rightarrow> tw_state \<Rightarrow> bool" where
  "tw_inv titles st =
     (let full = titles ! (loopNum st mod length titles)
      in prefix (tw_text st) full \<and>
         (case tw_timers st of
            [(d, TypeTick)] \<Rightarrow> (\<not> isDeleting st \<and> tw_text st = full \<longrightarrow> typingSpeed st = 150)
          | [(d, PauseDone)] \<Rightarrow> \<not> isDeleting st \<and> tw_text st = full
          | _ \<Rightarrow> False))"

text \<open>
  The trail's well-formedness: at most \<open>cursorTrailMaxLength\<close> points, ids strictly
  decreasing from the newest (so React's keys are distinct), none above the counter.
\<close>

definition trail_ok :: "trail_state \<Rightarrow> bool" where
  "trail_ok st \<longleftrightarrow>
     length (cursorTrail st) \<le> cursorTrailMaxLength \<and>
     sorted_wrt (>) (map tp_id (cursorTrail st)) \<and>
     list_all (\<lambda>p. tp_id p \<le> trailIdCounter st) (cursorTrail st)"

section \<open>Lemmas on the typewriter\<close>

lemma tw_run_add: "tw_run (a + b) titles st = ebind (tw_run a titles st) (tw_run b titles)"
  by (induction a arbitrary: st) (auto simp: ebind_def split: sum.split)

lemma tw_run_one: "tw_run (Suc 0) titles st = tw_fire titles st"
  by (cases "tw_fire titles st") simp_all

lemma tw_run_Inr: "tw_run a titles st = Inr st' \<Longrightarrow> tw_run (a + b) titles st = tw_run b titles st'"
  by (simp add: tw_run_add)

lemma tw_run_Suc_Inr: "tw_fire titles st = Inr st' \<Longrightarrow> tw_run (Suc b) titles st = tw_run b titles st'"
  by simp

lemma timer_add_Nil [simp]: "timer_add t [] = [t]"
  by (simp add: timer_add_def)

lemmas tw_step_defs = tw_fire_def handleTyping_def tw_effect_def tw_deps_def pauseDone_def

lemma typing_step:
  assumes "titles \<noteq> []" "full = titles ! (loopNum st mod length titles)"
    "\<not> isDeleting st" "tw_text st = take k full" "k < length full" "tw_timers st = [(T, TypeTick)]"
  shows "tw_fire titles st =
    Inr (st\<lparr>tw_text := take (Suc k) full, typingSpeed := 150, tw_now := T, tw_timers := [(T + 150, TypeTick)]\<rparr>)"
proof -
  have ne: "take k full \<noteq> full" and grow: "take (Suc k) full \<noteq> take k full"
    using assms(5) by (auto dest: arg_cong [of _ _ length])
  show ?thesis using assms ne grow by (simp add: tw_step_defs Let_def min_def)
qed

lemma typing_phase:
  assumes "titles \<noteq> []" "full = titles ! (loopNum st mod length titles)"
    "\<not> isDeleting st" "tw_text st = take k full" "k + Suc j \<le> length full" "tw_timers st = [(T, TypeTick)]"
  shows "tw_run (Suc j) titles st =
    Inr (st\<lparr>tw_text := take (k + Suc j) full, typingSpeed := 150, tw_now := T + 150 * j,
            tw_timers := [(T + 150 * Suc j, TypeTick)]\<rparr>)"
  using assms
proof (induction j arbitrary: st k T)
  case 0
  then show ?case by (simp add: typing_step)
next
  case (Suc j)
  let ?st1 = "st\<lparr>tw_text := take (Suc k) full, typingSpeed := 150, tw_now := T, tw_timers := [(T + 150, TypeTick)]\<rparr>"
  have s1: "tw_fire titles st = Inr ?st1" using Suc.prems by (intro typing_step) simp_all
  have "tw_run (Suc j) titles ?st1 =
    Inr (?st1\<lparr>tw_text := take (Suc k + Suc j) full, typingSpeed := 150, tw_now := T + 150 + 150 * j,
            tw_timers := [(T + 150 + 150 * Suc j, TypeTick)]\<rparr>)"
    using Suc.prems by (intro Suc.IH) simp_all
  with s1 show ?case by (simp add: algebra_simps)
qed

lemma typed_step:
  assumes "titles \<noteq> []" "full = titles ! (loopNum st mod length titles)"
    "\<not> isDeleting st" "tw_text st = full" "typingSpeed st = 150" "tw_timers st = [(T, TypeTick)]"
  shows "tw_fire titles st = Inr (st\<lparr>tw_now := T, tw_timers := [(T + 2000, PauseDone)]\<rparr>)"
  using assms by (simp add: tw_step_defs Let_def)

lemma pause_step:
  assumes "\<not> isDeleting st" "tw_timers st = [(T, PauseDone)]"
  shows "tw_fire titles st =
    Inr (st\<lparr>isDeleting := True, tw_now := T, tw_timers := [(T + typingSpeed st, TypeTick)]\<rparr>)"
  using assms by (simp add: tw_step_defs)

lemma deleting_step:
  assumes "titles \<noteq> []" "full = titles ! (loopNum st mod length titles)"
    "isDeleting st" "tw_text st = take (Suc k) full" "Suc k \<le> length full" "tw_timers st = [(T, TypeTick)]"
  shows "tw_fire titles st =
    Inr (st\<lparr>tw_text := take k full, typingSpeed := 50, tw_now := T, tw_timers := [(T + 50, TypeTick)]\<rparr>)"
proof -
  have ne: "take (Suc k) full \<noteq> []" and shrink: "take k full \<noteq> take (Suc k) full"
    using assms(5) by (auto dest: arg_cong [of _ _ length])
  show ?thesis using assms ne shrink by (simp add: tw_step_defs Let_def min_def)
qed

lemma deleting_phase:
  assumes "titles \<noteq> []" "full = titles ! (loopNum st mod length titles)"
    "isDeleting st" "tw_text st = take (j + Suc k) full" "j + Suc k \<le> length full" "tw_timers st = [(T, TypeTick)]"
  shows "tw_run (Suc j) titles st =
    Inr (st\<lparr>tw_text := take k full, typingSpeed := 50, tw_now := T + 50 * j,
            tw_timers := [(T + 50 * Suc j, TypeTick)]\<rparr>)"
  using assms
proof (induction j arbitrary: st T)
  case 0
  then show ?case by (simp add: deleting_step)
next
  case (Suc j)
  let ?st1 = "st\<lparr>tw_text := take (j + Suc k) full, typingSpeed := 50, tw_now := T, tw_timers := [(T + 50, TypeTick)]\<rparr>"
  have s1: "tw_fire titles st = Inr ?st1" using Suc.prems by (intro deleting_step) simp_all
  have "tw_run (Suc j) titles ?st1 =
    Inr (?st1\<lparr>tw_text := take k full, typingSpeed := 50, tw_now := T + 50 + 50 * j,
            tw_timers := [(T + 50 + 50 * Suc j, TypeTick)]\<rparr>)"
    using Suc.prems by (intro Suc.IH) simp_all
  with s1 show ?case by (simp add: algebra_simps)
qed

lemma deleted_step:
  assumes "titles \<noteq> []" "isDeleting st" "tw_text st = []" "tw_timers st = [(T, TypeTick)]"
  shows "tw_fire titles st =
    Inr (st\<lparr>typingSpeed := 50, isDeleting := False, loopNum := Suc (loopNum st), tw_now := T,
            tw_timers := [(T + 50, TypeTick)]\<rparr>)"
  using assms by (simp add: tw_step_defs Let_def)

lemma prefix_take_length: "prefix t full \<Longrightarrow> t = take (length t) full"
  by (metis append_eq_conv_conj prefix_def)

lemma tw_fire_inv:
  assumes inv: "tw_inv titles st" and ne: "titles \<noteq> []" and all: "\<forall>t\<in>set titles. t \<noteq> []"
    and f: "tw_fire titles st = Inr st'"
  shows "tw_inv titles st'"
proof -
  define full where "full = titles ! (loopNum st mod length titles)"
  have pre: "prefix (tw_text st) full" using inv by (simp add: tw_inv_def full_def Let_def)
  then have tk: "tw_text st = take (length (tw_text st)) full" by (rule prefix_take_length)
  have len: "length (tw_text st) \<le> length full" using pre by (rule prefix_length_le)
  have full_ne: "titles ! (m mod length titles) \<noteq> []" for m
    using all ne by simp
  consider (tick) T where "tw_timers st = [(T, TypeTick)]"
      "\<not> isDeleting st \<and> tw_text st = full \<longrightarrow> typingSpeed st = 150"
    | (pause) T where "tw_timers st = [(T, PauseDone)]" "\<not> isDeleting st" "tw_text st = full"
    using inv by (auto simp: tw_inv_def full_def Let_def split: list.splits prod.splits tw_timer.splits)
  then show ?thesis
  proof cases
    case (tick T)
    consider (grow) "\<not> isDeleting st" "tw_text st \<noteq> full" | (typed) "\<not> isDeleting st" "tw_text st = full"
      | (shrink) "isDeleting st" "tw_text st \<noteq> []" | (deleted) "isDeleting st" "tw_text st = []"
      by blast
    then show ?thesis
    proof cases
      case grow
      with len tk have "length (tw_text st) < length full" by (metis le_neq_implies_less take_all)
      from typing_step [OF ne full_def grow(1) tk this tick(1)] f show ?thesis
        by (auto simp: tw_inv_def full_def Let_def take_is_prefix)
    next
      case typed
      with tick have "typingSpeed st = 150" by simp
      from typed_step [OF ne full_def typed this tick(1)] f pre typed show ?thesis
        by (auto simp: tw_inv_def full_def Let_def)
    next
      case shrink
      then obtain k where k: "length (tw_text st) = Suc k" by (cases "tw_text st") auto
      from deleting_step [OF ne full_def shrink(1) _ _ tick(1), of k] tk k len f show ?thesis
        by (auto simp: tw_inv_def full_def Let_def take_is_prefix)
    next
      case deleted
      from deleted_step [OF ne deleted tick(1)] f full_ne [of "Suc (loopNum st)"] show ?thesis
        by (auto simp: tw_inv_def Let_def deleted)
    qed
  next
    case (pause T)
    from pause_step [OF pause(2,1)] f pause pre show ?thesis
      by (auto simp: tw_inv_def full_def Let_def)
  qed
qed

lemma tw_fire_progress:
  assumes "tw_inv titles st" "titles \<noteq> []"
  shows "\<exists>st'. tw_fire titles st = Inr st'"
  using assms by (auto simp: tw_inv_def Let_def tw_fire_def handleTyping_def
      split: list.splits prod.splits tw_timer.splits)

section \<open>Properties\<close>

text \<open>
  C35: on any non-empty list of non-empty titles, every state the typewriter reaches
  shows a prefix of the current title, has exactly one timer pending, and its next
  timer fires without an exception: the animation never stops.
\<close>

theorem typewriter_invariant:
  assumes "tw_reach titles st" "titles \<noteq> []" "\<forall>t\<in>set titles. t \<noteq> []"
  shows "tw_inv titles st \<and> (\<exists>st'. tw_fire titles st = Inr st')"
proof -
  from assms(1) have "tw_inv titles st"
  proof induction
    case init
    show ?case by (simp add: tw_inv_def tw_init_def)
  next
    case (fire st st')
    then show ?case using tw_fire_inv assms(2,3) by blast
  qed
  with tw_fire_progress assms(2) show ?thesis by blast
qed

text \<open>
  C36: one title of \<open>L \<ge> 1\<close> characters takes exactly \<open>2L + 3\<close> timer firings: \<open>L\<close>
  typing ticks, the tick that sees the title complete, the 2-second pause, \<open>L\<close>
  deleting ticks and the tick that moves to the next title; it lasts
  \<open>200L + 2150\<close> ms after the first tick and ends with the next title started from the
  empty text, its first tick 50 ms later.
\<close>

theorem typewriter_cycle:
  assumes "titles \<noteq> []" "titles ! (n mod length titles) = full" "full \<noteq> []"
    "tw_text st = []" "\<not> isDeleting st" "loopNum st = n" "tw_timers st = [(T, TypeTick)]"
  shows "tw_run (2 * length full + 3) titles st =
    Inr (st\<lparr>tw_text := [], isDeleting := False, loopNum := Suc n, typingSpeed := 50,
            tw_now := T + 200 * length full + 2150, tw_timers := [(T + 200 * length full + 2150 + 50, TypeTick)]\<rparr>)"
proof -
  obtain m where L: "length full = Suc m" using assms(3) by (cases full) auto
  have f: "full = titles ! (loopNum st mod length titles)" using assms(2,6) by simp
  let ?st1 = "st\<lparr>tw_text := take (0 + Suc m) full, typingSpeed := 150, tw_now := T + 150 * m,
                 tw_timers := [(T + 150 * Suc m, TypeTick)]\<rparr>"
  have r1: "tw_run (Suc m) titles st = Inr ?st1"
    using assms L by (intro typing_phase [OF assms(1) f]) simp_all
  let ?st2 = "?st1\<lparr>tw_now := T + 150 * Suc m, tw_timers := [(T + 150 * Suc m + 2000, PauseDone)]\<rparr>"
  have r2: "tw_fire titles ?st1 = Inr ?st2"
    using assms L f by (intro typed_step) simp_all
  let ?st3 = "?st2\<lparr>isDeleting := True, tw_now := T + 150 * Suc m + 2000,
                 tw_timers := [(T + 150 * Suc m + 2000 + 150, TypeTick)]\<rparr>"
  have r3: "tw_fire titles ?st2 = Inr ?st3"
    using assms pause_step [of ?st2 "T + 150 * Suc m + 2000" titles] by simp
  let ?T4 = "T + 150 * Suc m + 2000 + 150"
  let ?st4 = "?st3\<lparr>tw_text := take 0 full, typingSpeed := 50, tw_now := ?T4 + 50 * m,
                 tw_timers := [(?T4 + 50 * Suc m, TypeTick)]\<rparr>"
  have r4: "tw_run (Suc m) titles ?st3 = Inr ?st4"
    using assms L f by (intro deleting_phase) simp_all
  have r5: "tw_fire titles ?st4 =
    Inr (?st4\<lparr>typingSpeed := 50, isDeleting := False, loopNum := Suc n, tw_now := ?T4 + 50 * Suc m,
            tw_timers := [(?T4 + 50 * Suc m + 50, TypeTick)]\<rparr>)"
    using assms deleted_step [of titles ?st4 "?T4 + 50 * Suc m"] by simp
  have e1: "T + 150 * Suc m + 2000 + 150 + 50 * Suc m = T + 200 * Suc m + 2150" by simp
  note r5' = r5 [unfolded e1]
  have split: "2 * length full + 3 = Suc m + Suc (Suc (Suc m + Suc 0))" using L by simp
  have "tw_run (Suc m + Suc (Suc (Suc m + Suc 0))) titles st = tw_run (Suc (Suc (Suc m + Suc 0))) titles ?st1"
    by (rule tw_run_Inr [OF r1])
  also have "\<dots> = tw_run (Suc (Suc m + Suc 0)) titles ?st2" by (rule tw_run_Suc_Inr [OF r2])
  also have "\<dots> = tw_run (Suc m + Suc 0) titles ?st3" by (rule tw_run_Suc_Inr [OF r3])
  also have "\<dots> = tw_run (Suc 0) titles ?st4" by (rule tw_run_Inr [OF r4])
  also have "\<dots> = tw_fire titles ?st4" by (rule tw_run_one)
  finally show ?thesis unfolding split using r5' L by simp
qed

text \<open>
  Every mouse move keeps the cursor trail well-formed: at most 20 points, the
  newest first with the new id, ids strictly decreasing and never above the counter.
\<close>

theorem trail_move_ok:
  assumes "trail_ok st"
  shows "trail_ok (trail_move x y st) \<and>
    hd (cursorTrail (trail_move x y st)) = \<lparr>tp_x = x, tp_y = y, tp_id = Suc (trailIdCounter st)\<rparr>"
proof -
  have ids: "\<forall>p\<in>set (cursorTrail st). tp_id p < Suc (trailIdCounter st)"
    using assms by (auto simp: trail_ok_def list_all_iff)
  have "sorted_wrt (>) (map tp_id (take 20 (\<lparr>tp_x = x, tp_y = y, tp_id = Suc (trailIdCounter st)\<rparr> # cursorTrail st)))"
    using assms ids by (auto simp: trail_ok_def take_map [symmetric] intro: sorted_wrt_take dest!: in_set_takeD)
  then show ?thesis using assms
    by (auto simp: trail_ok_def trail_move_def cursorTrailMaxLength_def list_all_iff dest: in_set_takeD)
qed

section \<open>Witnesses\<close>

theorem typewriter_invariant_witness:
  "tw_inv [''Developer''] tw_init \<and> (\<exists>st'. tw_fire [''Developer''] tw_init = Inr st')"
  using typewriter_invariant [OF tw_reach.init, of "[''Developer'']"] by simp

theorem typewriter_cycle_witness:
  "tw_run 7 [''Hi''] tw_init =
    Inr \<lparr>tw_text = [], isDeleting = False, loopNum = 1, typingSpeed = 50, tw_now = 2700,
         tw_timers = [(2750, TypeTick)]\<rparr>"
  using typewriter_cycle [of "[''Hi'']" 0 "''Hi''" tw_init 150] by (simp add: tw_init_def)

theorem trail_move_ok_witness:
  "trail_ok (trail_move 3 4 \<lparr>cursorTrail = [], trailIdCounter = 0\<rparr>) \<and>
   hd (cursorTrail (trail_move 3 4 \<lparr>cursorTrail = [], trailIdCounter = 0\<rparr>)) = \<lparr>tp_x = 3, tp_y = 4, tp_id = 1\<rparr>"
  using trail_move_ok [of "\<lparr>cursorTrail = [], trailIdCounter = 0\<rparr>" 3 4]
  by (simp add: trail_ok_def cursorTrailMaxLength_def)

end
