(* ===== verification/Navbar.thy ===== *)
theory Navbar
  imports Prelude Complex_Main
begin

text \<open>
  The navigation bar of \<open>src/src/components/Navbar.jsx\<close> over the links of
  \<open>src/src/utils/constants.js\<close>. Its state is three \<open>useState\<close> hooks; the scroll
  listener, the link clicks and the menu button change it. The page layout the scroll
  handler reads (\<open>document.getElementById(id)\<close>, \<open>offsetTop\<close>, \<open>offsetHeight\<close>) is a
  parameter: a section is \<open>None\<close> when the page has no element with that id. The
  rendered bar is reduced to what the state decides: the solid background, the
  highlighted links and the open mobile menu.
\<close>

section \<open>Links and state\<close>

definition navLinks :: "(jstr \<times> jstr) list" where
  "navLinks =
     [(''home'', ''Home''), (''about'', ''About''), (''projects'', ''Projects''),
      (''skills'', ''Skills''), (''experience'', ''Experience''), (''contact'', ''Contact'')]"

record nav_state =
  isScrolled :: bool
  isMobileMenuOpen :: bool
  activeSection :: jstr

definition nav_init :: nav_state where
  "nav_init = \<lparr>isScrolled = False, isMobileMenuOpen = False, activeSection = ''home''\<rparr>"

type_synonym layout = "jstr \<Rightarrow> (real \<times> real) option"

section \<open>Handlers\<close>

text \<open>
  The \<open>forEach\<close> over the sections: every section containing the position sets the
  active id, so after the batched updates the last such section in link order wins,
  and with none the active section is kept.
\<close>

fun active_after :: "layout \<Rightarrow> real \<Rightarrow> (jstr \<times> jstr) list \<Rightarrow> jstr \<Rightarrow> jstr" where
  "active_after lay pos [] a = a"
| "active_after lay pos ((i, t) # ls) a =
     active_after lay pos ls
       (case lay i of
          Some (sectionTop, h) \<Rightarrow> if pos \<ge> sectionTop \<and> pos < sectionTop + h then i else a
        | None \<Rightarrow> a)"

definition handleScroll :: "layout \<Rightarrow> real \<Rightarrow> nav_state \<Rightarrow> nav_state" where
  "handleScroll lay scrollY st =
     st\<lparr>isScrolled := scrollY > 50, activeSection := active_after lay (scrollY + 100) navLinks (activeSection st)\<rparr>"

text \<open>
  \<open>handleNavClick\<close>: \<open>scrollToSection\<close> scrolls to the element when it exists (the
  second component, the element scrolled to) and the mobile menu closes.
\<close>

definition handleNavClick :: "layout \<Rightarrow> jstr \<Rightarrow> nav_state \<Rightarrow> nav_state \<times> jstr option" where
  "handleNavClick lay sectionId st =
     (st\<lparr>isMobileMenuOpen := False\<rparr>, if lay sectionId = None then None else Some sectionId)"

definition toggleMenu :: "nav_state \<Rightarrow> nav_state" where
  "toggleMenu st = st\<lparr>isMobileMenuOpen := \<not> isMobileMenuOpen st\<rparr>"

inductive nav_reach :: "nav_state \<Rightarrow> bool" where
  init: "nav_reach nav_init"
| scroll: "nav_reach st \<Longrightarrow> nav_reach (handleScroll lay y st)"
| click: "nav_reach st \<Longrightarrow> nav_reach (fst (handleNavClick lay i st))"
| toggle: "nav_reach st \<Longrightarrow> nav_reach (toggleMenu st)"

section \<open>View\<close>

record nav_view =
  nv_solid :: bool              \<comment> \<open>the blurred background instead of \<open>bg-transparent\<close>\<close>
  nv_highlighted :: "jstr list" \<comment> \<open>links rendered with the active classes\<close>
  nv_menu_open :: bool          \<comment> \<open>\<open>max-h-screen opacity-100\<close> and the close icon\<close>

definition navbar_view :: "nav_state \<Rightarrow> nav_view" where
  "navbar_view st =
     \<lparr>nv_solid = isScrolled st,
      nv_highlighted = map fst (filter (\<lambda>l. activeSection st = fst l) navLinks),
      nv_menu_open = isMobileMenuOpen st\<rparr>"

text \<open>The reference for the scroll spy: the last link, in order, whose section holds the position.\<close>

definition holds :: "layout \<Rightarrow> real \<Rightarrow> jstr \<times> jstr \<Rightarrow> bool" where
  "holds lay pos l = (case lay (fst l) of Some (sectionTop, h) \<Rightarrow> sectionTop \<le> pos \<and> pos < sectionTop + h | None \<Rightarrow> False)"

section \<open>Lemmas\<close>

lemma active_after_Cons:
  "active_after lay pos (l # ls) a = active_after lay pos ls (if holds lay pos l then fst l else a)"
  by (cases l) (auto simp: holds_def split: option.splits)

lemma active_after_last:
  "active_after lay pos ls a =
     (case filter (holds lay pos) ls of [] \<Rightarrow> a | xs \<Rightarrow> fst (last xs))"
proof (induction ls arbitrary: a)
  case Nil
  then show ?case by simp
next
  case (Cons l ls)
  show ?case
    by (cases "filter (holds lay pos) ls") (simp_all add: active_after_Cons Cons.IH)
qed

lemma active_after_mem: "active_after lay pos ls a = a \<or> active_after lay pos ls a \<in> set (map fst ls)"
proof (induction ls arbitrary: a)
  case Nil
  then show ?case by simp
next
  case (Cons l ls)
  obtain i t where l: "l = (i, t)" by fastforce
  show ?case using Cons.IH by (auto simp: l split: option.splits)
qed

lemma navLinks_highlight:
  "a \<in> set (map fst navLinks) \<Longrightarrow> map fst (filter (\<lambda>l. a = fst l) navLinks) = [a]"
  by (auto simp: navLinks_def)

lemma handleScroll_active:
  "activeSection st \<in> set (map fst navLinks) \<Longrightarrow> activeSection (handleScroll lay y st) \<in> set (map fst navLinks)"
  using active_after_mem [of lay "y + 100" navLinks "activeSection st"] by (fastforce simp: handleScroll_def)

section \<open>Properties\<close>

text \<open>
  C38: in every state the navigation bar reaches, the active section is one of the
  links, and exactly that link is highlighted.
\<close>

theorem navbar_invariant:
  assumes "nav_reach st"
  shows "activeSection st \<in> set (map fst navLinks) \<and> nv_highlighted (navbar_view st) = [activeSection st]"
proof -
  from assms have "activeSection st \<in> set (map fst navLinks)"
  proof induction
    case init
    then show ?case by (simp add: nav_init_def navLinks_def)
  next
    case (scroll st lay y)
    from scroll.IH show ?case by (rule handleScroll_active)
  next
    case (click st lay i)
    then show ?case by (simp add: handleNavClick_def)
  next
    case (toggle st)
    then show ?case by (simp add: toggleMenu_def)
  qed
  then show ?thesis by (simp add: navbar_view_def navLinks_highlight)
qed

section \<open>Witnesses\<close>

theorem navbar_invariant_witness:
  "nv_highlighted (navbar_view (handleScroll (\<lambda>i. if i = ''about'' then Some (800, 600) else None) 900 nav_init)) = [''about'']"
proof -
  have r: "nav_reach (handleScroll (\<lambda>i. if i = ''about'' then Some (800, 600) else None) 900 nav_init)"
    by (intro nav_reach.scroll nav_reach.init)
  have "activeSection (handleScroll (\<lambda>i. if i = ''about'' then Some (800, 600) else None) 900 nav_init) = ''about''"
    by (simp add: handleScroll_def nav_init_def navLinks_def)
  with navbar_invariant [OF r] show ?thesis by simp
qed

end
