(* ===== verification/App.thy ===== *)
theory App
  imports Helpers
begin

text \<open>
  The shell of the page: \<open>App\<close> and \<open>ScrollToTop\<close> of \<open>src/src/App.jsx\<close> and the
  loading screen \<open>WaterDropLoader\<close> of \<open>src/src/components/Loader.jsx\<close>. App shows the
  loader while \<open>isLoading\<close>; the loader advances its progress on a 150 ms interval by
  \<open>Math.random() * 8 + 2\<close> up to 100, then clears the interval and, 800 ms later,
  hides itself and calls \<open>onLoadingComplete\<close>, which clears \<open>isLoading\<close> and unmounts
  it. Each draw of \<open>Math.random()\<close> is a parameter of the tick it belongs to.
\<close>

section \<open>Loading screen\<close>

record loader_state =
  progress :: real
  ld_visible :: bool           \<comment> \<open>\<open>isVisible\<close>\<close>
  interval_on :: bool          \<comment> \<open>the 150 ms interval is set\<close>
  completion_pending :: bool   \<comment> \<open>the 800 ms timeout is set\<close>

definition loader_init :: loader_state where
  "loader_init = \<lparr>progress = 0, ld_visible = True, interval_on = True, completion_pending = False\<rparr>"

text \<open>One interval callback, \<open>setProgress(prev => ...)\<close>, with \<open>Math.random()\<close> = \<open>r\<close>.\<close>

definition loader_tick :: "real \<Rightarrow> loader_state \<Rightarrow> loader_state" where
  "loader_tick r st =
     (if \<not> interval_on st then st
      else if progress st \<ge> 100
      then st\<lparr>progress := 100, interval_on := False, completion_pending := True\<rparr>
      else st\<lparr>progress := min (progress st + r * 8 + 2) 100\<rparr>)"

text \<open>The 800 ms timeout: hide, then \<open>onLoadingComplete()\<close> (the flag returned).\<close>

definition loader_timeout :: "loader_state \<Rightarrow> loader_state \<times> bool" where
  "loader_timeout st =
     (if completion_pending st then (st\<lparr>ld_visible := False, completion_pending := False\<rparr>, True)
      else (st, False))"

fun loader_run :: "real list \<Rightarrow> loader_state \<Rightarrow> loader_state" where
  "loader_run [] st = st"
| "loader_run (r # rs) st = loader_run rs (loader_tick r st)"

text \<open>
  What the loader renders: nothing once hidden, else the rounded percentage
  (\<open>Math.round\<close>), whether the bouncing dots show (\<open>progress < 100\<close>) and whether
  the fade-out classes apply (\<open>progress >= 100\<close>).
\<close>

definition loader_view :: "loader_state \<Rightarrow> (int \<times> bool \<times> bool) option" where
  "loader_view st =
     (if \<not> ld_visible st then None
      else Some (\<lfloor>progress st + 1 / 2\<rfloor>, progress st < 100, progress st \<ge> 100))"

text \<open>
  The constellation the loader draws: nine particles (\<open>x\<close>, \<open>y\<close>, \<open>size\<close>, \<open>delay\<close>)
  in a \<open>viewBox\<close> of 100 by 100, and the connections between them by index. A line
  reads \<open>particles[start].x\<close>; an index out of range would read a property of
  \<open>undefined\<close> and throw in the render, the \<open>None\<close> of \<open>constellation_lines\<close>.
\<close>

definition loader_particles :: "(real \<times> real \<times> real \<times> real) list" where
  "loader_particles =
     [(50, 30, 4, 0), (30, 45, 3, 0.1), (70, 45, 3, 0.2), (20, 60, 2, 0.3), (50, 50, 6, 0),
      (80, 60, 2, 0.4), (35, 70, 3, 0.5), (65, 70, 3, 0.6), (50, 80, 4, 0.7)]"

definition loader_connections :: "(nat \<times> nat) list" where
  "loader_connections = [(0, 1), (0, 2), (1, 4), (2, 4), (4, 3), (4, 5), (3, 6), (5, 7), (6, 8), (7, 8)]"

definition constellation_lines ::
  "(real \<times> real \<times> real \<times> real) list \<Rightarrow> (nat \<times> nat) list \<Rightarrow> ((real \<times> real) \<times> (real \<times> real)) option list" where
  "constellation_lines ps cs =
     map (\<lambda>(s, e). if s < length ps \<and> e < length ps
                   then Some ((fst (ps ! s), fst (snd (ps ! s))), (fst (ps ! e), fst (snd (ps ! e))))
                   else None) cs"

text \<open>
  The four orbiting particles: \<open>left: 50 + 30 * Math.cos(i * Math.PI / 2)\<close> per cent,
  \<open>top: 50%\<close>; the container rotates about the centre, so the distance from the
  centre is the radius of the orbit.
\<close>

definition orbit_left :: "nat \<Rightarrow> real" where
  "orbit_left i = 50 + 30 * cos (real i * pi / 2)"

definition orbit_radii :: "real list" where
  "orbit_radii = map (\<lambda>i. \<bar>orbit_left i - 50\<bar>) [0, 1, 2, 3]"

text \<open>
  The 50 floating particles behind the loader, drawn in the render from seven values
  of \<open>Math.random()\<close> each (given per particle, in the order of the style object). The
  loader re-renders at every progress tick, so they are drawn anew every 150 ms.
\<close>

record loader_bg_particle =
  lb_left :: real
  lb_top :: real
  lb_width :: real
  lb_height :: real
  lb_delay :: real
  lb_duration :: real
  lb_opacity :: real

definition loader_bg_particle_of :: "real list \<Rightarrow> loader_bg_particle" where
  "loader_bg_particle_of r =
     \<lparr>lb_left = r ! 0 * 100, lb_top = r ! 1 * 100, lb_width = 1 + r ! 2 * 3, lb_height = 1 + r ! 3 * 3,
      lb_delay = r ! 4 * 5, lb_duration = 10 + r ! 5 * 20, lb_opacity = 0.1 + r ! 6 * 0.3\<rparr>"

definition loader_background :: "(nat \<Rightarrow> real list) \<Rightarrow> loader_bg_particle list" where
  "loader_background dr = map (\<lambda>i. loader_bg_particle_of (dr i)) [0..<50]"

text \<open>The three pulsing circles: diameter in px and animation delay in s.\<close>

definition pulse_rings :: "(real \<times> real) list" where
  "pulse_rings = map (\<lambda>i. (180 + real i * 40, real i * 0.7)) [0, 1, 2]"

section \<open>App\<close>

record app_state =
  isLoading :: bool
  app_loader :: "loader_state option"   \<comment> \<open>the mounted \<open>WaterDropLoader\<close>, if any\<close>

definition app_init :: app_state where
  "app_init = \<lparr>isLoading = True, app_loader = Some loader_init\<rparr>"

text \<open>\<open>handleLoadingComplete\<close>: \<open>setIsLoading(false)\<close>, which unmounts the loader.\<close>

definition handleLoadingComplete :: "app_state \<Rightarrow> app_state" where
  "handleLoadingComplete st = st\<lparr>isLoading := False, app_loader := None\<rparr>"

definition app_ticks :: "real list \<Rightarrow> app_state \<Rightarrow> app_state" where
  "app_ticks rs st = st\<lparr>app_loader := map_option (loader_run rs) (app_loader st)\<rparr>"

definition app_timeout :: "app_state \<Rightarrow> app_state" where
  "app_timeout st =
     (case app_loader st of
        None \<Rightarrow> st
      | Some ld \<Rightarrow> (case loader_timeout ld of
                     (ld', True) \<Rightarrow> handleLoadingComplete (st\<lparr>app_loader := Some ld'\<rparr>)
                   | (ld', False) \<Rightarrow> st\<lparr>app_loader := Some ld'\<rparr>))"

section \<open>Scroll-to-top button\<close>

record stt_state =
  isVisible :: bool
  scrollProgress :: jnum

definition stt_init :: stt_state where
  "stt_init = \<lparr>isVisible = False, scrollProgress = Num 0\<rparr>"

text \<open>\<open>(scrolled / winHeight) * 100\<close> on a JavaScript number.\<close>

definition jnum_times_100 :: "jnum \<Rightarrow> jnum" where
  "jnum_times_100 x = (case x of Num v \<Rightarrow> Num (v * 100) | _ \<Rightarrow> x)"

definition toggleVisibility :: "real \<Rightarrow> real \<Rightarrow> real \<Rightarrow> stt_state \<Rightarrow> stt_state" where
  "toggleVisibility pageYOffset scrollHeight innerHeight st =
     st\<lparr>isVisible := pageYOffset > 500,
        scrollProgress := jnum_times_100 (js_div pageYOffset (scrollHeight - innerHeight))\<rparr>"

text \<open>
  The progress ring's \<open>strokeDashoffset\<close>, \<open>2 * Math.PI * 26 * (1 - scrollProgress / 100)\<close>;
  \<open>1 - Infinity / 100\<close> is \<open>-Infinity\<close>.
\<close>

definition ring_length :: real where
  "ring_length = 2 * pi * 26"

definition dash_offset :: "stt_state \<Rightarrow> jnum" where
  "dash_offset st =
     (case scrollProgress st of
        Num p \<Rightarrow> Num (ring_length * (1 - p / 100))
      | NaN \<Rightarrow> NaN | PosInf \<Rightarrow> NegInf | NegInf \<Rightarrow> PosInf)"

text \<open>
  A click on the button: \<open>scrollToTop\<close> scrolls the window to the top. While the
  button is hidden its classes include \<open>pointer-events-none\<close>, so the click never
  reaches it and the page stays where it is.
\<close>

definition stt_click :: "stt_state \<Rightarrow> real \<Rightarrow> real" where
  "stt_click st scrollY = (if isVisible st then 0 else scrollY)"

section \<open>Lemmas\<close>

lemma loader_run_off: "\<not> interval_on st \<Longrightarrow> loader_run rs st = st"
  by (induction rs) (simp_all add: loader_tick_def)

lemma loader_run_completes:
  assumes "\<forall>r\<in>set rs. 0 \<le> r" "interval_on st" "0 \<le> progress st" "progress st \<le> 100"
    "102 \<le> progress st + 2 * real (length rs)"
  shows "loader_run rs st = st\<lparr>progress := 100, interval_on := False, completion_pending := True\<rparr>"
  using assms
proof (induction rs arbitrary: st)
  case Nil
  then show ?case by simp
next
  case (Cons r rs)
  show ?case
  proof (cases "progress st \<ge> 100")
    case True
    with Cons.prems show ?thesis by (simp add: loader_tick_def loader_run_off)
  next
    case False
    let ?st' = "st\<lparr>progress := min (progress st + r * 8 + 2) 100\<rparr>"
    have t: "loader_tick r st = ?st'" using Cons.prems False by (simp add: loader_tick_def)
    have "102 \<le> progress ?st' + 2 * real (length rs)"
      using Cons.prems False by (auto simp: min_def)
    with Cons.prems have "loader_run rs ?st' =
        ?st'\<lparr>progress := 100, interval_on := False, completion_pending := True\<rparr>"
      by (intro Cons.IH) (auto simp: min_def)
    with t show ?thesis by simp
  qed
qed

lemma loader_view_bounds:
  assumes "0 \<le> progress st" "progress st \<le> 100" "loader_view st = Some (pct, dots, fading)"
  shows "0 \<le> pct \<and> pct \<le> 100 \<and> (dots \<longleftrightarrow> \<not> fading)"
proof -
  have v: "pct = \<lfloor>progress st + 1 / 2\<rfloor>" "dots = (progress st < 100)" "fading = (100 \<le> progress st)"
    using assms(3) by (simp_all add: loader_view_def split: if_splits)
  have "progress st + 1 / 2 < 101" using assms(2) by simp
  then have "\<lfloor>progress st + 1 / 2\<rfloor> \<le> 100" by (simp add: floor_less_iff)
  moreover have "0 \<le> \<lfloor>progress st + 1 / 2\<rfloor>" using assms(1) by simp
  ultimately show ?thesis using v by auto
qed

lemma dash_offset_bounds:
  assumes "0 < scrollHeight - innerHeight" "0 \<le> y" "y \<le> scrollHeight - innerHeight"
  shows "\<exists>off. dash_offset (toggleVisibility y scrollHeight innerHeight st) = Num off \<and> 0 \<le> off \<and> off \<le> ring_length"
proof -
  let ?q = "y / (scrollHeight - innerHeight)"
  have q: "0 \<le> ?q" "?q \<le> 1" using assms by (simp_all add: divide_le_eq_1)
  have rl: "0 < ring_length" by (simp add: ring_length_def)
  have "dash_offset (toggleVisibility y scrollHeight innerHeight st) = Num (ring_length * (1 - ?q))"
    using assms by (simp add: dash_offset_def toggleVisibility_def jnum_times_100_def js_div_def)
      (simp add: field_simps)
  moreover have "0 \<le> ring_length * (1 - ?q)" "ring_length * (1 - ?q) \<le> ring_length"
    using q rl by (simp_all add: mult_le_cancel_left1)
  ultimately show ?thesis by blast
qed

lemma draw_scale_bounds:
  fixes r a c :: real
  assumes "0 \<le> r" "r < 1" "0 < c"
  shows "a \<le> a + r * c \<and> a + r * c < a + c"
  using assms by (simp add: mult_less_cancel_right1)

lemma loader_bg_particle_bounds:
  assumes "length r = 7" "\<forall>x\<in>set r. 0 \<le> x \<and> x < 1"
  shows "0 \<le> lb_left (loader_bg_particle_of r) \<and> lb_left (loader_bg_particle_of r) < 100 \<and>
         0 \<le> lb_top (loader_bg_particle_of r) \<and> lb_top (loader_bg_particle_of r) < 100 \<and>
         1 \<le> lb_width (loader_bg_particle_of r) \<and> lb_width (loader_bg_particle_of r) < 4 \<and>
         1 \<le> lb_height (loader_bg_particle_of r) \<and> lb_height (loader_bg_particle_of r) < 4 \<and>
         0.1 \<le> lb_opacity (loader_bg_particle_of r) \<and> lb_opacity (loader_bg_particle_of r) < 0.4"
proof -
  have r: "0 \<le> r ! k \<and> r ! k < 1" if "k < 7" for k using assms that by auto
  note b = draw_scale_bounds [OF conjunct1 [OF r] conjunct2 [OF r]]
  show ?thesis
    using b [of 0 100 0] b [of 1 100 0] b [of 2 3 1] b [of 3 3 1] b [of 6 "0.3" "0.1"] by (simp add: loader_bg_particle_of_def)
qed

text \<open>After a scroll event, the button brings the page back to the top exactly when it is more than 500 px down.\<close>

lemma stt_click_after_scroll:
  "stt_click (toggleVisibility y scrollHeight innerHeight st) y = (if 500 < y then 0 else y)"
  by (simp add: stt_click_def toggleVisibility_def)

lemma constellation_lines_defined: "None \<notin> set (constellation_lines loader_particles loader_connections)"
  by (simp add: constellation_lines_def loader_particles_def loader_connections_def)

lemma constellation_endpoints:
  "{0..<length loader_particles} = fst ` set loader_connections \<union> snd ` set loader_connections"
  by (auto simp: loader_particles_def loader_connections_def)

text \<open>Two of the four "orbiting" particles sit at the centre, with an orbit of radius 0.\<close>

lemma orbit_radii_eq: "orbit_radii = [30, 0, 30, 0]"
proof -
  have "cos (3 * pi / 2) = (0 :: real)"
    using cos_periodic_pi [of "pi / 2"] by (simp add: algebra_simps)
  then show ?thesis by (simp add: orbit_radii_def orbit_left_def)
qed

section \<open>Properties\<close>

text \<open>
  C39: the loading screen always ends. Whatever \<open>Math.random()\<close> returns, after at
  most 51 interval ticks (7.65 s) the progress is 100 and the interval is cleared; the
  800 ms timeout then calls \<open>onLoadingComplete\<close>, App leaves the loading state and the
  loader is unmounted.
\<close>

theorem loader_completes:
  assumes "\<forall>r\<in>set rs. 0 \<le> r \<and> r < 1" "51 \<le> length rs"
  shows "loader_run rs loader_init = loader_init\<lparr>progress := 100, interval_on := False, completion_pending := True\<rparr> \<and>
    app_timeout (app_ticks rs app_init) = \<lparr>isLoading = False, app_loader = None\<rparr>"
proof -
  have "loader_run rs loader_init =
      loader_init\<lparr>progress := 100, interval_on := False, completion_pending := True\<rparr>"
    using assms by (intro loader_run_completes) (auto simp: loader_init_def)
  then show ?thesis
    by (simp add: app_timeout_def app_ticks_def app_init_def loader_timeout_def handleLoadingComplete_def
        loader_init_def)
qed

section \<open>Witnesses\<close>

theorem loader_completes_witness:
  "app_timeout (app_ticks (replicate 51 0) app_init) = \<lparr>isLoading = False, app_loader = None\<rparr>"
  using loader_completes [of "replicate 51 0"] by simp

end
