(* ===== verification/Hooks.thy ===== *)
theory Hooks
  imports Helpers
begin

text \<open>
  The custom hooks of \<open>src/src/hooks\<close>: \<open>useWindowSize\<close>, the mouse hooks of
  \<open>useMouseTracking.js\<close>, the GSAP scroll hooks of \<open>useScrollAnimation.js\<close> and the
  per-frame hooks of \<open>use3DAnimation.js\<close>. A \<open>useFrame\<close> callback is a function of the
  frame's inputs (\<open>delta\<close>, the clock) and the mesh's values before the frame; an
  effect's life is its mount and its cleanup. Vectors are records of reals.
\<close>

section \<open>useWindowSize\<close>

record win_size =
  ws_width :: real
  ws_height :: real

record window_info = win_size +
  isMobile :: bool
  isTablet :: bool
  isDesktop :: bool

definition window_info :: "win_size \<Rightarrow> window_info" where
  "window_info s =
     \<lparr>ws_width = ws_width s, ws_height = ws_height s,
      isMobile = ws_width s < 768, isTablet = 768 \<le> ws_width s \<and> ws_width s < 1024,
      isDesktop = ws_width s \<ge> 1024\<rparr>"

text \<open>
  The size the hook reports after the mount-time call \<open>handleResize()\<close> at \<open>t0\<close> and
  the \<open>resize\<close> events that follow: the size read by the last call the 200 ms
  \<open>throttle\<close> let through.
\<close>

definition useWindowSize :: "nat \<Rightarrow> win_size \<Rightarrow> (nat \<times> win_size) list \<Rightarrow> window_info" where
  "useWindowSize t0 s0 resizes = window_info (snd (last (throttle_run 200 None ((t0, s0) # resizes))))"

section \<open>Mouse hooks\<close>

record vec2 =
  vx :: real
  vy :: real

text \<open>\<open>useMouseTracking\<close>'s throttled handler: the raw and the normalised position.\<close>

definition mouse_refs :: "real \<Rightarrow> real \<Rightarrow> real \<Rightarrow> real \<Rightarrow> vec2 \<times> vec2" where
  "mouse_refs clientX clientY innerWidth innerHeight =
     (\<lparr>vx = clientX, vy = clientY\<rparr>,
      \<lparr>vx = clientX / innerWidth * 2 - 1, vy = - (clientY / innerHeight) * 2 + 1\<rparr>)"

text \<open>The refs after a sequence of timestamped moves, through \<open>throttle(..., 16)\<close>.\<close>

definition useMouseTracking :: "real \<Rightarrow> real \<Rightarrow> (nat \<times> real \<times> real) list \<Rightarrow> vec2 \<times> vec2" where
  "useMouseTracking innerWidth innerHeight moves =
     (case throttle_run 16 None moves of
        [] \<Rightarrow> (\<lparr>vx = 0, vy = 0\<rparr>, \<lparr>vx = 0, vy = 0\<rparr>)
      | hs \<Rightarrow> (case snd (last hs) of (x, y) \<Rightarrow> mouse_refs x y innerWidth innerHeight))"

text \<open>\<open>useCursorTrail\<close>: a point stamped with \<open>Date.now()\<close> in front of the first nine.\<close>

record trail10_point =
  t10_x :: real
  t10_y :: real
  t10_id :: nat

definition maxTrailLength :: nat where
  "maxTrailLength = 10"

definition cursor_trail_move :: "nat \<Rightarrow> real \<Rightarrow> real \<Rightarrow> trail10_point list \<Rightarrow> trail10_point list" where
  "cursor_trail_move now x y trail =
     \<lparr>t10_x = x, t10_y = y, t10_id = now\<rparr> # take (maxTrailLength - 1) trail"

text \<open>
  \<open>useMagneticCursor\<close>: one animation frame moves the position a fraction
  \<open>strength\<close> of the way to the target. The effect adds the \<open>mousemove\<close> listener and
  starts a \<open>requestAnimationFrame\<close> loop; its cleanup removes the listener only.
\<close>

definition magnetic_frame :: "real \<Rightarrow> vec2 \<Rightarrow> vec2 \<Rightarrow> vec2" where
  "magnetic_frame strength target cur =
     \<lparr>vx = vx cur + (vx target - vx cur) * strength, vy = vy cur + (vy target - vy cur) * strength\<rparr>"

record effect_life =
  listeners :: nat
  raf_loops :: nat

definition magnetic_mount :: "effect_life \<Rightarrow> effect_life" where
  "magnetic_mount l = \<lparr>listeners = Suc (listeners l), raf_loops = Suc (raf_loops l)\<rparr>"

definition magnetic_cleanup :: "effect_life \<Rightarrow> effect_life" where
  "magnetic_cleanup l = l\<lparr>listeners := listeners l - 1\<rparr>"

text \<open>A change of \<open>strength\<close> re-runs the effect: cleanup, then mount.\<close>

definition magnetic_rerun :: "effect_life \<Rightarrow> effect_life" where
  "magnetic_rerun l = magnetic_mount (magnetic_cleanup l)"

section \<open>Scroll animation hooks\<close>

text \<open>
  GSAP keeps one global list of ScrollTriggers. Each hook's effect creates one for
  its element (none when the ref is not attached) and its cleanup kills its timeline
  and then every trigger of \<open>ScrollTrigger.getAll()\<close>.
\<close>

record trigger =
  trg_owner :: nat        \<comment> \<open>the component instance that created it\<close>
  trg_start :: jstr
  trg_end :: jstr
  trg_once :: bool

definition scroll_anim_mount :: "nat \<Rightarrow> bool \<Rightarrow> jstr \<Rightarrow> jstr \<Rightarrow> bool \<Rightarrow> trigger list \<Rightarrow> trigger list" where
  "scroll_anim_mount owner attached start stop once reg =
     (if \<not> attached then reg
      else reg @ [\<lparr>trg_owner = owner, trg_start = start, trg_end = stop, trg_once = once\<rparr>])"

definition scroll_anim_cleanup :: "nat \<Rightarrow> trigger list \<Rightarrow> trigger list" where
  "scroll_anim_cleanup owner reg = []"

text \<open>
  The options' defaults (\<open>start = 'top 80%'\<close>, \<open>end = 'bottom 20%'\<close>, \<open>once = false\<close>).
  Without an \<open>animation\<close> option the default \<open>{}\<close> is a new object on every render,
  so the effect's dependencies change and it re-runs on every render.
\<close>

definition scroll_anim_render :: "nat \<Rightarrow> bool \<Rightarrow> bool \<Rightarrow> trigger list \<Rightarrow> trigger list" where
  "scroll_anim_render owner attached has_animation_option reg =
     (if has_animation_option then reg
      else scroll_anim_mount owner attached ''top 80%'' ''bottom 20%'' False (scroll_anim_cleanup owner reg))"

text \<open>
  \<open>useStaggerAnimation\<close> creates one trigger for the container (\<open>once: true\<close>, GSAP's
  default end \<open>bottom top\<close>), \<open>useParallax\<close> one scrubbed trigger from \<open>top bottom\<close>
  to \<open>bottom top\<close>; both cleanups kill every trigger, as \<open>scroll_anim_cleanup\<close> does.
\<close>

definition stagger_mount :: "nat \<Rightarrow> bool \<Rightarrow> jstr \<Rightarrow> trigger list \<Rightarrow> trigger list" where
  "stagger_mount owner attached start reg =
     (if \<not> attached then reg
      else reg @ [\<lparr>trg_owner = owner, trg_start = start, trg_end = ''bottom top'', trg_once = True\<rparr>])"

definition parallax_mount :: "nat \<Rightarrow> bool \<Rightarrow> trigger list \<Rightarrow> trigger list" where
  "parallax_mount owner attached reg =
     (if \<not> attached then reg
      else reg @ [\<lparr>trg_owner = owner, trg_start = ''top bottom'', trg_end = ''bottom top'', trg_once = False\<rparr>])"

section \<open>Per-frame 3D hooks\<close>

record vec3 =
  x3 :: real
  y3 :: real
  z3 :: real

datatype axis = AxisX | AxisY | AxisZ | AxisAll | AxisOther

text \<open>\<open>use3DRotation\<close>'s frame, on the mesh's rotation.\<close>

definition rotation_frame :: "real \<Rightarrow> axis \<Rightarrow> bool \<Rightarrow> real \<Rightarrow> vec3 \<Rightarrow> vec3" where
  "rotation_frame speed ax autoRotate delta r =
     (if \<not> autoRotate then r
      else case ax of
        AxisX \<Rightarrow> r\<lparr>x3 := x3 r + delta * speed\<rparr>
      | AxisY \<Rightarrow> r\<lparr>y3 := y3 r + delta * speed\<rparr>
      | AxisZ \<Rightarrow> r\<lparr>z3 := z3 r + delta * speed\<rparr>
      | AxisAll \<Rightarrow> \<lparr>x3 = x3 r + delta * speed * 0.5, y3 = y3 r + delta * speed, z3 = z3 r + delta * speed * 0.3\<rparr>
      | AxisOther \<Rightarrow> r)"

text \<open>\<open>use3DFloat\<close>: the height at clock time \<open>t\<close>.\<close>

definition float_y :: "real \<Rightarrow> real \<Rightarrow> real \<Rightarrow> real \<Rightarrow> real" where
  "float_y speed intensity floatIntensity t = sin (t * speed) * intensity * floatIntensity"

text \<open>\<open>use3DMouseInteraction\<close>: the rotation set from the normalised mouse.\<close>

definition mouse_rotation :: "vec2 \<Rightarrow> real \<times> real" where
  "mouse_rotation m = (vy m * 0.5, vx m * 0.5)"

text \<open>
  \<open>use3DHover\<close>: the pointer handlers set the target scale; each frame moves the scale
  by \<open>THREE.MathUtils.lerp(x, y, t) = (1 - t) * x + t * y\<close> with \<open>t = delta / duration\<close>.
\<close>

record hover_state =
  isHovered :: bool
  targetScale :: real
  mesh_scale :: real

definition three_lerp :: "real \<Rightarrow> real \<Rightarrow> real \<Rightarrow> real" where
  "three_lerp x y t = (1 - t) * x + t * y"

definition handlePointerOver :: "real \<Rightarrow> hover_state \<Rightarrow> hover_state" where
  "handlePointerOver scale st = st\<lparr>isHovered := True, targetScale := scale\<rparr>"

definition handlePointerOut :: "hover_state \<Rightarrow> hover_state" where
  "handlePointerOut st = st\<lparr>isHovered := False, targetScale := 1\<rparr>"

definition hover_frame :: "real \<Rightarrow> real \<Rightarrow> hover_state \<Rightarrow> hover_state" where
  "hover_frame duration delta st =
     st\<lparr>mesh_scale := three_lerp (mesh_scale st) (targetScale st) (delta / duration)\<rparr>"

text \<open>\<open>use3DWave\<close>: the new \<open>z\<close> of every vertex.\<close>

definition wave_frame :: "real \<Rightarrow> real \<Rightarrow> real \<Rightarrow> vec3 list \<Rightarrow> vec3 list" where
  "wave_frame speed amplitude elapsed verts =
     map (\<lambda>v. v\<lparr>z3 := sin (x3 v * 2 + elapsed * speed) * cos (y3 v * 2 + elapsed * speed) * amplitude\<rparr>) verts"

text \<open>
  \<open>use3DParticles\<close>: the flat position array, every third entry from index 1 set from the
  entry before it. The array is a typed array, on which a write past the end is ignored.
\<close>

fun particles_frame :: "real \<Rightarrow> real \<Rightarrow> real list \<Rightarrow> real list" where
  "particles_frame speed t (x # y # z # rest) = x # sin (t * speed + x) * 0.5 # z # particles_frame speed t rest"
| "particles_frame speed t [x, y] = [x, sin (t * speed + x) * 0.5]"
| "particles_frame speed t xs = xs"

section \<open>Lemmas\<close>

lemma window_info_one_breakpoint:
  "(isMobile (window_info s) \<longleftrightarrow> \<not> isTablet (window_info s) \<and> \<not> isDesktop (window_info s)) \<and>
   (isMobile (window_info s) \<or> isTablet (window_info s) \<or> isDesktop (window_info s)) \<and>
   \<not> (isTablet (window_info s) \<and> isDesktop (window_info s))"
  by (auto simp: window_info_def)

text \<open>A resize within 200 ms of the mount is lost: the hook keeps the mount-time size.\<close>

lemma useWindowSize_stale:
  "t < 200 \<Longrightarrow> useWindowSize 0 s0 [(t, s1)] = window_info s0"
  by (simp add: useWindowSize_def throttle_call_def)

lemma cursor_trail_length: "length (cursor_trail_move now x y trail) \<le> maxTrailLength"
  by (simp add: cursor_trail_move_def maxTrailLength_def)

text \<open>Two moves in the same millisecond give two points with the same React key.\<close>

lemma cursor_trail_same_ms:
  "map t10_id (take 2 (cursor_trail_move now x y (cursor_trail_move now x' y' trail))) = [now, now]"
  by (simp add: cursor_trail_move_def maxTrailLength_def)

lemma magnetic_frame_dist:
  "vx (magnetic_frame s target c) - vx target = (1 - s) * (vx c - vx target)"
  "vy (magnetic_frame s target c) - vy target = (1 - s) * (vy c - vy target)"
  by (simp_all add: magnetic_frame_def algebra_simps)

lemma magnetic_frames:
  "vx ((magnetic_frame s target ^^ n) cur) - vx target = (1 - s) ^ n * (vx cur - vx target) \<and>
   vy ((magnetic_frame s target ^^ n) cur) - vy target = (1 - s) ^ n * (vy cur - vy target)"
proof (induction n)
  case 0
  then show ?case by simp
next
  case (Suc n)
  then show ?case by (simp only: funpow.simps(2) comp_apply magnetic_frame_dist) simp
qed

text \<open>
  Mounting, re-running the effect \<open>k\<close> times and unmounting leaves no listener but
  \<open>k + 1\<close> animation loops, which keep calling \<open>setCursorPos\<close>.
\<close>

lemma magnetic_loops_leak:
  "magnetic_cleanup ((magnetic_rerun ^^ k) (magnetic_mount \<lparr>listeners = 0, raf_loops = 0\<rparr>)) =
     \<lparr>listeners = 0, raf_loops = Suc k\<rparr>"
proof -
  have "(magnetic_rerun ^^ k) (magnetic_mount \<lparr>listeners = 0, raf_loops = 0\<rparr>) = \<lparr>listeners = 1, raf_loops = Suc k\<rparr>"
    by (induction k) (simp_all add: magnetic_rerun_def magnetic_mount_def magnetic_cleanup_def)
  then show ?thesis by (simp add: magnetic_cleanup_def)
qed

text \<open>
  A render of a component using \<open>useScrollAnimation\<close> without an \<open>animation\<close>
  option kills every ScrollTrigger of the page, whoever created it, and leaves only
  its own.
\<close>

lemma scroll_anim_render_kills_all:
  "scroll_anim_render owner True False reg =
     [\<lparr>trg_owner = owner, trg_start = ''top 80%'', trg_end = ''bottom 20%'', trg_once = False\<rparr>]"
  by (simp add: scroll_anim_render_def scroll_anim_mount_def scroll_anim_cleanup_def)

lemma float_y_bound: "\<bar>float_y speed intensity floatIntensity t\<bar> \<le> \<bar>intensity * floatIntensity\<bar>"
proof -
  have "\<bar>sin (t * speed)\<bar> \<le> 1" by (rule abs_sin_le_one)
  then show ?thesis
    by (simp add: float_y_def abs_mult mult.assoc mult_left_le_one_le)
qed

lemma wave_frame_bound: "v \<in> set (wave_frame speed amplitude t verts) \<Longrightarrow> \<bar>z3 v\<bar> \<le> \<bar>amplitude\<bar>"
proof -
  assume "v \<in> set (wave_frame speed amplitude t verts)"
  then obtain u where v: "v = u\<lparr>z3 := sin (x3 u * 2 + t * speed) * cos (y3 u * 2 + t * speed) * amplitude\<rparr>"
    by (auto simp: wave_frame_def)
  have "\<bar>sin (x3 u * 2 + t * speed) * cos (y3 u * 2 + t * speed)\<bar> \<le> 1"
    by (simp add: abs_mult mult_le_one abs_sin_le_one abs_cos_le_one)
  then show ?thesis by (simp add: v abs_mult mult_left_le_one_le)
qed

lemma particles_frame_length: "length (particles_frame speed t xs) = length xs"
  by (induction speed t xs rule: particles_frame.induct) simp_all

section \<open>Properties\<close>

text \<open>
  One frame of \<open>use3DHover\<close> multiplies the distance between the mesh's scale and
  its target by \<open>1 - delta / duration\<close>: with frames no longer than \<open>duration\<close> the
  scale approaches the target without passing it, while a frame longer than
  \<open>duration\<close> (a dropped frame or a tab switch; 0.3 s by default) overshoots it, since
  the lerp factor is not clamped to 1.
\<close>

theorem hover_frame_distance:
  assumes "0 < duration" "0 \<le> delta"
  shows "mesh_scale (hover_frame duration delta st) - targetScale st =
      (1 - delta / duration) * (mesh_scale st - targetScale st) \<and>
    (delta \<le> duration \<longrightarrow>
      \<bar>mesh_scale (hover_frame duration delta st) - targetScale st\<bar> \<le> \<bar>mesh_scale st - targetScale st\<bar>) \<and>
    (duration < delta \<and> mesh_scale st \<noteq> targetScale st \<longrightarrow>
      (mesh_scale (hover_frame duration delta st) - targetScale st) * (mesh_scale st - targetScale st) < 0)"
proof -
  let ?f = "delta / duration" and ?d = "mesh_scale st - targetScale st"
  have e: "mesh_scale (hover_frame duration delta st) - targetScale st = (1 - ?f) * ?d"
    by (simp add: hover_frame_def three_lerp_def algebra_simps)
  have f0: "0 \<le> ?f" using assms by simp
  have near: "\<bar>(1 - ?f) * ?d\<bar> \<le> \<bar>?d\<bar>" if "delta \<le> duration"
  proof -
    have "?f \<le> 1" using that assms by simp
    with f0 have "\<bar>1 - ?f\<bar> \<le> 1" by simp
    then show ?thesis by (simp add: abs_mult mult_left_le_one_le)
  qed
  have over: "(1 - ?f) * ?d * ?d < 0" if "duration < delta" "?d \<noteq> 0"
  proof -
    have "1 < ?f" using that assms by simp
    moreover have "0 < ?d * ?d" using that(2) zero_less_power2 [of ?d] by (simp add: power2_eq_square)
    ultimately show ?thesis by (simp add: mult.assoc mult_neg_pos)
  qed
  show ?thesis using e near over by simp
qed

section \<open>Witnesses\<close>

theorem hover_frame_distance_witness:
  "mesh_scale (hover_frame 0.3 0.6 \<lparr>isHovered = True, targetScale = 1.3, mesh_scale = 1\<rparr>) = 1.6"
proof -
  have "mesh_scale (hover_frame 0.3 0.6 \<lparr>isHovered = True, targetScale = 1.3, mesh_scale = 1\<rparr>) - 1.3 =
      (1 - 0.6 / 0.3) * (1 - 1.3)"
    using hover_frame_distance [of "0.3" "0.6" "\<lparr>isHovered = True, targetScale = 1.3, mesh_scale = 1\<rparr>"] by simp
  then show ?thesis by simp
qed

end
