(* ===== verification/IconMap.thy ===== *)
theory IconMap
  imports Prelude
begin

text \<open>
  \<open>iconMap\<close> and \<open>getIcon\<close> of \<open>src/src/utils/iconMap.jsx\<close>. The map is an object
  literal, so \<open>iconMap[iconName]\<close> also finds the properties it inherits from
  \<open>Object.prototype\<close>; those are functions, hence truthy, and \<open>getIcon\<close> renders them
  as if they were icon components. A lucide component is named by its export name.
\<close>

definition iconMap :: "(jstr \<times> jstr) list" where
  "iconMap =
     [(''briefcase'', ''Briefcase''), (''code'', ''Code''), (''palette'', ''Palette''), (''zap'', ''Zap''),
      (''graduation-cap'', ''GraduationCap''), (''star'', ''Star''), (''rocket'', ''Rocket''),
      (''mail'', ''Mail''), (''github'', ''Github''), (''linkedin'', ''Linkedin''),
      (''twitter'', ''Twitter''), (''cube'', ''Box''), (''server'', ''Server''), (''wrench'', ''Wrench''),
      (''user'', ''User''), (''trending-up'', ''TrendingUp''), (''map-pin'', ''MapPin''),
      (''phone'', ''Phone''), (''external-link'', ''ExternalLink''), (''brain'', ''Brain''), (''cpu'', ''Cpu'')]"

text \<open>The function-valued properties every plain object inherits.\<close>

definition object_prototype_fns :: "jstr list" where
  "object_prototype_fns =
     [''constructor'', ''hasOwnProperty'', ''isPrototypeOf'', ''propertyIsEnumerable'', ''toLocaleString'',
      ''toString'', ''valueOf'', ''__defineGetter__'', ''__defineSetter__'', ''__lookupGetter__'',
      ''__lookupSetter__'']"

text \<open>
  The inherited accessor \<open>__proto__\<close> gives \<open>Object.prototype\<close> itself: truthy, but
  an object, not a component.
\<close>

definition object_prototype_objs :: "jstr list" where
  "object_prototype_objs = [''__proto__'']"

text \<open>
  What \<open>getIcon\<close> returns: the icon element, \<open>null\<close> after the warning, an element
  whose type is a built-in function of \<open>Object.prototype\<close>, or an element whose type
  is an object, which React refuses to render (\<open>InvalidElement\<close>).
\<close>

datatype icon_result = IconElement jstr | NoIcon | PrototypeElement jstr | InvalidElement jstr

definition getIcon :: "jstr \<Rightarrow> icon_result" where
  "getIcon iconName =
     (case map_of iconMap iconName of
        Some c \<Rightarrow> IconElement c
      | None \<Rightarrow> if iconName \<in> set object_prototype_fns then PrototypeElement iconName
                else if iconName \<in> set object_prototype_objs then InvalidElement iconName
                else NoIcon)"

lemma getIcon_own: "(n, c) \<in> set iconMap \<Longrightarrow> getIcon n = IconElement c"
proof -
  assume mem: "(n, c) \<in> set iconMap"
  have "distinct (map fst iconMap)" by (simp add: iconMap_def)
  from this mem have "map_of iconMap n = Some c" by (rule map_of_is_SomeI)
  then show ?thesis by (simp add: getIcon_def)
qed

lemma getIcon_null:
  "getIcon n = NoIcon \<longleftrightarrow> n \<notin> set (map fst iconMap) \<and> n \<notin> set object_prototype_fns \<and> n \<notin> set object_prototype_objs"
  by (force simp: getIcon_def map_of_eq_None_iff dest: map_of_SomeD split: option.split)

lemma getIcon_toString: "getIcon ''toString'' = PrototypeElement ''toString''"
  by (simp add: getIcon_def iconMap_def object_prototype_fns_def)

lemma getIcon_proto: "getIcon ''__proto__'' = InvalidElement ''__proto__''"
  by (simp add: getIcon_def iconMap_def object_prototype_fns_def object_prototype_objs_def)

end
