(* ===== verification/Sections.thy ===== *)
theory Sections
  imports IconMap Navbar
begin

text \<open>
  The data-driven parts of the page sections: the project filter of
  \<open>src/src/components/sections/Projects.jsx\<close> and the project card of
  \<open>cards/ProjectCard.jsx\<close>, the alternating timeline card of \<open>cards/MilestoneCard.jsx\<close>,
  the footer's quick links (\<open>Footer.jsx\<close>) and the contact details and social links
  of \<open>Contact.jsx\<close>. The portfolio data itself is a JSON file outside the repository,
  so the items are parameters; a rendered section is reduced to the values and the
  choices the code makes.
\<close>

section \<open>Projects\<close>

record project =
  prj_id :: nat
  prj_title :: jstr
  prj_category :: jstr
  prj_shortDescription :: jstr
  prj_badges :: "jstr list option"   \<comment> \<open>\<open>project.badges\<close>, possibly absent\<close>
  prj_technologies :: "jstr list"
  prj_liveUrl :: "jstr option"
  prj_githubUrl :: "jstr option"

text \<open>\<open>filter === 'all' || project.category === filter\<close>\<close>

definition filteredProjects :: "jstr \<Rightarrow> project list \<Rightarrow> project list" where
  "filteredProjects flt items = filter (\<lambda>p. flt = ''all'' \<or> prj_category p = flt) items"

text \<open>
  \<open>toUpperCase\<close> of one character: the Latin-1 lower-case letters, and \<open>\<ss>\<close> to
  \<open>SS\<close>. The upper-case forms of \<open>\<mu>\<close> and \<open>\<yacute>\<close>-with-diaeresis (code
  points 181 and 255) lie outside Latin-1, which \<open>char\<close> cannot hold; they are left
  as they are.
\<close>

definition js_upper_char :: "char \<Rightarrow> jstr" where
  "js_upper_char c =
     (let n = (of_char c :: nat)
      in if (97 \<le> n \<and> n \<le> 122) \<or> (224 \<le> n \<and> n \<le> 254 \<and> n \<noteq> 247) then [char_of (n - 32)]
         else if n = 223 then ''SS'' else [c])"

text \<open>The filter button's label, \<open>f.charAt(0).toUpperCase() + f.slice(1)\<close>.\<close>

definition filter_label :: "jstr \<Rightarrow> jstr" where
  "filter_label f = (case f of [] \<Rightarrow> [] | c # cs \<Rightarrow> js_upper_char c @ cs)"

record card_view =
  cv_badges :: "jstr list"        \<comment> \<open>the badge row, empty when not rendered\<close>
  cv_title :: jstr
  cv_description :: jstr
  cv_technologies :: "jstr list"
  cv_live :: "jstr option"        \<comment> \<open>the \<open>Live Demo\<close> link\<close>
  cv_code :: "jstr option"        \<comment> \<open>the \<open>Code\<close> link\<close>

text \<open>A URL renders a link only when truthy, that is non-empty.\<close>

definition truthy_url :: "jstr option \<Rightarrow> jstr option" where
  "truthy_url u = (case u of Some s \<Rightarrow> if s = [] then None else Some s | None \<Rightarrow> None)"

definition projectCard :: "project \<Rightarrow> card_view" where
  "projectCard p =
     \<lparr>cv_badges = (case prj_badges p of Some bs \<Rightarrow> bs | None \<Rightarrow> []),
      cv_title = prj_title p, cv_description = prj_shortDescription p,
      cv_technologies = prj_technologies p,
      cv_live = truthy_url (prj_liveUrl p), cv_code = truthy_url (prj_githubUrl p)\<rparr>"

record projects_view =
  pv_buttons :: "(jstr \<times> bool) list"   \<comment> \<open>label, highlighted\<close>
  pv_cards :: "card_view list"
  pv_empty_message :: bool

definition projectsSection :: "jstr list \<Rightarrow> project list \<Rightarrow> jstr \<Rightarrow> projects_view" where
  "projectsSection filters items flt =
     (let shown = filteredProjects flt items
      in \<lparr>pv_buttons = map (\<lambda>f. (filter_label f, flt = f)) filters,
          pv_cards = map projectCard shown,
          pv_empty_message = (shown = [])\<rparr>)"

text \<open>\<open>setFilter(f)\<close> from a filter button.\<close>

definition setFilter :: "jstr \<Rightarrow> jstr \<Rightarrow> jstr" where
  "setFilter f old = f"

section \<open>Timeline card\<close>

record milestone =
  ms_year :: jstr
  ms_title :: jstr
  ms_description :: jstr
  ms_icon :: jstr

text \<open>\<open>isEven = index % 2 === 0\<close> alternates the card's side.\<close>

definition milestoneCard :: "nat \<Rightarrow> milestone \<Rightarrow> bool \<times> icon_result \<times> jstr \<times> jstr" where
  "milestoneCard index m = (index mod 2 = 0, getIcon (ms_icon m), ms_year m, ms_title m)"

definition journey :: "milestone list \<Rightarrow> (bool \<times> icon_result \<times> jstr \<times> jstr) list" where
  "journey ms = map (\<lambda>(i, m). milestoneCard i m) (zip [0..<length ms] ms)"

section \<open>Footer quick links\<close>

definition footer_links :: "jstr list" where
  "footer_links = [''Home'', ''About'', ''Projects'', ''Skills'', ''Experience'', ''Contact'']"

text \<open>Each button calls \<open>scrollToSection(link.toLowerCase())\<close>.\<close>

definition footer_targets :: "jstr list" where
  "footer_targets = map js_lower footer_links"

section \<open>Contact details and social links\<close>

record contact_info =
  ci_icon :: jstr
  ci_label :: jstr
  ci_value :: jstr
  ci_link :: "jstr option"

datatype detail_value = LinkedValue jstr jstr | PlainValue jstr

definition contact_details :: "contact_info list \<Rightarrow> (icon_result \<times> jstr \<times> detail_value) list" where
  "contact_details infos =
     map (\<lambda>i. (getIcon (ci_icon i), ci_label i,
               case truthy_url (ci_link i) of Some l \<Rightarrow> LinkedValue l (ci_value i) | None \<Rightarrow> PlainValue (ci_value i)))
       infos"

record social_link =
  sl_name :: jstr
  sl_url :: jstr
  sl_icon :: jstr

definition social_links :: "social_link list \<Rightarrow> (jstr \<times> jstr \<times> icon_result) list" where
  "social_links ls = map (\<lambda>s. (sl_url s, sl_name s, getIcon (sl_icon s))) ls"

section \<open>Footer\<close>

text \<open>
  \<open>Footer\<close>: the brand column, the quick links, the social links (each an anchor to
  its url titled with its name, with its icon) and the copyright line for
  \<open>new Date().getFullYear()\<close>, a parameter. The sign is U+00A9.
\<close>

definition footer_copyright :: "int \<Rightarrow> jstr \<Rightarrow> jstr" where
  "footer_copyright currentYear name =
     [CHR 0xA9, CHR 0x20] @ js_int_str currentYear @ '' '' @ name @ ''. All rights reserved.''"

record footer_view =
  fv_name :: jstr
  fv_bio :: jstr
  fv_links :: "(jstr \<times> jstr) list"   \<comment> \<open>label and the section it scrolls to\<close>
  fv_socials :: "(jstr \<times> jstr \<times> icon_result) list"
  fv_copyright :: jstr

definition footer :: "jstr \<Rightarrow> jstr \<Rightarrow> social_link list \<Rightarrow> int \<Rightarrow> footer_view" where
  "footer name bio socials currentYear =
     \<lparr>fv_name = name, fv_bio = bio, fv_links = zip footer_links footer_targets,
      fv_socials = social_links socials, fv_copyright = footer_copyright currentYear name\<rparr>"

section \<open>Experience, skills and about\<close>

record experience =
  ex_icon :: jstr
  ex_position :: jstr
  ex_company :: jstr
  ex_duration :: jstr
  ex_description :: jstr
  ex_achievements :: "jstr list"
  ex_technologies :: "jstr list"

text \<open>\<open>ExperienceCard\<close>: the icon, the header, the description and the two lists.\<close>

definition experience_card :: "experience \<Rightarrow> icon_result \<times> jstr list \<times> jstr list \<times> jstr list" where
  "experience_card e =
     (getIcon (ex_icon e), [ex_position e, ex_company e, ex_duration e, ex_description e],
      ex_achievements e, ex_technologies e)"

text \<open>The \<open>Experience\<close> section: one card per item, in order.\<close>

definition experience_section :: "experience list \<Rightarrow> (icon_result \<times> jstr list \<times> jstr list \<times> jstr list) list" where
  "experience_section items = map experience_card items"

record skill =
  sk_name :: jstr
  sk_proficiency :: real

record skill_category =
  sc_name :: jstr
  sc_icon :: jstr
  sc_skills :: "skill list"

text \<open>
  A skill bar: the name, the percentage shown, and the bar's \<open>width\<close> in per cent,
  both \<open>skill.proficiency\<close> as given.
\<close>

definition skill_bar :: "skill \<Rightarrow> jstr \<times> real \<times> real" where
  "skill_bar s = (sk_name s, sk_proficiency s, sk_proficiency s)"

definition skill_category_view :: "skill_category \<Rightarrow> icon_result \<times> jstr \<times> (jstr \<times> real \<times> real) list" where
  "skill_category_view c = (getIcon (sc_icon c), sc_name c, map skill_bar (sc_skills c))"

definition skills_section :: "skill_category list \<Rightarrow> (icon_result \<times> jstr \<times> (jstr \<times> real \<times> real) list) list" where
  "skills_section cats = map skill_category_view cats"

record highlight =
  hl_icon :: jstr
  hl_title :: jstr
  hl_description :: jstr

definition about_highlights :: "highlight list \<Rightarrow> (icon_result \<times> jstr \<times> jstr) list" where
  "about_highlights hs = map (\<lambda>h. (getIcon (hl_icon h), hl_title h, hl_description h)) hs"

section \<open>Section background\<close>

text \<open>
  \<open>SectionBackground\<close> draws 40 particles in its render, six values of
  \<open>Math.random()\<close> each (given per particle), and a star field of 1000 stars when
  \<open>showStars\<close>.
\<close>

record bg_particle =
  bp_size :: real
  bp_left :: real
  bp_top :: real
  bp_delay :: real
  bp_duration :: real
  bp_opacity :: real

definition bg_particle_of :: "real list \<Rightarrow> bg_particle" where
  "bg_particle_of r =
     \<lparr>bp_size = 1 + r ! 0 * 3, bp_left = r ! 1 * 100, bp_top = r ! 2 * 100, bp_delay = r ! 3 * 10,
      bp_duration = 15 + r ! 4 * 25, bp_opacity = 0.15 + r ! 5 * 0.25\<rparr>"

definition section_background :: "bool \<Rightarrow> bool \<Rightarrow> (nat \<Rightarrow> real list) \<Rightarrow> bg_particle list \<times> nat option" where
  "section_background showParticles showStars dr =
     (if showParticles then map (\<lambda>i. bg_particle_of (dr i)) [0..<40] else [],
      if showStars then Some 1000 else None)"

section \<open>Lemmas\<close>

lemma filteredProjects_all: "filteredProjects ''all'' items = items"
  by (simp add: filteredProjects_def)

lemma filteredProjects_category:
  "flt \<noteq> ''all'' \<Longrightarrow> p \<in> set (filteredProjects flt items) \<longleftrightarrow> p \<in> set items \<and> prj_category p = flt"
  by (auto simp: filteredProjects_def)

lemma length_filter_eq_distinct: "distinct xs \<Longrightarrow> x \<in> set xs \<Longrightarrow> length (filter (\<lambda>y. x = y) xs) = 1"
  by (induction xs) (auto simp: filter_empty_conv)

lemma projectsSection_one_highlight:
  "distinct filters \<Longrightarrow> flt \<in> set filters \<Longrightarrow>
   length (filter snd (pv_buttons (projectsSection filters items flt))) = 1"
  by (simp add: projectsSection_def Let_def filter_map comp_def length_filter_eq_distinct)

lemma journey_alternates: "i < length ms \<Longrightarrow> fst (journey ms ! i) \<longleftrightarrow> even i"
  by (simp add: journey_def milestoneCard_def even_iff_mod_2_eq_zero)

text \<open>The footer's quick links scroll to exactly the sections the navigation bar names.\<close>

lemma footer_targets_navLinks: "footer_targets = map fst navLinks"
  unfolding footer_targets_def footer_links_def navLinks_def by code_simp

text \<open>The footer's buttons, in order, scroll to the sections of the navigation links.\<close>

lemma footer_link_targets: "map snd (fv_links (footer name bio socials y)) = map fst navLinks"
proof -
  have "length footer_links = length footer_targets" by (simp add: footer_targets_def)
  then show ?thesis by (simp add: footer_def footer_targets_navLinks [symmetric])
qed

text \<open>A proficiency above 100 is shown as is and its bar is drawn wider than the track.\<close>

lemma skill_bar_unclamped: "skill_bar \<lparr>sk_name = n, sk_proficiency = 120\<rparr> = (n, 120, 120)"
  by (simp add: skill_bar_def)

lemma skills_section_bars:
  "c \<in> set cats \<Longrightarrow> length (snd (snd (skill_category_view c))) = length (sc_skills c)"
  by (simp add: skill_category_view_def)

lemma bg_particle_bounds:
  assumes "length r = 6" "\<forall>x\<in>set r. 0 \<le> x \<and> x < 1"
  shows "1 \<le> bp_size (bg_particle_of r) \<and> bp_size (bg_particle_of r) < 4 \<and>
         0 \<le> bp_left (bg_particle_of r) \<and> bp_left (bg_particle_of r) < 100 \<and>
         0 \<le> bp_top (bg_particle_of r) \<and> bp_top (bg_particle_of r) < 100 \<and>
         0.15 \<le> bp_opacity (bg_particle_of r) \<and> bp_opacity (bg_particle_of r) < 0.4"
proof -
  have r: "0 \<le> r ! k \<and> r ! k < 1" if "k < 6" for k using assms that by auto
  show ?thesis using r [of 0] r [of 1] r [of 2] r [of 5] by (simp add: bg_particle_of_def)
qed

lemma section_background_count: "showParticles \<Longrightarrow> length (fst (section_background showParticles s dr)) = 40"
  by (simp add: section_background_def)

end
