(* ===== verification/Particles3D.thy ===== *)
theory Particles3D
  imports Helpers
begin

text \<open>
  \<open>InteractiveParticles\<close> of \<open>src/src/components/Canvas/InteractiveElements.jsx\<close>,
  the particle cloud behind the hero. Its \<open>useMemo\<close> lays out \<open>count\<close> particles on a
  spherical shell from six draws of \<open>Math.random()\<close> each, writes them into fresh
  typed arrays, pushes the positions onto the ref \<open>originalPositions\<close> and replaces
  the ref \<open>velocitiesRef\<close>. Each \<open>useFrame\<close> callback runs a \<open>for\<close> loop over the
  particles that recomputes every position from \<open>originalPositions\<close>, the clock and
  the mouse, which repels the particles within 5 units of it.

  A flat \<open>Float32Array\<close> of \<open>3 * count\<close> entries is a list updated by index; every
  write of the loop is in range. A read of \<open>originalPositions.current[k]\<close> past its
  end is \<open>undefined\<close>, whose sum with a number is \<open>NaN\<close>; the loop's result is
  \<open>None\<close> when that happens (some coordinate written as \<open>NaN\<close>).
\<close>

section \<open>The memoised layout\<close>

record ip_refs =
  ip_original :: "real list"     \<comment> \<open>\<open>originalPositions.current\<close>\<close>
  ip_velocities :: "real list"   \<comment> \<open>\<open>velocitiesRef.current\<close>\<close>

text \<open>The six draws of \<open>Math.random()\<close> for one particle, in the order the loop makes them.\<close>

record ip_draw =
  d_radius :: real
  d_theta :: real
  d_phi :: real
  d_vx :: real
  d_vy :: real
  d_vz :: real

definition ip_position :: "ip_draw \<Rightarrow> real list" where
  "ip_position d =
     (let radius = 15 + d_radius d * 10; theta = d_theta d * pi * 2; phi = d_phi d * pi
      in [radius * sin phi * cos theta, radius * sin phi * sin theta, radius * cos phi])"

definition ip_color :: "nat \<Rightarrow> nat \<Rightarrow> real list" where
  "ip_color count i = (let gradient = real i / real count in [0.1 + gradient * 0.5, 0.5 + gradient * 0.3, 0.9])"

definition ip_velocity :: "ip_draw \<Rightarrow> real list" where
  "ip_velocity d = [(d_vx d - 0.5) * 0.02, (d_vy d - 0.5) * 0.02, (d_vz d - 0.5) * 0.02]"

text \<open>
  The \<open>useMemo\<close> body for \<open>count\<close> with the draws \<open>dr i\<close> of particle \<open>i\<close>: the
  positions and colours arrays and the refs after it. The original positions are
  appended to what the ref already holds; the velocities replace it.
\<close>

definition ip_memo :: "nat \<Rightarrow> (nat \<Rightarrow> ip_draw) \<Rightarrow> ip_refs \<Rightarrow> real list \<times> real list \<times> ip_refs" where
  "ip_memo count dr refs =
     (let positions = concat (map (\<lambda>i. ip_position (dr i)) [0..<count])
      in (positions, concat (map (ip_color count) [0..<count]),
          refs\<lparr>ip_original := ip_original refs @ positions,
               ip_velocities := concat (map (\<lambda>i. ip_velocity (dr i)) [0..<count])\<rparr>))"

section \<open>The frame loop\<close>

text \<open>The repulsion from the mouse at \<open>(mx, my)\<close> (already scaled by 10).\<close>

definition ip_repel :: "real \<Rightarrow> real \<Rightarrow> real \<times> real \<times> real \<Rightarrow> real \<times> real \<times> real" where
  "ip_repel mx my p =
     (case p of (a, b, c) \<Rightarrow>
        let dx = a - mx; dy = b - my; distance = sqrt (dx * dx + dy * dy)
        in if distance < 5 then let force = (5 - distance) / 5 in (a + dx * force * 0.1, b + dy * force * 0.1, c)
           else (a, b, c))"

text \<open>
  The body of the loop for particle \<open>i\<close> at time \<open>t\<close>; \<open>mouse\<close> is \<open>None\<close> when the
  \<open>mousePosition\<close> prop is falsy.
\<close>

definition ip_point :: "real list \<Rightarrow> real \<Rightarrow> (real \<times> real) option \<Rightarrow> nat \<Rightarrow> (real \<times> real \<times> real) option" where
  "ip_point orig t mouse i =
     (let i3 = 3 * i
      in if i3 + 2 < length orig then
           let a = orig ! i3 + sin (t + real i * 0.1) * 0.5;
               b = orig ! (i3 + 1) + cos (t + real i * 0.15) * 0.5;
               c = orig ! (i3 + 2) + sin (t + real i * 0.2) * 0.3
           in Some (case mouse of None \<Rightarrow> (a, b, c) | Some (mx, my) \<Rightarrow> ip_repel (mx * 10) (my * 10) (a, b, c))
         else None)"

text \<open>\<open>for (let i = 0; i < count; i++)\<close>, writing the three coordinates of particle \<open>i\<close>.\<close>

function (domintros) ip_loop ::
  "real list \<Rightarrow> nat \<Rightarrow> real \<Rightarrow> (real \<times> real) option \<Rightarrow> nat \<Rightarrow> real list \<Rightarrow> real list option" where
  "ip_loop orig count t mouse i ps =
     (if i < count then
        (case ip_point orig t mouse i of
           None \<Rightarrow> None
         | Some (a, b, c) \<Rightarrow> ip_loop orig count t mouse (Suc i) (ps[3 * i := a, 3 * i + 1 := b, 3 * i + 2 := c]))
      else Some ps)"
  by pat_completeness auto
termination
  by (relation "measure (\<lambda>(orig, count, t, mouse, i, ps). count - i)") auto

declare ip_loop.simps [simp del]

text \<open>
  The loop's reference: the points of the particles \<open>0 .. count - 1\<close>, flattened,
  \<open>None\<close> as soon as one of them reads past the end of \<open>originalPositions\<close>.
\<close>

definition ip_frame_ref :: "real list \<Rightarrow> nat \<Rightarrow> real \<Rightarrow> (real \<times> real) option \<Rightarrow> real list option" where
  "ip_frame_ref orig count t mouse =
     map_option (concat \<circ> map (\<lambda>(a, b, c). [a, b, c])) (those (map (ip_point orig t mouse) [0..<count]))"

section \<open>The component's life\<close>

text \<open>
  The component's state: the memoised \<open>count\<close> and arrays, and the refs. A render
  with a new \<open>count\<close> recomputes the memo (the refs persist); a frame writes the
  loop's positions into the memoised position array, which the geometry shares.
  \<open>particlesRef.current\<close> is set once the component has mounted, before any frame.
\<close>

record ip_state =
  ip_count :: nat
  ip_positions :: "real list"
  ip_colors :: "real list"
  ip_mem :: ip_refs

definition ip_store :: "nat \<Rightarrow> real list \<times> real list \<times> ip_refs \<Rightarrow> ip_state" where
  "ip_store count m = (case m of (ps, cs, refs) \<Rightarrow> \<lparr>ip_count = count, ip_positions = ps, ip_colors = cs, ip_mem = refs\<rparr>)"

definition ip_mount :: "nat \<Rightarrow> (nat \<Rightarrow> ip_draw) \<Rightarrow> ip_state" where
  "ip_mount count dr = ip_store count (ip_memo count dr \<lparr>ip_original = [], ip_velocities = []\<rparr>)"

definition ip_rerender :: "nat \<Rightarrow> (nat \<Rightarrow> ip_draw) \<Rightarrow> ip_state \<Rightarrow> ip_state" where
  "ip_rerender count dr st = (if count = ip_count st then st else ip_store count (ip_memo count dr (ip_mem st)))"

definition ip_frame :: "real \<Rightarrow> (real \<times> real) option \<Rightarrow> ip_state \<Rightarrow> ip_state option" where
  "ip_frame t mouse st =
     map_option (\<lambda>ps. st\<lparr>ip_positions := ps\<rparr>) (ip_loop (ip_original (ip_mem st)) (ip_count st) t mouse 0 (ip_positions st))"

inductive ip_reach :: "ip_state \<Rightarrow> bool" where
  mount: "ip_reach (ip_mount count dr)"
| rerender: "ip_reach st \<Longrightarrow> ip_reach (ip_rerender count dr st)"
| frame: "ip_reach st \<Longrightarrow> ip_frame t mouse st = Some st' \<Longrightarrow> ip_reach st'"

definition ip_wf :: "ip_state \<Rightarrow> bool" where
  "ip_wf st \<longleftrightarrow> length (ip_positions st) = 3 * ip_count st \<and> 3 * ip_count st \<le> length (ip_original (ip_mem st))"

section \<open>Lemmas\<close>

lemma take_update3:
  "3 * i + 2 < length ps \<Longrightarrow>
   take (3 * Suc i) (ps[3 * i := a, 3 * i + 1 := b, 3 * i + 2 := c]) = take (3 * i) ps @ [a, b, c]"
  by (simp add: list_eq_iff_nth_eq nth_append nth_list_update min_def)

lemma ip_loop_from:
  "length ps = 3 * count \<Longrightarrow> i \<le> count \<Longrightarrow>
   ip_loop orig count t mouse i ps =
     map_option (\<lambda>qs. take (3 * i) ps @ concat (map (\<lambda>(a, b, c). [a, b, c]) qs))
       (those (map (ip_point orig t mouse) [i..<count]))"
proof (induction orig count t mouse i ps rule: ip_loop.induct)
  case (1 orig count t mouse i ps)
  show ?case
  proof (cases "i < count")
    case False
    with "1.prems" show ?thesis by (simp add: ip_loop.simps)
  next
    case True
    then have u: "[i..<count] = i # [Suc i..<count]" by (simp add: upt_conv_Cons)
    show ?thesis
    proof (cases "ip_point orig t mouse i")
      case None
      with True show ?thesis by (simp add: ip_loop.simps u)
    next
      case (Some p)
      obtain a b c where p: "p = (a, b, c)" by (cases p) auto
      let ?ps = "ps[3 * i := a, 3 * i + 1 := b, 3 * i + 2 := c]"
      have "3 * i + 2 < length ps" using True "1.prems"(1) by simp
      then have tk: "take (3 * Suc i) ?ps = take (3 * i) ps @ [a, b, c]" by (rule take_update3)
      have "ip_loop orig count t mouse (Suc i) ?ps =
          map_option (\<lambda>qs. take (3 * Suc i) ?ps @ concat (map (\<lambda>(a, b, c). [a, b, c]) qs))
            (those (map (ip_point orig t mouse) [Suc i..<count]))"
        using "1.prems" True Some p by (intro "1.IH") simp_all
      then show ?thesis
        using True Some p tk by (simp add: ip_loop.simps [of orig count t mouse i ps] u option.map_comp comp_def)
    qed
  qed
qed

lemma length_ip_layout: "length (concat (map (\<lambda>i. ip_position (dr i)) [0..<n])) = 3 * n"
  by (induction n) (simp_all add: ip_position_def Let_def)

lemma ip_store_wf: "ip_wf (ip_store count (ip_memo count dr refs))"
  by (simp add: ip_wf_def ip_store_def ip_memo_def Let_def length_ip_layout)

lemma ip_loop_length: "ip_loop orig count t mouse i ps = Some ps' \<Longrightarrow> length ps' = length ps"
  by (induction orig count t mouse i ps rule: ip_loop.induct)
    (auto simp: ip_loop.simps split: if_splits option.splits)

lemma ip_frame_wf: "ip_wf st \<Longrightarrow> ip_frame t mouse st = Some st' \<Longrightarrow> ip_wf st'"
  by (auto simp: ip_wf_def ip_frame_def dest: ip_loop_length)

lemma ip_reach_wf: "ip_reach st \<Longrightarrow> ip_wf st"
  by (induction rule: ip_reach.induct)
    (auto simp: ip_mount_def ip_rerender_def ip_store_wf ip_frame_wf)

lemma ip_point_in_range: "3 * i + 2 < length orig \<Longrightarrow> ip_point orig t mouse i \<noteq> None"
  by (simp add: ip_point_def Let_def)

lemma those_not_None: "(\<forall>x\<in>set xs. f x \<noteq> None) \<Longrightarrow> those (map f xs) \<noteq> None"
  by (induction xs) (auto split: option.splits)

lemma ip_point_append: "3 * i + 2 < length xs \<Longrightarrow> ip_point (xs @ ys) t mouse i = ip_point xs t mouse i"
  by (simp add: ip_point_def Let_def nth_append)

text \<open>The layout puts every particle on the shell of radius \<open>15 + 10 r\<close> for its draw \<open>r\<close>.\<close>

lemma ip_position_shell:
  assumes "0 \<le> d_radius d"
  shows "sqrt (sum_list (map (\<lambda>v. v\<^sup>2) (ip_position d))) = 15 + d_radius d * 10"
proof -
  define r th ph where "r = 15 + d_radius d * 10" and "th = d_theta d * pi * 2" and "ph = d_phi d * pi"
  have p: "ip_position d = [r * sin ph * cos th, r * sin ph * sin th, r * cos ph]"
    by (simp add: ip_position_def Let_def r_def th_def ph_def)
  have "sum_list (map (\<lambda>v. v\<^sup>2) (ip_position d)) =
      r\<^sup>2 * (sin ph)\<^sup>2 * (cos th)\<^sup>2 + r\<^sup>2 * (sin ph)\<^sup>2 * (sin th)\<^sup>2 + r\<^sup>2 * (cos ph)\<^sup>2"
    unfolding p by (simp add: power_mult_distrib algebra_simps)
  also have "\<dots> = r\<^sup>2 * (sin ph)\<^sup>2 * ((cos th)\<^sup>2 + (sin th)\<^sup>2) + r\<^sup>2 * (cos ph)\<^sup>2"
    by (simp only: distrib_left)
  also have "\<dots> = r\<^sup>2 * ((sin ph)\<^sup>2 + (cos ph)\<^sup>2)"
    by (simp only: sin_cos_squared_add2 mult_1_right distrib_left)
  also have "\<dots> = r\<^sup>2" by simp
  finally show ?thesis using assms by (simp add: r_def)
qed

section \<open>Properties\<close>

text \<open>
  C15: the particle buffers are well typed in every state the component reaches: the
  original positions hold at least \<open>3 * count\<close> entries, so no frame reads
  \<open>undefined\<close> and writes \<open>NaN\<close> into a particle's coordinates.
\<close>

theorem ip_frame_defined: "ip_reach st \<Longrightarrow> ip_frame t mouse st \<noteq> None"
proof -
  assume "ip_reach st"
  then have wf: "ip_wf st" by (rule ip_reach_wf)
  let ?orig = "ip_original (ip_mem st)" and ?n = "ip_count st"
  have "\<forall>i\<in>set [0..<?n]. ip_point ?orig t mouse i \<noteq> None"
  proof
    fix i assume "i \<in> set [0..<?n]"
    then have "3 * i + 2 < length ?orig" using wf by (simp add: ip_wf_def)
    then show "ip_point ?orig t mouse i \<noteq> None" by (rule ip_point_in_range)
  qed
  then have "those (map (ip_point ?orig t mouse) [0..<?n]) \<noteq> None" by (rule those_not_None)
  with wf show ?thesis by (simp add: ip_frame_def ip_loop_from ip_wf_def)
qed

text \<open>
  The frame loop \<open>for (let i = 0; i < count; i++)\<close> terminates from every
  index and every buffer (its domain is everything), and the buffer it returns has
  the length of the one it was given.
\<close>

theorem ip_loop_terminates:
  "ip_loop_dom (orig, count, t, mouse, i, ps) \<and>
   (case ip_loop orig count t mouse i ps of None \<Rightarrow> True | Some qs \<Rightarrow> length qs = length ps)"
proof
  show "ip_loop_dom (orig, count, t, mouse, i, ps)"
  proof (induction "count - i" arbitrary: i ps)
    case 0
    show ?case by (rule ip_loop.domintros) (use "0" in simp)
  next
    case (Suc k)
    show ?case by (rule ip_loop.domintros) (use Suc in simp)
  qed
  show "case ip_loop orig count t mouse i ps of None \<Rightarrow> True | Some qs \<Rightarrow> length qs = length ps"
    by (auto split: option.split dest: ip_loop_length)
qed

text \<open>
  C33: the in-place loop over the position array computes the reference: the
  particles' points in order, three coordinates each.
\<close>

theorem ip_loop_eq_ref:
  "length ps = 3 * count \<Longrightarrow> ip_loop orig count t mouse 0 ps = ip_frame_ref orig count t mouse"
  by (simp add: ip_loop_from ip_frame_ref_def option.map_comp comp_def)

text \<open>
  C37: \<open>originalPositions\<close> is appended to, never reset. After a render with a new
  \<open>count\<close>, particle \<open>i\<close> of the old layout still floats around its old position,
  whatever the new draws are: the new layout is written to the position array and
  overwritten by the first frame.
\<close>

theorem ip_rerender_stale:
  assumes "c2 \<noteq> c1" "i < c1"
  shows "ip_point (ip_original (ip_mem (ip_rerender c2 dr2 (ip_mount c1 dr1)))) t mouse i =
         ip_point (ip_original (ip_mem (ip_mount c1 dr1))) t mouse i"
proof -
  let ?old = "concat (map (\<lambda>i. ip_position (dr1 i)) [0..<c1])"
  have "3 * i + 2 < length ?old" using assms(2) by (simp add: length_ip_layout)
  then show ?thesis using assms(1)
    by (simp add: ip_rerender_def ip_mount_def ip_store_def ip_memo_def Let_def ip_point_append)
qed

text \<open>
  C27: the mouse only repels: a particle within 5 units of it is moved away, by at
  most 1/8 of a unit, and its depth is unchanged.
\<close>

theorem ip_repel_distance:
  "case ip_repel mx my (a, b, c) of (a', b', c') \<Rightarrow>
     sqrt ((a - mx)\<^sup>2 + (b - my)\<^sup>2) \<le> sqrt ((a' - mx)\<^sup>2 + (b' - my)\<^sup>2) \<and>
     sqrt ((a' - mx)\<^sup>2 + (b' - my)\<^sup>2) \<le> sqrt ((a - mx)\<^sup>2 + (b - my)\<^sup>2) + 1 / 8 \<and> c' = c"
proof -
  define dx dy where "dx = a - mx" and "dy = b - my"
  define d where "d = sqrt (dx * dx + dy * dy)"
  have d0: "0 \<le> d" by (simp add: d_def)
  have sq: "sqrt ((a - mx)\<^sup>2 + (b - my)\<^sup>2) = d" by (simp add: d_def dx_def dy_def power2_eq_square)
  show ?thesis
  proof (cases "d < 5")
    case False
    then show ?thesis by (simp add: ip_repel_def Let_def d_def dx_def dy_def power2_eq_square)
  next
    case True
    define k where "k = 1 + (5 - d) / 5 * 0.1"
    have k0: "0 \<le> k" using True by (simp add: k_def)
    have "ip_repel mx my (a, b, c) =
        (if d < 5 then (a + dx * ((5 - d) / 5) * 0.1, b + dy * ((5 - d) / 5) * 0.1, c) else (a, b, c))"
      unfolding d_def dx_def dy_def by (simp add: ip_repel_def Let_def)
    with True have "ip_repel mx my (a, b, c) = (a + dx * ((5 - d) / 5) * 0.1, b + dy * ((5 - d) / 5) * 0.1, c)"
      by simp
    moreover have "a + dx * ((5 - d) / 5) * 0.1 = mx + dx * k" "b + dy * ((5 - d) / 5) * 0.1 = my + dy * k"
      by (simp_all add: k_def dx_def dy_def field_simps)
    ultimately have r: "ip_repel mx my (a, b, c) = (mx + dx * k, my + dy * k, c)" by simp
    have "(dx * k)\<^sup>2 + (dy * k)\<^sup>2 = k\<^sup>2 * (dx * dx + dy * dy)"
      by (simp add: power2_eq_square algebra_simps)
    then have "sqrt ((dx * k)\<^sup>2 + (dy * k)\<^sup>2) = k * d"
      using k0 by (simp add: d_def real_sqrt_mult)
    moreover have "d \<le> k * d" using True d0 by (simp add: k_def algebra_simps mult_left_mono)
    moreover have "k * d \<le> d + 1 / 8"
    proof -
      have "0 \<le> (d - 5 / 2)\<^sup>2" by simp
      then show ?thesis by (simp add: k_def algebra_simps power2_eq_square)
    qed
    ultimately show ?thesis by (simp add: r sq)
  qed
qed

section \<open>Witnesses\<close>

definition ip_draw0 :: ip_draw where
  "ip_draw0 = \<lparr>d_radius = 0, d_theta = 0, d_phi = 0, d_vx = 0, d_vy = 0, d_vz = 0\<rparr>"

theorem ip_frame_defined_witness: "ip_frame 0 (Some (0, 0)) (ip_mount 2 (\<lambda>_. ip_draw0)) \<noteq> None"
  by (rule ip_frame_defined [OF ip_reach.mount])

theorem ip_loop_eq_ref_witness:
  "ip_loop [1, 2, 3] 1 0 None 0 [0, 0, 0] = ip_frame_ref [1, 2, 3] 1 0 None"
  by (rule ip_loop_eq_ref) simp

theorem ip_rerender_stale_witness:
  "ip_point (ip_original (ip_mem (ip_rerender 1 (\<lambda>_. ip_draw0\<lparr>d_radius := 1\<rparr>) (ip_mount 2 (\<lambda>_. ip_draw0))))) 0 None 0 =
   ip_point (ip_original (ip_mem (ip_mount 2 (\<lambda>_. ip_draw0)))) 0 None 0"
  by (rule ip_rerender_stale) simp_all

end
