(* ===== verification/Scene3D.thy ===== *)
theory Scene3D
  imports Hooks Navbar
begin

text \<open>
  The rest of the 3D scene: the remaining components of
  \<open>src/src/components/Canvas/InteractiveElements.jsx\<close> (\<open>OrbitingObjects\<close>,
  \<open>MorphingHeroObject\<close>, \<open>DynamicLights\<close>), the meshes of \<open>Canvas/Models.jsx\<close>, the
  effect packages of \<open>Canvas/Effects.jsx\<close>, and the 3D part of
  \<open>components/Hero.jsx\<close>: its error boundary, the canvas' pixel-ratio range, the
  scene it composes and its scroll-trigger effect. A \<open>useFrame\<close> callback is a
  function of the clock's elapsed time \<open>t\<close> (and of the props) giving the values it
  writes into the mesh; a prop that is an object (the mouse ref's \<open>current\<close>) is
  \<open>Some\<close>, an absent one \<open>None\<close>. Rendering by three.js is not modelled.
\<close>

section \<open>Interactive elements\<close>

text \<open>\<open>OrbitingObjects\<close>: satellite \<open>i\<close> of \<open>count\<close> on the circle of radius 3.\<close>

definition orbit_position :: "nat \<Rightarrow> nat \<Rightarrow> vec3" where
  "orbit_position count i =
     (let angle = real i / real count * pi * 2; radius = 3
      in \<lparr>x3 = cos angle * radius, y3 = 0, z3 = sin angle * radius\<rparr>)"

definition orbit_hue :: "nat \<Rightarrow> nat \<Rightarrow> real" where
  "orbit_hue count i = real i / real count * 360"

definition orbiting_objects :: "nat \<Rightarrow> (vec3 \<times> real) list" where
  "orbiting_objects count = map (\<lambda>i. (orbit_position count i, orbit_hue count i)) [0..<count]"

text \<open>Its frame on the group's rotation.\<close>

definition orbit_frame :: "real \<Rightarrow> vec2 option \<Rightarrow> vec3 \<Rightarrow> vec3" where
  "orbit_frame t mouse r =
     (let r' = r\<lparr>y3 := t * 0.2\<rparr>
      in case mouse of None \<Rightarrow> r' | Some m \<Rightarrow> r'\<lparr>x3 := vy m * 0.3, z3 := vx m * 0.2\<rparr>)"

text \<open>
  JavaScript's \<open>%\<close> on finite numbers: the remainder of the division truncated
  toward zero, with the sign of the dividend.
\<close>

definition js_rem :: "real \<Rightarrow> real \<Rightarrow> real" where
  "js_rem x y = (let q = x / y in x - y * of_int (if 0 \<le> q then \<lfloor>q\<rfloor> else \<lceil>q\<rceil>))"

text \<open>\<open>mousePosition?.x || 0\<close>\<close>

definition mouse_or0 :: "(vec2 \<Rightarrow> real) \<Rightarrow> vec2 option \<Rightarrow> real" where
  "mouse_or0 sel mouse = (case mouse of None \<Rightarrow> 0 | Some m \<Rightarrow> sel m)"

record morph_view =
  mv_rotation :: "real \<times> real"
  mv_scale :: real
  mv_hue :: real

text \<open>\<open>MorphingHeroObject\<close>'s frame: rotation, pulsing scale times the scroll morph, hue.\<close>

definition morph_frame :: "real \<Rightarrow> vec2 option \<Rightarrow> real \<Rightarrow> morph_view" where
  "morph_frame t mouse scrollProgress =
     (let pulse = 1 + sin (t * 2) * 0.1; morphScale = 1 + scrollProgress * 0.5
      in \<lparr>mv_rotation = (t * 0.2 + mouse_or0 vy mouse * 0.5, t * 0.3 + mouse_or0 vx mouse * 0.5),
          mv_scale = pulse * morphScale,
          mv_hue = js_rem (t * 20 + scrollProgress * 360) 360\<rparr>)"

text \<open>\<open>DynamicLights\<close>: the first light's position and intensity, the second's position.\<close>

definition lights_frame :: "real \<Rightarrow> vec2 option \<Rightarrow> (real \<times> real \<times> real) \<times> (real \<times> real)" where
  "lights_frame t mouse =
     ((sin t * 5 + mouse_or0 vx mouse * 3, cos t * 5 + mouse_or0 vy mouse * 3, 1 + sin (t * 2) * 0.5),
      (cos (t * 1.5) * 5, sin (t * 1.5) * 5))"

section \<open>Models\<close>

text \<open>\<open>AnimatedSphere\<close> and \<open>AnimatedTorus\<close> are \<open>use3DRotation\<close> on all axes.\<close>

definition animated_sphere_frame :: "real \<Rightarrow> vec3 \<Rightarrow> vec3" where
  "animated_sphere_frame delta r = rotation_frame 0.5 AxisAll True delta r"

definition animated_torus_frame :: "real \<Rightarrow> vec3 \<Rightarrow> vec3" where
  "animated_torus_frame delta r = rotation_frame 1 AxisAll True delta r"

text \<open>\<open>AnimatedCube\<close>: \<open>use3DHover\<close> with scale 1.3, and its own rotation frame.\<close>

definition cube_pointer_over :: "hover_state \<Rightarrow> hover_state" where
  "cube_pointer_over st = handlePointerOver 1.3 st"

definition cube_frame :: "real \<Rightarrow> real \<times> real" where
  "cube_frame t = (t * 0.5, t * 0.7)"

definition octahedron_frame :: "real \<Rightarrow> real \<Rightarrow> real \<times> real \<times> real" where
  "octahedron_frame y0 t = (y0 + sin t * 0.3, t * 0.4, t * 0.6)"

text \<open>
  \<open>Particles\<close> fills its arrays in the component body, not in a \<open>useMemo\<close>: every
  render draws \<open>6 * count\<close> new values of \<open>Math.random()\<close>, given per particle.
\<close>

definition models_particles :: "nat \<Rightarrow> (nat \<Rightarrow> real list) \<Rightarrow> real list \<times> real list" where
  "models_particles count dr =
     (concat (map (\<lambda>i. map (\<lambda>r. (r - 0.5) * 10) (take 3 (dr i))) [0..<count]),
      concat (map (\<lambda>i. take 3 (drop 3 (dr i))) [0..<count]))"

definition morphing_geometry_scale :: "real \<Rightarrow> real" where
  "morphing_geometry_scale t = 1 + sin t * 0.2"

definition glowing_sphere_frame :: "real \<Rightarrow> real \<times> real" where
  "glowing_sphere_frame t = (t * 0.5, sin (t * 2) * 0.1 + 1)"

section \<open>Effects\<close>

datatype blend = BlendScreen | BlendNormal

datatype pass = Bloom real real real blend | ChromaticAberration blend "real \<times> real"

datatype effect =
    Lights | StarField nat | SparkleEffect nat | SceneEnvironment jstr | GroundShadows
  | PostProcessing "pass list"

text \<open>\<open>PostProcessing\<close>: the composer's passes.\<close>

definition post_processing :: "real \<Rightarrow> real \<Rightarrow> bool \<Rightarrow> pass list" where
  "post_processing bloomIntensity bloomLuminanceThreshold chromaticAberration =
     Bloom bloomIntensity bloomLuminanceThreshold 0.9 BlendScreen #
     (if chromaticAberration then [ChromaticAberration BlendNormal (0.002, 0.002)] else [])"

text \<open>\<open>SceneEffects\<close> with its flags; every child is rendered with its defaults.\<close>

definition scene_effects :: "bool \<Rightarrow> bool \<Rightarrow> bool \<Rightarrow> bool \<Rightarrow> bool \<Rightarrow> bool \<Rightarrow> effect list" where
  "scene_effects lights stars sparkles environment shadows postProcessing =
     (if lights then [Lights] else []) @ (if stars then [StarField 5000] else []) @
     (if sparkles then [SparkleEffect 50] else []) @ (if environment then [SceneEnvironment ''night''] else []) @
     (if shadows then [GroundShadows] else []) @
     (if postProcessing then [PostProcessing (post_processing 0.5 0.9 True)] else [])"

definition scene_effects_default :: "effect list" where
  "scene_effects_default = scene_effects True True False True False False"

section \<open>The hero's canvas\<close>

text \<open>
  \<open>Canvas3DErrorBoundary\<close>: \<open>getDerivedStateFromError\<close> sets \<open>hasError\<close>, and nothing
  clears it. An event is a render of the children, which may throw.
\<close>

datatype boundary_view = BoundaryChildren | BoundaryFallback

definition boundary_render :: "bool \<Rightarrow> boundary_view" where
  "boundary_render hasError = (if hasError then BoundaryFallback else BoundaryChildren)"

fun boundary_run :: "bool \<Rightarrow> bool list \<Rightarrow> bool" where
  "boundary_run hasError [] = hasError"
| "boundary_run hasError (throws # es) = boundary_run (hasError \<or> throws) es"

text \<open>\<open>dpr={[1, Math.min(2, window.devicePixelRatio || 1)]}\<close>\<close>

definition hero_dpr :: "real \<Rightarrow> real \<times> real" where
  "hero_dpr devicePixelRatio = (1, min 2 (if devicePixelRatio = 0 then 1 else devicePixelRatio))"

datatype scene_node =
    Camera "real \<times> real \<times> real" real | AmbientLight real | DynamicLightsNode | Stars nat
  | MorphingHero real | Orbiting nat | InteractiveParticlesNode nat | Composer "pass list"

text \<open>The children of the hero's \<open>Canvas\<close>, with the props that are values.\<close>

definition hero_scene :: "real \<Rightarrow> scene_node list" where
  "hero_scene scrollProgress =
     [Camera (0, 0, 8) 75, AmbientLight 0.3, DynamicLightsNode, Stars 3000, MorphingHero scrollProgress,
      Orbiting 6, InteractiveParticlesNode 800,
      Composer [Bloom 0.8 0.2 0.9 BlendScreen, ChromaticAberration BlendNormal (0.002, 0.002)]]"

text \<open>
  The hero's scroll effect creates one trigger (\<open>top top\<close> to \<open>+=100%\<close>) whose
  \<open>onUpdate\<close> sets \<open>scrollProgress\<close>; its cleanup kills every trigger of the page.
\<close>

definition hero_scroll_mount :: "nat \<Rightarrow> bool \<Rightarrow> trigger list \<Rightarrow> trigger list" where
  "hero_scroll_mount owner attached reg =
     (if \<not> attached then reg
      else reg @ [\<lparr>trg_owner = owner, trg_start = ''top top'', trg_end = ''+=100%'', trg_once = False\<rparr>])"

definition hero_scroll_cleanup :: "trigger list \<Rightarrow> trigger list" where
  "hero_scroll_cleanup reg = []"

text \<open>The call-to-action buttons: \<open>scrollToSection('projects')\<close> and \<open>('contact')\<close>.\<close>

definition hero_cta_targets :: "jstr list" where
  "hero_cta_targets = [''projects'', ''contact'']"

section \<open>Lemmas\<close>

lemma orbit_radius: "(x3 (orbit_position count i))\<^sup>2 + (z3 (orbit_position count i))\<^sup>2 = 9"
proof -
  have "(cos a * 3)\<^sup>2 + (sin a * 3)\<^sup>2 = 9" for a :: real
  proof -
    have "(cos a * 3)\<^sup>2 + (sin a * 3)\<^sup>2 = ((cos a)\<^sup>2 + (sin a)\<^sup>2) * 9"
      by (simp add: power_mult_distrib distrib_right del: sin_cos_squared_add2 sin_cos_squared_add)
    also have "\<dots> = 9" by (simp only: sin_cos_squared_add2 mult_1)
    finally show ?thesis .
  qed
  then show ?thesis by (simp add: orbit_position_def Let_def)
qed

lemma orbit_hue_range: "i < count \<Longrightarrow> 0 \<le> orbit_hue count i \<and> orbit_hue count i < 360"
  by (simp add: orbit_hue_def field_simps)

lemma js_rem_range: "0 \<le> x \<Longrightarrow> 0 < y \<Longrightarrow> 0 \<le> js_rem x y \<and> js_rem x y < y"
proof -
  assume x: "0 \<le> x" and y: "0 < y"
  then have q: "0 \<le> x / y" by simp
  have a: "of_int \<lfloor>x / y\<rfloor> \<le> x / y" and b: "x / y < of_int \<lfloor>x / y\<rfloor> + 1" by linarith+
  have "of_int \<lfloor>x / y\<rfloor> * y \<le> x / y * y" using a y by (intro mult_right_mono) simp_all
  moreover have "x / y * y < (of_int \<lfloor>x / y\<rfloor> + 1) * y" using b y by (intro mult_strict_right_mono)
  ultimately have "y * of_int \<lfloor>x / y\<rfloor> \<le> x" "x < y * of_int \<lfloor>x / y\<rfloor> + y"
    using y by (simp_all add: algebra_simps)
  with q show ?thesis by (simp add: js_rem_def Let_def)
qed

lemma morph_hue_range:
  "0 \<le> t \<Longrightarrow> 0 \<le> sp \<Longrightarrow> 0 \<le> mv_hue (morph_frame t mouse sp) \<and> mv_hue (morph_frame t mouse sp) < 360"
  by (simp add: morph_frame_def Let_def js_rem_range)

lemma morph_scale_bounds:
  "0 \<le> sp \<Longrightarrow> 0.9 * (1 + sp * 0.5) \<le> mv_scale (morph_frame t mouse sp) \<and>
                mv_scale (morph_frame t mouse sp) \<le> 1.1 * (1 + sp * 0.5)"
proof -
  assume sp: "0 \<le> sp"
  have s: "-1 \<le> sin (t * 2)" "sin (t * 2) \<le> 1" by simp_all
  let ?p = "1 + sin (t * 2) * 0.1" and ?m = "1 + sp * 0.5"
  have p: "0.9 \<le> ?p" "?p \<le> 1.1" using s by linarith+
  have m: "0 \<le> ?m" using sp by simp
  have "0.9 * ?m \<le> ?p * ?m" using mult_right_mono [OF p(1) m] .
  moreover have "?p * ?m \<le> 1.1 * ?m" using mult_right_mono [OF p(2) m] .
  ultimately show ?thesis by (simp add: morph_frame_def Let_def)
qed

lemma lights_intensity: "fst (lights_frame t mouse) = (a, b, i) \<Longrightarrow> 0.5 \<le> i \<and> i \<le> 1.5"
proof -
  assume l: "fst (lights_frame t mouse) = (a, b, i)"
  have s: "-1 \<le> sin (t * 2)" "sin (t * 2) \<le> 1" by simp_all
  have "i = 1 + sin (t * 2) * 0.5" using l by (simp add: lights_frame_def)
  with s show ?thesis by linarith
qed

lemma models_particles_bounds:
  assumes "\<forall>i r. r \<in> set (dr i) \<longrightarrow> 0 \<le> r \<and> r < 1"
  shows "\<forall>x\<in>set (fst (models_particles count dr)). -5 \<le> x \<and> x < 5"
proof
  fix x assume "x \<in> set (fst (models_particles count dr))"
  then obtain i r where "r \<in> set (take 3 (dr i))" "x = (r - 0.5) * 10"
    by (auto simp: models_particles_def)
  with assms show "-5 \<le> x \<and> x < 5" by (auto dest: in_set_takeD)
qed

lemma morphing_geometry_bounds: "0.8 \<le> morphing_geometry_scale t \<and> morphing_geometry_scale t \<le> 1.2"
proof -
  have "-1 \<le> sin t" "sin t \<le> 1" by simp_all
  then show ?thesis unfolding morphing_geometry_scale_def by linarith
qed

lemma scene_effects_default_eq: "scene_effects_default = [Lights, StarField 5000, SceneEnvironment ''night'']"
  by (simp add: scene_effects_default_def scene_effects_def)

text \<open>The hero's inline composer is \<open>PostProcessing\<close> with a stronger, lower-threshold bloom.\<close>

lemma hero_scene_composer: "last (hero_scene sp) = Composer (post_processing 0.8 0.2 True)"
  by (simp add: hero_scene_def post_processing_def)

text \<open>Once a render of the 3D children has thrown, the boundary shows the fallback for good.\<close>

lemma boundary_run_iff: "boundary_run h es \<longleftrightarrow> h \<or> True \<in> set es"
  by (induction es arbitrary: h) auto

lemma hero_dpr_range: "snd (hero_dpr r) \<le> 2 \<and> (1 \<le> r \<or> r = 0 \<longrightarrow> fst (hero_dpr r) \<le> snd (hero_dpr r))"
  by (simp add: hero_dpr_def)

lemma hero_cta_targets_nav: "set hero_cta_targets \<subseteq> set (map fst navLinks)"
  by (simp add: hero_cta_targets_def navLinks_def)

text \<open>Unmounting the hero removes every scroll trigger, also those of other components.\<close>

lemma hero_scroll_cleanup_kills_all: "hero_scroll_cleanup (hero_scroll_mount owner True reg) = []"
  by (simp add: hero_scroll_cleanup_def)

end
