(* ===== verification/Browser.thy ===== *)
theory Browser
  imports Helpers
begin

text \<open>
  The helpers of \<open>src/src/utils/helpers.js\<close> that talk to the browser:
  \<open>scrollToSection\<close>, \<open>hasWebGLSupport\<close> and \<open>preloadImages\<close>. The document is the
  list of its elements that carry an \<open>id\<close>, in document order, each with its
  \<open>offsetTop\<close> and \<open>offsetHeight\<close>; \<open>getElementById\<close> returns the first of them with
  the id. The outcome of each browser call that may throw or fail is a field of an
  environment record. \<open>Promise.all\<close> is run over the order in which the images
  settle, one event each.
\<close>

section \<open>scrollToSection\<close>

type_synonym document = "(jstr \<times> real \<times> real) list"

definition getElementById :: "document \<Rightarrow> jstr \<Rightarrow> (real \<times> real) option" where
  "getElementById doc i = map_of doc i"

text \<open>
  The window's scroll position after the call: \<open>scrollIntoView({block: 'start'})\<close>
  brings the element's top to the top of the viewport; without the element nothing
  happens.
\<close>

definition scrollToSection :: "document \<Rightarrow> jstr \<Rightarrow> real \<Rightarrow> real" where
  "scrollToSection doc sectionId scrollY =
     (case getElementById doc sectionId of Some (elementTop, h) \<Rightarrow> elementTop | None \<Rightarrow> scrollY)"

section \<open>hasWebGLSupport\<close>

text \<open>What \<open>canvas.getContext(name)\<close> does: return a context, return \<open>null\<close>, or throw.\<close>

datatype ctx_result = CtxObject | CtxNull | CtxThrows

record webgl_env =
  create_throws :: bool            \<comment> \<open>\<open>document.createElement('canvas')\<close> throws\<close>
  webgl_ctor :: bool               \<comment> \<open>\<open>window.WebGLRenderingContext\<close> is truthy\<close>
  ctx_webgl :: ctx_result          \<comment> \<open>\<open>canvas.getContext('webgl')\<close>\<close>
  ctx_experimental :: ctx_result   \<comment> \<open>\<open>canvas.getContext('experimental-webgl')\<close>\<close>

definition getContext :: "webgl_env \<Rightarrow> jstr \<Rightarrow> exn + bool" where
  "getContext env name =
     (case (if name = ''webgl'' then ctx_webgl env else ctx_experimental env) of
        CtxObject \<Rightarrow> Inr True
      | CtxNull \<Rightarrow> Inr False
      | CtxThrows \<Rightarrow> Inl (Error ''getContext''))"

text \<open>
  The body of the \<open>try\<close>: \<open>&&\<close> and \<open>||\<close> short-circuit, so \<open>experimental-webgl\<close> is
  asked for only when \<open>webgl\<close> gave \<open>null\<close>.
\<close>

definition webgl_try :: "webgl_env \<Rightarrow> exn + bool" where
  "webgl_try env =
     (if create_throws env then Inl (Error ''createElement'')
      else if \<not> webgl_ctor env then Inr False
      else ebind (getContext env ''webgl'') (\<lambda>ok. if ok then Inr True else getContext env ''experimental-webgl''))"

text \<open>The \<open>catch\<close> turns every exception into \<open>false\<close>: the call never throws.\<close>

definition hasWebGLSupport :: "webgl_env \<Rightarrow> exn + bool" where
  "hasWebGLSupport env = (case webgl_try env of Inl e \<Rightarrow> Inr False | Inr b \<Rightarrow> Inr b)"

section \<open>preloadImages\<close>

text \<open>
  \<open>preloadImages(urls)\<close> is \<open>Promise.all\<close> over one promise per url, resolved with the
  image by \<open>onload\<close> and rejected with the error event by \<open>onerror\<close>. An image is
  its url here, and the rejection reason the url that failed. The state is the one
  \<open>Promise.all\<close> keeps: the values array, the count of elements still pending and
  the outcome of the returned promise, which settles at most once.
\<close>

datatype img_outcome = Loaded | Failed

record pa_state =
  pa_values :: "jstr option list"
  pa_remaining :: nat
  pa_result :: "(jstr + jstr list) option"

text \<open>An empty array resolves at once with \<open>[]\<close>.\<close>

definition pa_init :: "jstr list \<Rightarrow> pa_state" where
  "pa_init urls =
     \<lparr>pa_values = replicate (length urls) None, pa_remaining = length urls,
      pa_result = (if urls = [] then Some (Inr []) else None)\<rparr>"

text \<open>
  Image \<open>i\<close> settles. A resolve element function stores the value and, at the last
  pending element, resolves with the values; \<open>reject\<close> settles with the reason.
  Resolving or rejecting a promise that has settled already does nothing.
\<close>

definition pa_settle :: "(jstr + jstr list) \<Rightarrow> pa_state \<Rightarrow> pa_state" where
  "pa_settle r st = (if pa_result st = None then st\<lparr>pa_result := Some r\<rparr> else st)"

definition pa_step :: "jstr list \<Rightarrow> img_outcome list \<Rightarrow> pa_state \<Rightarrow> nat \<Rightarrow> pa_state" where
  "pa_step urls outcomes st i =
     (case outcomes ! i of
        Loaded \<Rightarrow>
          let st' = st\<lparr>pa_values := (pa_values st)[i := Some (urls ! i)], pa_remaining := pa_remaining st - 1\<rparr>
          in if pa_remaining st' = 0 then pa_settle (Inr (map the (pa_values st'))) st' else st'
      | Failed \<Rightarrow> pa_settle (Inl (urls ! i)) st)"

text \<open>\<open>events\<close> is the order in which the images settle.\<close>

definition preloadImages :: "jstr list \<Rightarrow> img_outcome list \<Rightarrow> nat list \<Rightarrow> (jstr + jstr list) option" where
  "preloadImages urls outcomes events = pa_result (foldl (pa_step urls outcomes) (pa_init urls) events)"

text \<open>
  What the promise settles to: the urls in their own order when every image loads,
  otherwise the first failure in settling order.
\<close>

definition preload_ref :: "jstr list \<Rightarrow> img_outcome list \<Rightarrow> nat list \<Rightarrow> jstr + jstr list" where
  "preload_ref urls outcomes events =
     (case find (\<lambda>i. outcomes ! i = Failed) events of Some j \<Rightarrow> Inl (urls ! j) | None \<Rightarrow> Inr urls)"

section \<open>Lemmas\<close>

lemma hasWebGLSupport_iff:
  "hasWebGLSupport env =
     Inr (\<not> create_throws env \<and> webgl_ctor env \<and>
          (ctx_webgl env = CtxObject \<or> ctx_webgl env = CtxNull \<and> ctx_experimental env = CtxObject))"
  by (simp add: hasWebGLSupport_def webgl_try_def getContext_def ebind_def
      split: ctx_result.splits sum.splits)

text \<open>
  Once the promise has settled, later events leave it as it is; while it is
  pending, the events still to come are exactly the images not yet loaded, each once.
\<close>

lemma pa_step_settled:
  "pa_result st = Some r \<Longrightarrow> pa_result (pa_step urls outcomes st i) = Some r"
  by (simp add: pa_step_def pa_settle_def Let_def split: img_outcome.splits)

lemma pa_run_settled:
  "pa_result st = Some r \<Longrightarrow> pa_result (foldl (pa_step urls outcomes) st is) = Some r"
  by (induction "is" arbitrary: st) (simp_all add: pa_step_settled)

lemma pa_init_pending: "{i. i < length urls \<and> pa_values (pa_init urls) ! i = None} = {..<length urls}"
  by (auto simp: pa_init_def)

lemma pa_run_pending:
  assumes "pa_result st = None" "length (pa_values st) = length urls" "distinct is"
    "set is = {i. i < length urls \<and> pa_values st ! i = None}" "pa_remaining st = length is"
    "\<forall>k<length urls. pa_values st ! k \<noteq> None \<longrightarrow> pa_values st ! k = Some (urls ! k)" "is \<noteq> []"
  shows "pa_result (foldl (pa_step urls outcomes) st is) = Some (preload_ref urls outcomes is)"
  using assms
proof (induction "is" arbitrary: st)
  case Nil
  then show ?case by simp
next
  case (Cons i "is")
  have i: "i < length urls" "pa_values st ! i = None" using Cons.prems(4) by auto
  show ?case
  proof (cases "outcomes ! i")
    case Failed
    then have "pa_result (pa_step urls outcomes st i) = Some (Inl (urls ! i))"
      using Cons.prems(1) by (simp add: pa_step_def pa_settle_def)
    then show ?thesis using Failed by (simp add: pa_run_settled preload_ref_def)
  next
    case Loaded
    define st' where "st' = st\<lparr>pa_values := (pa_values st)[i := Some (urls ! i)], pa_remaining := pa_remaining st - 1\<rparr>"
    have vals: "\<forall>k<length urls. pa_values st' ! k \<noteq> None \<longrightarrow> pa_values st' ! k = Some (urls ! k)"
      proof (intro allI impI)
      fix k assume k: "k < length urls" "pa_values st' ! k \<noteq> None"
      show "pa_values st' ! k = Some (urls ! k)"
      proof (cases "k = i")
        case True
        then show ?thesis using i Cons.prems(2) by (simp add: st'_def)
      next
        case False
        then have eq: "pa_values st' ! k = pa_values st ! k" by (simp add: st'_def)
        then have "pa_values st ! k \<noteq> None" using k(2) by simp
        then have "pa_values st ! k = Some (urls ! k)" using Cons.prems(6) k(1) by blast
        then show ?thesis using eq by simp
      qed
    qed
    have upd: "pa_values st' ! k = (if k = i then Some (urls ! i) else pa_values st ! k)"
      if "k < length urls" for k
      using that Cons.prems(2) by (simp add: st'_def)
    have "{k. k < length urls \<and> pa_values st' ! k = None} = {k. k < length urls \<and> pa_values st ! k = None} - {i}"
    proof (rule set_eqI)
      fix k
      show "k \<in> {k. k < length urls \<and> pa_values st' ! k = None} \<longleftrightarrow>
          k \<in> {k. k < length urls \<and> pa_values st ! k = None} - {i}"
        by (cases "k < length urls") (simp_all add: upd)
    qed
    also have "\<dots> = set is" using Cons.prems(3) by (simp only: Cons.prems(4) [symmetric]) auto
    finally have none: "{k. k < length urls \<and> pa_values st' ! k = None} = set is" .
    show ?thesis
    proof (cases "is = []")
      case True
      have "map the (pa_values st') = urls"
      proof (rule nth_equalityI)
        show "length (map the (pa_values st')) = length urls" using Cons.prems(2) by (simp add: st'_def)
        fix k assume "k < length (map the (pa_values st'))"
        then have k: "k < length urls" using Cons.prems(2) by (simp add: st'_def)
        have "k \<notin> {k. k < length urls \<and> pa_values st' ! k = None}" using none True by simp
        then have "pa_values st' ! k \<noteq> None" using k by simp
        then have "pa_values st' ! k = Some (urls ! k)" using vals k by blast
        moreover have "k < length (pa_values st')" using k Cons.prems(2) by (simp add: st'_def)
        ultimately show "map the (pa_values st') ! k = urls ! k" by simp
      qed
      moreover have "pa_step urls outcomes st i = pa_settle (Inr (map the (pa_values st'))) st'"
        using Loaded Cons.prems(5) True by (simp add: pa_step_def st'_def)
      ultimately show ?thesis using Loaded True Cons.prems(1)
        by (simp add: pa_settle_def preload_ref_def st'_def)
    next
      case False
      have step: "pa_step urls outcomes st i = st'"
        using Loaded Cons.prems(5) False by (simp add: pa_step_def st'_def)
      have "pa_result (foldl (pa_step urls outcomes) st' is) = Some (preload_ref urls outcomes is)"
      proof (rule Cons.IH)
        show "pa_result st' = None" using Cons.prems(1) by (simp add: st'_def)
        show "length (pa_values st') = length urls" using Cons.prems(2) by (simp add: st'_def)
        show "distinct is" using Cons.prems(3) by simp
        show "set is = {k. k < length urls \<and> pa_values st' ! k = None}" using none by simp
        show "pa_remaining st' = length is" using Cons.prems(5) by (simp add: st'_def)
        show "\<forall>k<length urls. pa_values st' ! k \<noteq> None \<longrightarrow> pa_values st' ! k = Some (urls ! k)" by (fact vals)
        show "is \<noteq> []" by (fact False)
      qed
      then show ?thesis using Loaded step by (simp add: preload_ref_def)
    qed
  qed
qed

section \<open>Properties\<close>

text \<open>
  C34: \<open>preloadImages\<close> settles to what \<open>Promise.all\<close> promises, whatever the order
  in which the images settle: the urls in their own order when every image loads,
  otherwise a rejection with the first image to fail in settling order.
\<close>

theorem preloadImages_eq_ref:
  assumes "distinct events" "set events = {..<length urls}"
  shows "preloadImages urls outcomes events = Some (preload_ref urls outcomes events)"
proof (cases "urls = []")
  case True
  then have "events = []" using assms(2) by simp
  with True show ?thesis by (simp add: preloadImages_def pa_init_def preload_ref_def)
next
  case False
  have "0 \<in> set events" using assms(2) False by simp
  then have ne: "events \<noteq> []" by auto
  have len: "length events = length urls"
    using distinct_card [OF assms(1)] assms(2) by simp
  have pend: "set events = {i. i < length urls \<and> pa_values (pa_init urls) ! i = None}"
    using assms(2) by (simp only: pa_init_pending)
  show ?thesis unfolding preloadImages_def
  proof (rule pa_run_pending [OF _ _ assms(1) pend _ _ ne])
    show "pa_result (pa_init urls) = None" using False by (simp add: pa_init_def)
    show "length (pa_values (pa_init urls)) = length urls" by (simp add: pa_init_def)
    show "pa_remaining (pa_init urls) = length events" using len by (simp add: pa_init_def)
    show "\<forall>k<length urls. pa_values (pa_init urls) ! k \<noteq> None \<longrightarrow> pa_values (pa_init urls) ! k = Some (urls ! k)"
      by (simp add: pa_init_def)
  qed
qed

section \<open>Witnesses\<close>

theorem preloadImages_eq_ref_witness:
  "preloadImages [''a.png'', ''b.png'', ''c.png''] [Failed, Loaded, Failed] [2, 1, 0] = Some (Inl ''c.png'')"
proof -
  have "preloadImages [''a.png'', ''b.png'', ''c.png''] [Failed, Loaded, Failed] [2, 1, 0] =
      Some (preload_ref [''a.png'', ''b.png'', ''c.png''] [Failed, Loaded, Failed] [2, 1, 0])"
    by (rule preloadImages_eq_ref) auto
  then show ?thesis by (simp add: preload_ref_def)
qed

end
