(* ===== verification/Page.thy ===== *)
theory Page
  imports Browser App Sections Scene3D Hero
begin

text \<open>
  The page \<open>App\<close> of \<open>src/src/App.jsx\<close> renders, as far as the in-page links depend
  on it: the ids of its elements in document order, the document they give with the
  browser's layout, and App's mount effect. The sections are \<open>Hero\<close>, \<open>About\<close>,
  \<open>Projects\<close>, \<open>Skills\<close>, \<open>Experience\<close> and \<open>Contact\<close> inside \<open>main\<close>; the loader
  comes first while \<open>isLoading\<close>; \<open>Navbar\<close>, \<open>Footer\<close> and \<open>ScrollToTop\<close> carry no
  id. App's import \<open>./components/Projects\<close> names a file the repository does not
  have; \<open>Projects\<close> is taken to be the one of \<open>components/sections/Projects.jsx\<close>.
\<close>

section \<open>Ids of the rendered elements\<close>

text \<open>\<open><section id="home">\<close> of \<open>Hero\<close>.\<close>

definition hero_ids :: "jstr list" where
  "hero_ids = [''home'']"

text \<open>\<open>SectionBackground\<close> renders \<open><section id={id}>\<close> around a section's content.\<close>

definition about_ids :: "jstr list" where
  "about_ids = [''about'']"

definition projects_ids :: "jstr list" where
  "projects_ids = [''projects'']"

definition skills_ids :: "jstr list" where
  "skills_ids = [''skills'']"

definition experience_ids :: "jstr list" where
  "experience_ids = [''experience'']"

text \<open>\<open>Contact\<close>: its section, then the four inputs of the form, always rendered.\<close>

definition contact_ids :: "jstr list" where
  "contact_ids = [''contact'', ''name'', ''email'', ''subject'', ''message'']"

text \<open>\<open>WaterDropLoader\<close>: the gradient of its constellation.\<close>

definition waterdrop_ids :: "jstr list" where
  "waterdrop_ids = [''particleGradient'']"

definition app_ids :: "app_state \<Rightarrow> jstr list" where
  "app_ids st =
     (if isLoading st then waterdrop_ids else []) @
     hero_ids @ about_ids @ projects_ids @ skills_ids @ experience_ids @ contact_ids"

text \<open>
  The document of the page: every element with an id, with the \<open>offsetTop\<close> and
  \<open>offsetHeight\<close> the browser's layout \<open>geo\<close> gives it.
\<close>

definition page_document :: "app_state \<Rightarrow> (jstr \<Rightarrow> real \<times> real) \<Rightarrow> document" where
  "page_document st geo = map (\<lambda>i. (i, geo i)) (app_ids st)"

section \<open>The hero's content\<close>

text \<open>
  What \<open>Hero\<close> renders around its canvas, from \<open>data.personal\<close>, \<open>data.hero\<close>, the
  typewriter's state and the cursor trail: the trail's dots, the heading, the typed
  title, the description, the two call-to-action buttons with the section each scrolls
  to, and the stats.
\<close>

record personal_data =
  pd_name :: jstr
  pd_description :: jstr
  pd_bio :: jstr

record hero_data =
  hd_titles :: "jstr list"
  hd_stats :: "(jstr \<times> jstr) list"   \<comment> \<open>\<open>value\<close> and \<open>label\<close> of each stat\<close>
  hd_cta_primary :: jstr
  hd_cta_secondary :: jstr

record trail_dot =
  td_left :: real
  td_top :: real
  td_opacity :: real
  td_scale :: real

definition trail_dots :: "trail_point list \<Rightarrow> trail_dot list" where
  "trail_dots ps =
     map (\<lambda>(index, p). \<lparr>td_left = tp_x p, td_top = tp_y p,
                        td_opacity = trail_scale (length ps) index * 0.5, td_scale = trail_scale (length ps) index\<rparr>)
       (zip [0..<length ps] ps)"

record hero_content =
  hc_trail :: "trail_dot list"
  hc_heading :: jstr
  hc_typed :: jstr
  hc_description :: jstr
  hc_buttons :: "(jstr \<times> jstr) list"   \<comment> \<open>label and the section scrolled to\<close>
  hc_stats :: "(jstr \<times> jstr) list"

text \<open>
  JSX drops the line break between \<open>{personalData.description}\<close> and
  \<open>{personalData.bio}\<close>: the two strings are rendered back to back.
\<close>

definition hero_content :: "personal_data \<Rightarrow> hero_data \<Rightarrow> tw_state \<Rightarrow> trail_state \<Rightarrow> hero_content" where
  "hero_content personalData heroData tw tr =
     \<lparr>hc_trail = trail_dots (cursorTrail tr),
      hc_heading = ''Hi, I'' @ [CHR 0x27] @ ''m '' @ pd_name personalData,
      hc_typed = hero_title tw,
      hc_description = pd_description personalData @ pd_bio personalData,
      hc_buttons = zip [hd_cta_primary heroData, hd_cta_secondary heroData] hero_cta_targets,
      hc_stats = hd_stats heroData\<rparr>"

section \<open>App's mount effect\<close>

record app_doc =
  scroll_behavior :: jstr    \<comment> \<open>\<open>document.documentElement.style.scrollBehavior\<close>\<close>
  console_warnings :: "jstr list"

definition app_mount_effect :: "webgl_env \<Rightarrow> app_doc \<Rightarrow> exn + app_doc" where
  "app_mount_effect env d =
     ebind (hasWebGLSupport env)
       (\<lambda>ok. Inr ((if \<not> ok then d\<lparr>console_warnings := console_warnings d @ [''WebGL is not supported in this browser'']\<rparr>
                  else d)\<lparr>scroll_behavior := ''smooth''\<rparr>))"

section \<open>Layouts in which the sections tile the page\<close>

text \<open>
  The sections of the navigation links follow each other without gaps or overlaps, in
  link order, each of positive height: the layout the scroll spy is written for.
\<close>

definition sections_tile :: "(jstr \<Rightarrow> real \<times> real) \<Rightarrow> bool" where
  "sections_tile geo =
     (\<forall>j < length navLinks. 0 < snd (geo (fst (navLinks ! j))) \<and>
        (Suc j < length navLinks \<longrightarrow>
           fst (geo (fst (navLinks ! Suc j))) = fst (geo (fst (navLinks ! j))) + snd (geo (fst (navLinks ! j)))))"

section \<open>Lemmas\<close>

lemmas app_ids_simps = app_ids_def waterdrop_ids_def hero_ids_def about_ids_def projects_ids_def skills_ids_def
  experience_ids_def contact_ids_def

lemma getElementById_page:
  "getElementById (page_document st geo) i = (if i \<in> set (app_ids st) then Some (geo i) else None)"
  by (simp add: getElementById_def page_document_def map_of_map_restrict)

lemma navLinks_in_app_ids: "set (map fst navLinks) \<subseteq> set (app_ids st)"
  by (simp add: app_ids_simps navLinks_def)

text \<open>The trail fades and shrinks from the newest dot to the oldest, and every dot is visible.\<close>

lemma trail_dots_fade:
  assumes "i < j" "j < length ps"
  shows "td_scale (trail_dots ps ! j) < td_scale (trail_dots ps ! i) \<and>
         0 < td_scale (trail_dots ps ! j) \<and> td_scale (trail_dots ps ! i) \<le> 1 \<and>
         td_opacity (trail_dots ps ! j) = td_scale (trail_dots ps ! j) / 2"
proof -
  have len: "0 < real (length ps)" using assms by linarith
  have sc: "td_scale (trail_dots ps ! k) = (real (length ps) - real k) / real (length ps)"
    and op: "td_opacity (trail_dots ps ! k) = (real (length ps) - real k) / real (length ps) * 0.5"
    if "k < length ps" for k
    using that by (simp_all add: trail_dots_def trail_scale_def)
  have "real (length ps) - real j < real (length ps) - real i" using assms(1) by simp
  then have "(real (length ps) - real j) / real (length ps) < (real (length ps) - real i) / real (length ps)"
    using len by (simp add: divide_strict_right_mono)
  moreover have "0 < (real (length ps) - real j) / real (length ps)" using assms(2) len by simp
  moreover have "(real (length ps) - real i) / real (length ps) \<le> 1" using len by simp
  ultimately show ?thesis using sc op assms by simp
qed

lemma active_after_nth:
  assumes "j < length ls" "holds lay pos (ls ! j)" "\<forall>k. j < k \<and> k < length ls \<longrightarrow> \<not> holds lay pos (ls ! k)"
  shows "active_after lay pos ls a = fst (ls ! j)"
proof -
  have ls: "ls = take j ls @ ls ! j # drop (Suc j) ls" using assms(1) by (simp add: id_take_nth_drop)
  have "\<not> holds lay pos x" if "x \<in> set (drop (Suc j) ls)" for x
  proof -
    have "\<exists>i < length (drop (Suc j) ls). drop (Suc j) ls ! i = x"
      using that by (simp only: in_set_conv_nth)
    then obtain i where i: "i < length (drop (Suc j) ls)" "drop (Suc j) ls ! i = x" by blast
    then have "Suc j + i < length ls" "x = ls ! (Suc j + i)" by simp_all
    then show ?thesis using assms(3) [rule_format, of "Suc j + i"] by simp
  qed
  then have "filter (holds lay pos) (drop (Suc j) ls) = []" by (simp add: filter_empty_conv)
  then have "filter (holds lay pos) ls = filter (holds lay pos) (take j ls) @ [ls ! j]"
    using assms(2) by (subst ls) simp
  then show ?thesis by (simp add: active_after_last list.case_eq_if)
qed

lemma tile_mono:
  fixes t h :: "nat \<Rightarrow> real"
  assumes "\<forall>j. Suc j < n \<longrightarrow> t (Suc j) = t j + h j" "\<forall>j<n. 0 < h j" "i \<le> k" "k < n"
  shows "t i \<le> t k"
  using assms(3,4)
proof (induction k)
  case 0
  then show ?case by simp
next
  case (Suc k)
  show ?case
  proof (cases "i = Suc k")
    case False
    then have "t i \<le> t k" using Suc by simp
    moreover have "t (Suc k) = t k + h k" "0 < h k" using assms(1,2) Suc.prems(2) by auto
    ultimately show ?thesis by simp
  qed simp
qed

section \<open>Properties\<close>

text \<open>
  C11: every in-page link of the site reaches its section, whether the loader is
  still shown or not: the ids of the page are distinct, the sections of the
  navigation links appear in link order, and \<open>scrollToSection\<close> for a navigation
  link, a footer quick link or a hero button scrolls to the top of that section.
\<close>

theorem page_links_resolve:
  "distinct (app_ids st) \<and>
   filter (\<lambda>i. i \<in> set (map fst navLinks)) (app_ids st) = map fst navLinks \<and>
   (\<forall>t\<in>set (map fst navLinks @ footer_targets @ hero_cta_targets).
      scrollToSection (page_document st geo) t y = fst (geo t))"
proof -
  have "distinct (app_ids st)" by (simp add: app_ids_simps)
  moreover have "filter (\<lambda>i. i \<in> set (map fst navLinks)) (app_ids st) = map fst navLinks"
    by (simp add: app_ids_simps navLinks_def)
  moreover have "scrollToSection (page_document st geo) t y = fst (geo t)"
    if "t \<in> set (map fst navLinks @ footer_targets @ hero_cta_targets)" for t
  proof -
    have "set (map fst navLinks @ footer_targets @ hero_cta_targets) \<subseteq> set (map fst navLinks)"
      by (simp add: footer_targets_navLinks hero_cta_targets_def navLinks_def)
    then have "t \<in> set (app_ids st)" using that navLinks_in_app_ids [of st] by blast
    then show ?thesis by (simp add: scrollToSection_def getElementById_page split: prod.split)
  qed
  ultimately show ?thesis by blast
qed

text \<open>
  C32: the navigation bar's scroll spy, run over the page App renders, highlights the
  section under the reading line (100 px below the top of the viewport) whenever the
  sections tile the page.
\<close>

theorem navbar_spy_page:
  assumes "sections_tile geo" "j < length navLinks"
    "fst (geo (fst (navLinks ! j))) \<le> scrollY + 100"
    "scrollY + 100 < fst (geo (fst (navLinks ! j))) + snd (geo (fst (navLinks ! j)))"
  shows "activeSection (handleScroll (getElementById (page_document st geo)) scrollY nst) = fst (navLinks ! j)"
proof -
  define t where "t k = fst (geo (fst (navLinks ! k)))" for k
  define h where "h k = snd (geo (fst (navLinks ! k)))" for k
  let ?lay = "getElementById (page_document st geo)"
  have tile: "\<forall>k. Suc k < length navLinks \<longrightarrow> t (Suc k) = t k + h k" "\<forall>k<length navLinks. 0 < h k"
    using assms(1) by (auto simp: sections_tile_def t_def h_def)
  have lay: "?lay (fst (navLinks ! k)) = Some (t k, h k)" if "k < length navLinks" for k
  proof -
    have "fst (navLinks ! k) \<in> set (app_ids st)" using that navLinks_in_app_ids by force
    then show ?thesis by (simp add: getElementById_page t_def h_def)
  qed
  have holds_k: "holds ?lay (scrollY + 100) (navLinks ! k) \<longleftrightarrow> t k \<le> scrollY + 100 \<and> scrollY + 100 < t k + h k"
    if "k < length navLinks" for k
    using lay [OF that] by (simp add: holds_def)
  have later: "\<not> holds ?lay (scrollY + 100) (navLinks ! k)" if "j < k" "k < length navLinks" for k
  proof -
    have "t (Suc j) \<le> t k" using tile_mono [OF tile, of "Suc j" k] that by simp
    moreover have "t (Suc j) = t j + h j" using tile(1) that by simp
    ultimately show ?thesis using holds_k [OF that(2)] assms(4) by (simp add: t_def h_def)
  qed
  have "holds ?lay (scrollY + 100) (navLinks ! j)" using holds_k [OF assms(2)] assms(3,4) by (simp add: t_def h_def)
  then have "active_after ?lay (scrollY + 100) navLinks (activeSection nst) = fst (navLinks ! j)"
    using later assms(2) by (intro active_after_nth) auto
  then show ?thesis by (simp add: handleScroll_def)
qed

text \<open>
  C40: App's mount effect never throws: \<open>hasWebGLSupport\<close> catches what the canvas
  probe throws, so the warning is logged exactly when WebGL is unavailable, and smooth
  scrolling is switched on in every browser.
\<close>

theorem app_mount_effect_total:
  "app_mount_effect env d =
     Inr (d\<lparr>console_warnings := console_warnings d @
              (if \<not> create_throws env \<and> webgl_ctor env \<and>
                  (ctx_webgl env = CtxObject \<or> ctx_webgl env = CtxNull \<and> ctx_experimental env = CtxObject)
               then [] else [''WebGL is not supported in this browser'']),
            scroll_behavior := ''smooth''\<rparr>)"
  by (simp add: app_mount_effect_def hasWebGLSupport_iff ebind_def)

section \<open>Witnesses\<close>

theorem page_links_resolve_witness:
  "scrollToSection (page_document app_init (\<lambda>i. if i = ''contact'' then (3000, 800) else (0, 0))) ''contact'' 0 = 3000"
proof -
  have "''contact'' \<in> set (map fst navLinks @ footer_targets @ hero_cta_targets)"
    by (simp add: hero_cta_targets_def)
  then show ?thesis
    using page_links_resolve [of app_init "\<lambda>i. if i = ''contact'' then (3000, 800) else (0, 0)" 0] by simp
qed

theorem navbar_spy_page_witness:
  "activeSection (handleScroll (getElementById (page_document app_init (\<lambda>i. case map_of [(''home'', (0, 1000)), (''about'', (1000, 1000)), (''projects'', (2000, 1000)), (''skills'', (3000, 1000)), (''experience'', (4000, 1000)), (''contact'', (5000, 1000))] i of Some g \<Rightarrow> g | None \<Rightarrow> (0, 0)))) 2950 nav_init) = ''skills''"
proof -
  have "sections_tile (\<lambda>i. case map_of [(''home'', (0, 1000)), (''about'', (1000, 1000)), (''projects'', (2000, 1000)), (''skills'', (3000, 1000)), (''experience'', (4000, 1000)), (''contact'', (5000, 1000))] i of Some g \<Rightarrow> g | None \<Rightarrow> (0, 0))"
    by (simp add: sections_tile_def navLinks_def less_Suc_eq numeral_eq_Suc)
  then show ?thesis
    using navbar_spy_page [of "(\<lambda>i. case map_of [(''home'', (0, 1000)), (''about'', (1000, 1000)), (''projects'', (2000, 1000)), (''skills'', (3000, 1000)), (''experience'', (4000, 1000)), (''contact'', (5000, 1000))] i of Some g \<Rightarrow> g | None \<Rightarrow> (0, 0))" 3 2950 app_init nav_init]
    by (simp add: navLinks_def)
qed

end
