(* ===== verification/Spec2Isabelle.thy ===== *)
theory Spec2Isabelle
  imports ContactForm ExpressApp Helpers Hero Navbar App Hooks IconMap Sections Particles3D Scene3D Page
begin

text \<open>
  \<^bold>\<open>A verification library for the portfolio site.\<close>

  The repository is a single-page portfolio (React, under \<open>src/src\<close>) with a small
  mail back end in two deployments: the Vercel function \<open>src/api/contact.js\<close> and the
  Express server \<open>src/server/index.js\<close> with its route module
  \<open>src/server/routes/email.js\<close>. A visitor fills the contact form
  (\<open>src/src/components/Contact.jsx\<close>), the browser checks it (\<open>validateForm\<close>,
  \<open>validateEmail\<close> of \<open>src/src/utils/helpers.js\<close>) and POSTs it as JSON; the back end
  validates the body again and calls the Mail Sender (nodemailer's \<open>sendMail\<close>)
  twice, first to notify the owner, then to acknowledge the visitor, and answers with
  an envelope \<open>{success, message, error?}\<close>. Around the form, the page is a loading
  screen, a navigation bar with a scroll spy, a hero with a typewriter and a cursor
  trail, data-driven sections, a scroll-to-top button and custom hooks.

  \<^bold>\<open>Theories of the contact path.\<close>
  \<^item> \<open>Prelude\<close>: the JavaScript primitives the code relies on: strings (code units
    restricted to Latin-1), the \<open>\s\<close> class, \<open>trim\<close>, \<open>toLowerCase\<close>, exceptions
    as the left side of a sum with \<open>ebind\<close>, parsed JSON values with truthiness,
    property access and \<open>ToString\<close>.
  \<^item> \<open>EmailRegex\<close>: the pattern \<open>/^[^\s@]+@[^\s@]+\.[^\s@]+$/\<close> shared by all three
    validators, as anchored pieces with a backtracking matcher (\<open>rx_match\<close>);
    its language as a decomposition (\<open>email_shape\<close>) and an executable direct check
    (\<open>email_check\<close>), both proved equal to it, and the browser's \<open>validateEmail\<close>.
  \<^item> \<open>Http\<close> and \<open>MailSender\<close>: requests, responses, the envelope, and the interface
    of the external Mail Sender. A \<open>transport\<close> parameter decides the outcome of each
    \<open>sendMail\<close> call; the world records every call and delivery; handlers run in the
    exception-and-state monad \<open>io\<close> (\<open>try\<close>/\<open>catch\<close> is \<open>io_catch\<close>).
  \<^item> \<open>ContactApi\<close>: \<open>api/contact.js\<close> line by line (\<open>validateEnv\<close>,
    \<open>createTransporter\<close>, \<open>validatePayload\<close>, the two options objects, \<open>handler\<close>
    with its \<open>try\<close> block \<open>contact_try\<close> and \<open>catch\<close> block \<open>contact_catch\<close>).
  \<^item> \<open>ContactForm\<close>: the \<open>Contact\<close> component as a state machine (\<open>form_reach\<close>)
    over \<open>handleChange\<close> and \<open>handleSubmit\<close>, split at its \<open>await fetch\<close> into
    \<open>submit_start\<close> and \<open>submit_finish\<close>.
  \<^item> \<open>EmailRoute\<close> and \<open>ExpressApp\<close>: the Express handlers \<open>sendContactEmail\<close> and
    \<open>sendTestEmail\<close>, the transporter's options (\<open>parseInt\<close> of \<open>SMTP_PORT\<close>, decimal or with a
    \<open>0x\<close> prefix hexadecimal),
    and the application's middleware stack (body parsers, CORS
    origin callback over the defaults and \<open>CORS_ORIGINS\<close>, \<open>CLIENT_URL\<close> or
    \<open>VERCEL_URL\<close>, which lets an absent or empty \<open>Origin\<close> through, routes, 404 fallback, error handler).

  \<^bold>\<open>Theories of the page.\<close>
  \<^item> \<open>Helpers\<close>: \<open>debounce\<close> and \<open>throttle\<close> as closure state folded over timestamped
    calls, \<open>clamp\<close>, \<open>lerp\<close>, \<open>getScrollProgress\<close> and \<open>isInViewport\<close> over the
    number type \<open>jnum\<close> (reals with \<open>NaN\<close> and the infinities), \<open>randomColor\<close>
    with \<open>toString(16)\<close>.
  \<^item> \<open>Browser\<close>: the helpers that call the browser: \<open>scrollToSection\<close> over a
    document given as its elements with ids, in order (\<open>getElementById\<close> finds the
    first), \<open>hasWebGLSupport\<close> with its \<open>try\<close> over the outcomes of
    \<open>createElement\<close> and the two \<open>getContext\<close> probes, and \<open>preloadImages\<close> as the
    state of \<open>Promise.all\<close> folded over the order in which the images settle.
  \<^item> \<open>Hero\<close>: the typewriter of \<open>Hero.jsx\<close> as a discrete-event system (state, clock
    and queue of pending timers; \<open>tw_fire\<close> fires the earliest; \<open>tw_run\<close> fires
    \<open>n\<close> of them; \<open>tw_reach\<close> the reachable states), and the cursor trail.
  \<^item> \<open>Navbar\<close>: the bar's three state hooks, the scroll spy \<open>handleScroll\<close> over a
    page layout given as a parameter, \<open>handleNavClick\<close>, \<open>toggleMenu\<close>, the step
    relation \<open>nav_reach\<close> and the rendered view.
  \<^item> \<open>App\<close>: \<open>App\<close>, \<open>ScrollToTop\<close> of \<open>App.jsx\<close> and the loader of \<open>Loader.jsx\<close>
    (its progress interval, its view, its constellation, floating particles and
    pulsing circles); each draw of \<open>Math.random()\<close> is a parameter of the tick or
    render that makes it.
  \<^item> \<open>Hooks\<close>: \<open>useWindowSize\<close>, the mouse hooks, the GSAP scroll hooks (an effect
    as its mount and cleanup) and the \<open>useFrame\<close> callbacks of \<open>use3DAnimation.js\<close>.
  \<^item> \<open>IconMap\<close> and \<open>Sections\<close>: \<open>getIcon\<close> over the object literal \<open>iconMap\<close>
    (whose inherited \<open>Object.prototype\<close> members it also finds, the functions and the
    object \<open>__proto__\<close>), and the data-driven
    sections and cards: the project filter, project, timeline, experience and skill
    cards, the About highlights, the footer (quick links, social links, copyright
    line), the contact details and \<open>SectionBackground\<close>.
  \<^item> \<open>Particles3D\<close>: \<open>InteractiveParticles\<close> of \<open>Canvas/InteractiveElements.jsx\<close>,
    its memoised layout and refs (\<open>ip_memo\<close>), the per-frame \<open>for\<close> loop over a
    flat typed array as a \<open>function\<close> with its termination proof (\<open>ip_loop\<close>), and
    the component's life as a step relation (\<open>ip_reach\<close>).
  \<^item> \<open>Scene3D\<close>: the other frame callbacks of \<open>InteractiveElements.jsx\<close> and
    \<open>Models.jsx\<close>, the effect packages of \<open>Effects.jsx\<close>, and the 3D part of
    \<open>Hero.jsx\<close> (error boundary, pixel-ratio range, scene, scroll trigger).
  \<^item> \<open>Page\<close>: how the parts meet on the page. \<open>app_ids\<close> lists the ids App's
    render puts in the document, in order, for an \<open>App\<close> state (the loader's while
    \<open>isLoading\<close>, then the six sections and the contact form's inputs);
    \<open>page_document\<close> pairs them with the browser's layout; \<open>app_mount_effect\<close>
    is App's mount effect over \<open>hasWebGLSupport\<close>; \<open>hero_content\<close> is what
    \<open>Hero\<close> renders around its canvas (trail dots, heading, typed title,
    description, buttons and their targets, stats). App's import path
    \<open>./components/Projects\<close> has no file; the section of
    \<open>components/sections/Projects.jsx\<close> stands for it.

  \<^bold>\<open>What is proved.\<close> For the Vercel handler: the success path (200 after exactly
  two sends, admin first), the 405, 400 and both 500 branches, and that every request
  is answered with at most two sends, a delivered prefix of the attempts. For the
  validators: every branch of \<open>validatePayload\<close>, the equivalences of the pattern,
  the agreement of the browser's check and of the Express route's with the server's,
  and that an accepted address has one \<open>@\<close> and no whitespace. For the form: the
  reachable-state invariant and the round trip of a submission (C20). For Express:
  the effects and answers of each route, CORS refusal, 404 and the health check. For
  the page: \<open>debounce\<close> equals a reference definition, \<open>throttle\<close>'s spacing
  and dropped trailing call (C9), the hexadecimal round trip and \<open>randomColor\<close>'s
  length bounds (C14), the typewriter's
  invariant and its cycle, the trail's well-formedness, the navigation bar's invariant,
  the loader's completion and the hover frame's contraction; \<open>preloadImages\<close>
  equals a reference for every settling order (C34). Across the page: every
  navigation link, footer quick link and hero button reaches its section, with or
  without the loader (C11); the scroll spy run over the page App renders highlights
  the section under the reading line whenever the sections tile the page (C32); and
  App's mount effect never throws, warning exactly when WebGL is missing (C40). For
  the particle cloud:
  the frame loop terminates (by the domain of \<open>ip_loop\<close> as in a stack-based
  Ackermann proof), its buffers are well typed in every reachable state (C15), the
  in-place loop equals a reference over the particles (C33), the mouse only repels
  (C27), and the original positions go stale when \<open>count\<close> changes (C37).

  \<^bold>\<open>Choices, bounds and fuel.\<close> JavaScript strings are lists of HOL \<open>char\<close> (code
  units below 256); \<open>\s\<close>, \<open>trim\<close> and \<open>toLowerCase\<close> are exact on that range.
  JSON numbers are integers; browser numbers are reals with the non-finite values as
  constructors of \<open>jnum\<close>, rounding not modelled. Message templates are represented
  by their constructor and interpolated values. The Mail Sender's behaviour is a
  parameter, so each theorem holds for every transport that meets its hypotheses.
  Every loop is total, so none needs fuel: all recursion is structural except the
  particle frame loop, a \<open>function\<close> whose termination is proved by the measure
  \<open>count - i\<close>. The runs of the
  event systems take the number of events as an argument, and the liveness theorems
  give that number: a title of \<open>L\<close> characters completes in \<open>2L + 3\<close> timer
  firings (C36), and the loader completes within 51 interval ticks, since every tick
  adds at least 2 to the progress and the 51st sees it at 100 (C39).

  \<^bold>\<open>Not modelled.\<close> three.js and drei themselves (the meshes are reduced to the
  values their frame callbacks write), \<open>Canvas/Scene.jsx\<close> (a wrapper), markup,
  class names and CSS animation, GSAP's own tweening, \<open>usePortfolioData\<close>'s JSON
  file (its items are parameters), \<open>formatDate\<close> (its result is the browser
  locale's \<open>toLocaleDateString\<close>; nothing calls it), the smooth-scroll animation
  and the clamping of a scroll to the scrollable range, the unused exports of \<open>utils/constants.js\<close>
  (only \<open>navLinks\<close> is imported), \<open>Projects_old.jsx\<close> and \<open>Experience_old2.jsx\<close>
  (they do not parse and nothing imports them), \<open>sections/Experience.jsx\<close> and
  \<open>sections/Skills.jsx\<close> (copies of the modelled sections that nothing imports), CORS response headers, the body-size
  limit of \<open>express.json\<close>, logging, \<open>dotenv\<close>, nodemailer's SMTP protocol, and the
  exception Vercel's \<open>req.body\<close> getter raises on a malformed JSON body (the request
  carries the parsed body; the handler's \<open>catch\<close> would answer it with 500).
\<close>

section \<open>Properties across components\<close>

text \<open>
  C20: the round trip of a submission. Whatever the browser posts after its own
  validation, the Vercel handler (with the SMTP environment set and a Mail Sender that
  succeeds) answers 200 after delivering both messages, and the browser, reading that
  answer, shows the server's confirmation as a success and empties the form.
\<close>

theorem contact_round_trip:
  assumes start: "submit_start st = (st1, Some body)"
    and env: "\<forall>k\<in>set requiredEnv. env_set e k" and tr: "\<forall>i m. tr i m = None"
    and req: "rq_method req = ''POST''" "rq_body req = body"
    and run: "handler e now tr req w = (r, w')"
  shows "\<exists>resp. r = Inr resp \<and> rs_status resp = 200 \<and>
    submitStatus (submit_finish (JsonBody (rs_body resp)) st1) = Some (StatusSuccess, JStr msg_sent) \<and>
    formData (submit_finish (JsonBody (rs_body resp)) st1) = empty_form \<and>
    length (w_delivered w') = length (w_delivered w) + 2"
proof -
  let ?fd = "formData st"
  from start have ok: "\<forall>f. form_errors ?fd f = None" and b: "body = form_json ?fd"
    by (simp_all add: submit_start_Some)
  note v = form_errors_none [OF ok]
  have "rq_body req = form_body (fd_name ?fd) (fd_email ?fd) (fd_subject ?fd) (fd_message ?fd)"
    using req(2) b by (simp add: form_json_def)
  from handler_valid_form [OF req(1) this v env] tr run
  have r: "r = Inr (json_response 200 (envelope True msg_sent None))"
    and w: "length (w_delivered w') = length (w_delivered w) + 2"
    by (auto simp: io_simps)
  show ?thesis
    using r w by (simp add: submit_finish_def or_default_def msg_sent_def envelope_def)
qed

text \<open>
  C21: the two validators differ on whitespace. For every form whose name is a
  non-empty string of whitespace and whose other fields pass the browser's checks,
  the server accepts the body while the browser rejects the name with
  "Name is required" (the spec requires whitespace-only fields to be rejected).
\<close>

theorem whitespace_name_divergence:
  assumes "fd_name fd \<noteq> []" "\<forall>c\<in>set (fd_name fd). js_ws c"
    "form_errors fd FEmail = None" "form_errors fd FSubject = None" "form_errors fd FMessage = None"
  shows "validatePayload (form_json fd) = Inr None \<and> form_errors fd FName = Some ''Name is required''"
proof -
  have sb: "fd_subject fd \<noteq> []"
    using assms(4) by (auto simp: form_errors_def dest: trim_nonempty split: if_splits)
  have em: "email_regex_test (fd_email fd)"
    using assms(3) by (auto simp: form_errors_def validateEmail_def email_regex_test_lower split: if_splits)
  have m: "10 \<le> length (js_trim (fd_message fd))"
    using assms(5) by (auto simp: form_errors_def split: if_splits)
  have "validatePayload (form_json fd) = Inr None"
    using validatePayload_form_ok [OF assms(1) sb em m] by (simp add: form_json_def)
  moreover have "js_trim (fd_name fd) = []" using assms(2) by (auto simp: js_trim_def dropWhile_eq_Nil_conv dest: set_dropWhileD)
  ultimately show ?thesis by (simp add: form_errors_def)
qed

text \<open>
  C30: the two back ends validate alike: on every body that can be destructured, the
  Express route's inline checks (\<open>routes/email.js\<close>) return the same verdict or
  throw the same exception as \<open>validatePayload\<close> of \<open>api/contact.js\<close>.
\<close>

theorem validators_agree:
  assumes "b \<noteq> JUndef" "b \<noteq> JNull"
  shows "ebind (destructure_body b) (\<lambda>(n, em, sb, m). route_validate n em sb m) = validatePayload b"
proof -
  have d: "destructure_body b =
      Inr (get_field b ''name'', get_field b ''email'', get_field b ''subject'', get_field b ''message'')"
    using assms by (cases b) (simp_all add: destructure_body_def)
  have g: "get_field (if js_truthy b then b else JObj []) k = get_field b k" for k
    by (cases b) auto
  show ?thesis unfolding validatePayload_def Let_def g by (simp add: d route_validate_def)
qed

section \<open>Witnesses\<close>

theorem contact_round_trip_witness:
  "\<exists>resp. fst (handler demo_env ''now'' tr_ok
      (demo_req ''POST'' (form_json (formData demo_typed))) init_world) = Inr resp \<and>
    submitStatus (submit_finish (JsonBody (rs_body resp)) (fst (submit_start demo_typed))) =
      Some (StatusSuccess, JStr msg_sent)"
proof -
  have s: "submit_start demo_typed = (fst (submit_start demo_typed), Some (form_json (formData demo_typed)))"
    by (cases rule: submit_start_cases [of demo_typed]) (use demo_typed_valid in auto)
  obtain r w' where h: "handler demo_env ''now'' tr_ok
      (demo_req ''POST'' (form_json (formData demo_typed))) init_world = (r, w')"
    by fastforce
  have "\<forall>k\<in>set requiredEnv. env_set demo_env k" by (rule demo_facts(3))
  from contact_round_trip [OF s this _ _ _ h] h show ?thesis by (auto simp: demo_req_def)
qed


theorem validators_agree_witness:
  "ebind (destructure_body (form_body ''Bob'' ''not-an-email'' ''Hi'' ''Loved your site!''))
     (\<lambda>(n, em, sb, m). route_validate n em sb m) = Inr (Some ''Invalid email format'')"
proof -
  have "validatePayload (form_body ''Bob'' ''not-an-email'' ''Hi'' ''Loved your site!'') =
        Inr (Some ''Invalid email format'')"
    by (simp add: validatePayload_def form_body_def demo_eval)
  then show ?thesis
    using validators_agree [of "form_body ''Bob'' ''not-an-email'' ''Hi'' ''Loved your site!''"]
    by (simp add: form_body_def)
qed

theorem whitespace_name_divergence_witness:
  "validatePayload (form_json \<lparr>fd_name = ''   '', fd_email = ''ada@example.com'', fd_subject = ''Hi'',
     fd_message = ''Loved your site!''\<rparr>) = Inr None \<and>
   form_errors \<lparr>fd_name = ''   '', fd_email = ''ada@example.com'', fd_subject = ''Hi'',
     fd_message = ''Loved your site!''\<rparr> FName = Some ''Name is required''"
proof (rule whitespace_name_divergence)
  show "form_errors \<lparr>fd_name = ''   '', fd_email = ''ada@example.com'', fd_subject = ''Hi'',
      fd_message = ''Loved your site!''\<rparr> FEmail = None"
    by (simp add: form_errors_def validateEmail_def js_trim_def js_ws_def js_lower_def js_lower_char_def
        email_regex_test_def email_regex_def not_ws_at_def)
qed (simp_all add: form_errors_def js_trim_def js_ws_def)

end
